theory Spec2Isabelle
  imports Complex_Main
begin

section \<open>Errors and helpers\<close>

text \<open>
  \<^verbatim>\<open>utils/errors.ts\<close>: an \<^verbatim>\<open>AppError\<close> carries a message, an HTTP status code and an
  optional code; \<^verbatim>\<open>NotFoundError(resource)\<close> is the \<^verbatim>\<open>AppError\<close> with message
  \<^verbatim>\<open>`${resource} not found`\<close>, status 404 and code \<^verbatim>\<open>NOT_FOUND\<close>.
  The handlers also let two errors of the database layer escape, which
  \<^verbatim>\<open>middleware/error.middleware.ts\<close> later turns into 400 responses: the \<^verbatim>\<open>CastError\<close> of a
  lookup by a string that is not an object id (with the path and the offending value), and the
  \<^verbatim>\<open>ValidationError\<close> of a document that fails its schema.
  A handler that throws is modelled by a result \<open>Inl error\<close> paired with the store it
  leaves behind.
\<close>

datatype error =
    AppError string nat "string option"
  | MongooseCastError string string
  | MongooseValidationError

definition NotFoundError :: "string \<Rightarrow> error" where
  "NotFoundError resource = AppError (resource @ '' not found'') 404 (Some ''NOT_FOUND'')"

text \<open>
  \<^verbatim>\<open>Array.prototype.findIndex\<close>: the index of the first element satisfying the predicate
  (\<open>None\<close> stands for the result \<^verbatim>\<open>-1\<close>).
\<close>

fun findIndex :: "('a \<Rightarrow> bool) \<Rightarrow> 'a list \<Rightarrow> nat option" where
  "findIndex p [] = None"
| "findIndex p (x # xs) =
     (if p x then Some 0 else (case findIndex p xs of None \<Rightarrow> None | Some i \<Rightarrow> Some (Suc i)))"

text \<open>
  \<^verbatim>\<open>Array.prototype.map\<close> with a callback that may throw, and \<^verbatim>\<open>Promise.all\<close> over the
  results of an asynchronous callback: the first failure aborts the whole and no array is
  produced.
\<close>

fun map_throw :: "('a \<Rightarrow> 'e + 'b) \<Rightarrow> 'a list \<Rightarrow> 'e + 'b list" where
  "map_throw f [] = Inr []"
| "map_throw f (x # xs) =
     (case f x of
        Inl e \<Rightarrow> Inl e
      | Inr y \<Rightarrow> (case map_throw f xs of Inl e \<Rightarrow> Inl e | Inr ys \<Rightarrow> Inr (y # ys)))"

text \<open>
  Strings are sequences of code units below 256. \<^verbatim>\<open>String.prototype.trim\<close>, which the
  schema option \<^verbatim>\<open>trim: true\<close> applies, removes the white space and line terminators at both
  ends; among these code units they are TAB, LF, VT, FF, CR, SPACE and NO-BREAK SPACE.
\<close>

definition isWhiteSpace :: "char \<Rightarrow> bool" where
  "isWhiteSpace c = (of_char c \<in> set [9, 10, 11, 12, 13, 32, 160 :: nat])"

definition trim :: "string \<Rightarrow> string" where
  "trim s = rev (dropWhile isWhiteSpace (rev (dropWhile isWhiteSpace s)))"

section \<open>JavaScript numbers\<close>

text \<open>
  A JavaScript number is an IEEE 754 binary64 value: a finite value, which is a rational
  number, one of the two infinities, or NaN. The sign of zero is not represented; it shows
  only in a division by zero, where the model takes the zero as positive (the divisors of the
  code below are the constant 100, a stored time limit and a sum already tested to be
  positive).
\<close>

datatype number = Fin rat | PosInf | NegInf | NaN

text \<open>
  \<open>ilog2 x\<close> is the binary exponent of a positive \<open>x\<close>: the integer \<open>e\<close> for which
  \<open>x\<close> is at least \<open>2 powi e\<close> and below \<open>2 powi (e + 1)\<close>.
\<close>

function ilog2 :: "rat \<Rightarrow> int" where
  "ilog2 x = (if x \<le> 0 then 0
              else if x < 1 then ilog2 (2 * x) - 1
              else if 2 \<le> x then ilog2 (x / 2) + 1
              else 0)"
  by pat_completeness auto
termination
proof (relation "measure (\<lambda>x. if 1 \<le> x then nat \<lfloor>x\<rfloor> else nat \<lfloor>1 / x\<rfloor> + 1)")
  show "wf (measure (\<lambda>x::rat. if 1 \<le> x then nat \<lfloor>x\<rfloor> else nat \<lfloor>1 / x\<rfloor> + 1))" by simp
next
  fix x :: rat
  assume a: "\<not> x \<le> 0" "x < 1"
  show "(2 * x, x) \<in> measure (\<lambda>x. if 1 \<le> x then nat \<lfloor>x\<rfloor> else nat \<lfloor>1 / x\<rfloor> + 1)"
  proof (cases "1 \<le> 2 * x")
    case True
    then have "\<lfloor>2 * x\<rfloor> = 1" using a by (simp add: floor_eq_iff)
    moreover have "1 \<le> 1 / x" using a by (simp add: le_divide_eq)
    then have "1 \<le> \<lfloor>1 / x\<rfloor>" by (simp add: le_floor_iff)
    ultimately show ?thesis using True a by simp
  next
    case False
    define y where "y = 1 / x"
    from False a have h: "2 < y" by (simp add: y_def less_divide_eq)
    have e: "1 / (2 * x) = y / 2" by (simp add: y_def)
    have "\<lfloor>y / 2\<rfloor> \<le> \<lfloor>y - 1\<rfloor>"
      by (rule floor_mono) (use h in simp)
    moreover have "0 \<le> \<lfloor>y / 2\<rfloor>" using h by (simp add: le_floor_iff)
    moreover have "\<lfloor>y - 1\<rfloor> = \<lfloor>y\<rfloor> - 1" by simp
    ultimately have n: "nat \<lfloor>y / 2\<rfloor> + 1 < nat \<lfloor>y\<rfloor> + 1" by linarith
    have c1: "\<not> 1 \<le> 2 * x" by (rule False)
    have c2: "\<not> 1 \<le> x" using a by simp
    have "(if 1 \<le> 2 * x then nat \<lfloor>2 * x\<rfloor> else nat \<lfloor>1 / (2 * x)\<rfloor> + 1)
        < (if 1 \<le> x then nat \<lfloor>x\<rfloor> else nat \<lfloor>1 / x\<rfloor> + 1)"
      unfolding e using n by (simp only: c1 c2 if_False y_def)
    then show ?thesis by (simp only: in_measure)
  qed
next
  fix x :: rat
  assume a: "\<not> x \<le> 0" "\<not> x < 1" "2 \<le> x"
  have "\<lfloor>x / 2\<rfloor> \<le> \<lfloor>x - 1\<rfloor>" by (rule floor_mono) (use a in simp)
  moreover have "1 \<le> \<lfloor>x / 2\<rfloor>" using a by (simp add: le_floor_iff)
  ultimately show "(x / 2, x) \<in> measure (\<lambda>x. if 1 \<le> x then nat \<lfloor>x\<rfloor> else nat \<lfloor>1 / x\<rfloor> + 1)"
    using a by simp
qed

declare ilog2.simps [simp del]

text \<open>Rounding to the nearest integer, a tie going to the even one.\<close>

definition rne :: "rat \<Rightarrow> int" where
  "rne y = (let f = \<lfloor>y\<rfloor>; d = y - of_int f
            in if d < 1 / 2 then f else if 1 / 2 < d then f + 1 else if even f then f else f + 1)"

text \<open>
  The binary exponent of a value, kept within the range of the format (below the smallest
  normal number the spacing of the subnormal numbers applies), and the rounding of a rational
  to 53 significant bits at that exponent.
\<close>

definition expo :: "rat \<Rightarrow> int" where
  "expo x = max (- 1022) (min 1023 (ilog2 \<bar>x\<bar>))"

definition rnd :: "rat \<Rightarrow> rat" where
  "rnd x = of_int (rne (x / 2 powi (expo x - 52))) * 2 powi (expo x - 52)"

text \<open>
  The number that an exact result rounds to (round to nearest, ties to even); a result that
  rounds beyond the largest finite value becomes an infinity.
\<close>

definition fl :: "rat \<Rightarrow> number" where
  "fl x = (if 2 powi 1024 \<le> rnd x then PosInf
           else if rnd x \<le> - (2 powi 1024) then NegInf
           else Fin (rnd x))"

text \<open>The operators \<^verbatim>\<open>+\<close>, \<^verbatim>\<open>-\<close>, \<^verbatim>\<open>*\<close>, \<^verbatim>\<open>/\<close>, \<^verbatim>\<open>>\<close> and \<^verbatim>\<open>>=\<close> on numbers.\<close>

fun num_neg :: "number \<Rightarrow> number" where
  "num_neg (Fin x) = Fin (- x)"
| "num_neg PosInf = NegInf"
| "num_neg NegInf = PosInf"
| "num_neg NaN = NaN"

fun num_add :: "number \<Rightarrow> number \<Rightarrow> number" where
  "num_add (Fin x) (Fin y) = fl (x + y)"
| "num_add NaN b = NaN"
| "num_add a NaN = NaN"
| "num_add PosInf NegInf = NaN"
| "num_add NegInf PosInf = NaN"
| "num_add PosInf b = PosInf"
| "num_add a PosInf = PosInf"
| "num_add NegInf b = NegInf"
| "num_add a NegInf = NegInf"

definition num_sub :: "number \<Rightarrow> number \<Rightarrow> number" where
  "num_sub a b = num_add a (num_neg b)"

fun num_mul :: "number \<Rightarrow> number \<Rightarrow> number" where
  "num_mul (Fin x) (Fin y) = fl (x * y)"
| "num_mul NaN b = NaN"
| "num_mul a NaN = NaN"
| "num_mul (Fin x) PosInf = (if x = 0 then NaN else if 0 < x then PosInf else NegInf)"
| "num_mul (Fin x) NegInf = (if x = 0 then NaN else if 0 < x then NegInf else PosInf)"
| "num_mul PosInf (Fin y) = (if y = 0 then NaN else if 0 < y then PosInf else NegInf)"
| "num_mul NegInf (Fin y) = (if y = 0 then NaN else if 0 < y then NegInf else PosInf)"
| "num_mul PosInf PosInf = PosInf"
| "num_mul PosInf NegInf = NegInf"
| "num_mul NegInf PosInf = NegInf"
| "num_mul NegInf NegInf = PosInf"

fun num_div :: "number \<Rightarrow> number \<Rightarrow> number" where
  "num_div (Fin x) (Fin y) =
     (if y = 0 then (if x = 0 then NaN else if 0 < x then PosInf else NegInf) else fl (x / y))"
| "num_div NaN b = NaN"
| "num_div a NaN = NaN"
| "num_div (Fin x) PosInf = Fin 0"
| "num_div (Fin x) NegInf = Fin 0"
| "num_div PosInf (Fin y) = (if 0 \<le> y then PosInf else NegInf)"
| "num_div NegInf (Fin y) = (if 0 \<le> y then NegInf else PosInf)"
| "num_div PosInf PosInf = NaN"
| "num_div PosInf NegInf = NaN"
| "num_div NegInf PosInf = NaN"
| "num_div NegInf NegInf = NaN"

fun num_gt :: "number \<Rightarrow> number \<Rightarrow> bool" where
  "num_gt (Fin x) (Fin y) = (y < x)"
| "num_gt NaN b = False"
| "num_gt a NaN = False"
| "num_gt NegInf b = False"
| "num_gt a PosInf = False"
| "num_gt PosInf b = True"
| "num_gt a NegInf = True"

fun num_ge :: "number \<Rightarrow> number \<Rightarrow> bool" where
  "num_ge (Fin x) (Fin y) = (y \<le> x)"
| "num_ge NaN b = False"
| "num_ge a NaN = False"
| "num_ge PosInf b = True"
| "num_ge a NegInf = True"
| "num_ge NegInf b = False"
| "num_ge a PosInf = False"

text \<open>
  \<^verbatim>\<open>Math.max\<close> of two numbers, and \<^verbatim>\<open>Math.round\<close>: the integer nearest to the value, a
  tie going up (the result is always a value of the format).
\<close>

fun Math_max :: "number \<Rightarrow> number \<Rightarrow> number" where
  "Math_max (Fin x) (Fin y) = Fin (max x y)"
| "Math_max NaN b = NaN"
| "Math_max a NaN = NaN"
| "Math_max PosInf b = PosInf"
| "Math_max a PosInf = PosInf"
| "Math_max NegInf b = b"
| "Math_max a NegInf = a"

fun Math_round :: "number \<Rightarrow> number" where
  "Math_round (Fin x) = Fin (of_int \<lfloor>x + 1 / 2\<rfloor>)"
| "Math_round a = a"

section \<open>Quiz domain\<close>

text \<open>
  \<^verbatim>\<open>models/quiz.model.ts\<close> and \<^verbatim>\<open>models/quizAttempt.model.ts\<close>. Object ids are
  compared through their string form, so they are strings here. Timestamps maintained by
  Mongoose and the slug hook are not part of the model.
\<close>

record Answer =
  answer_text :: string
  isCorrect :: bool

record Question =
  question_id :: string
  questionText :: string
  imageUrl :: "string option"
  answers :: "Answer list"
  timeLimitSeconds :: number
  marks :: number

record Quiz =
  quiz_id :: string
  title :: string
  description :: "string option"
  questions :: "Question list"
  isVisible :: bool

record SubmittedResponse =
  req_questionId :: string
  req_selectedAnswerIndex :: int
  req_responseTimeSeconds :: number

text \<open>
  The request body of an attempt. \<open>req_responses = None\<close> stands for a body whose
  \<^verbatim>\<open>responses\<close> is missing or not an array; a missing \<^verbatim>\<open>participantName\<close> is the empty
  string (the schema rejects both alike).
\<close>

record AttemptBody =
  req_participantName :: string
  req_responses :: "SubmittedResponse list option"

record QuestionResponse =
  questionId :: string
  selectedAnswerIndex :: int
  responseTimeSeconds :: number
  resp_isCorrect :: bool
  marksAwarded :: number

record QuizAttempt =
  quizId :: string
  participantName :: string
  responses :: "QuestionResponse list"
  totalMarks :: number
  maxMarks :: number
  percentage :: number
  completedAt :: nat

record quiz_db =
  quizzes :: "Quiz list"
  attempts :: "QuizAttempt list"

text \<open>\<^verbatim>\<open>Quiz.findById\<close>.\<close>

definition Quiz_findById :: "Quiz list \<Rightarrow> string \<Rightarrow> Quiz option" where
  "Quiz_findById qs i = find (\<lambda>q. quiz_id q = i) qs"

text \<open>
  The validators of \<^verbatim>\<open>questionResponseSchema\<close> and \<^verbatim>\<open>quizAttemptSchema\<close>, on a document
  whose setters have run: a number path rejects NaN (it does not cast), \<^verbatim>\<open>min\<close> and
  \<^verbatim>\<open>max\<close> compare with \<^verbatim>\<open>>=\<close> and \<^verbatim>\<open><=\<close>, and the name has 2 to 100 code units.
\<close>

definition QuestionResponse_validate :: "QuestionResponse \<Rightarrow> bool" where
  "QuestionResponse_validate r =
     (0 \<le> selectedAnswerIndex r \<and> selectedAnswerIndex r \<le> 3
      \<and> num_ge (responseTimeSeconds r) (Fin 0)
      \<and> num_ge (marksAwarded r) (Fin 0))"

definition QuizAttempt_validate :: "QuizAttempt \<Rightarrow> bool" where
  "QuizAttempt_validate a =
     (2 \<le> length (participantName a) \<and> length (participantName a) \<le> 100
      \<and> list_all QuestionResponse_validate (responses a)
      \<and> totalMarks a \<noteq> NaN \<and> maxMarks a \<noteq> NaN \<and> percentage a \<noteq> NaN)"

text \<open>
  \<^verbatim>\<open>QuizAttempt.create\<close>: the name is trimmed, the document validated and, when valid,
  appended to the collection.
\<close>

definition QuizAttempt_create :: "quiz_db \<Rightarrow> QuizAttempt \<Rightarrow> (error + QuizAttempt) \<times> quiz_db" where
  "QuizAttempt_create db doc =
     (let d = doc\<lparr>participantName := trim (participantName doc)\<rparr>
      in if QuizAttempt_validate d then (Inr d, db\<lparr>attempts := attempts db @ [d]\<rparr>)
         else (Inl MongooseValidationError, db))"

text \<open>
  \<^verbatim>\<open>new Map(quiz.questions.map((q) => [q._id.toString(), q]))\<close>: entries are inserted in
  order, a later entry replacing an earlier one under the same key.
\<close>

definition questionMap :: "Question list \<Rightarrow> (string \<rightharpoonup> Question)" where
  "questionMap qs = fold (\<lambda>q m. m(question_id q \<mapsto> q)) qs Map.empty"

text \<open>
  \<^verbatim>\<open>question.answers[selectedIndex]?.isCorrect || false\<close>: an index outside the array
  reads \<^verbatim>\<open>undefined\<close>, which the expression turns into \<^verbatim>\<open>false\<close>.
\<close>

definition answerIsCorrect :: "Answer list \<Rightarrow> int \<Rightarrow> bool" where
  "answerIsCorrect as i = (if 0 \<le> i \<and> i < int (length as) then isCorrect (as ! nat i) else False)"

text \<open>
  The callback of \<^verbatim>\<open>responses.map\<close> in \<^verbatim>\<open>submitQuizAttempt\<close>. The literal \<^verbatim>\<open>0.1\<close> is
  the number nearest to one tenth.
\<close>

definition scoreResponse :: "(string \<rightharpoonup> Question) \<Rightarrow> SubmittedResponse \<Rightarrow> error + QuestionResponse" where
  "scoreResponse qmap response =
     (case qmap (req_questionId response) of
        None \<Rightarrow>
          Inl (AppError (''Question '' @ req_questionId response @ '' not found in this quiz'') 400 None)
      | Some question \<Rightarrow>
          (let selectedIndex = req_selectedAnswerIndex response;
               responseTime = req_responseTimeSeconds response;
               correct = answerIsCorrect (answers question) selectedIndex;
               awarded =
                 (if correct then
                    (let timeLimit = timeLimitSeconds question;
                         timeFraction =
                           Math_max (Fin 0) (num_div (num_sub timeLimit responseTime) timeLimit);
                         m = Math_max (num_mul (marks question) (fl (1 / 10)))
                                      (num_mul (marks question) timeFraction)
                     in num_div (Math_round (num_mul m (Fin 100))) (Fin 100))
                  else Fin 0)
           in Inr \<lparr> questionId = req_questionId response,
                     selectedAnswerIndex = selectedIndex,
                     responseTimeSeconds = responseTime,
                     resp_isCorrect = correct,
                     marksAwarded = awarded \<rparr>))"

text \<open>
  \<^verbatim>\<open>submitQuizAttempt\<close> (quiz.controller.ts); \<open>now\<close> is the value of \<^verbatim>\<open>new Date()\<close>. The
  result pairs the response (or the thrown error) with the store afterwards.
\<close>

definition submitQuizAttempt ::
  "quiz_db \<Rightarrow> string \<Rightarrow> AttemptBody \<Rightarrow> nat \<Rightarrow> (error + QuizAttempt) \<times> quiz_db" where
  "submitQuizAttempt db i body now =
     (case Quiz_findById (quizzes db) i of
        None \<Rightarrow> (Inl (NotFoundError ''Quiz''), db)
      | Some quiz \<Rightarrow>
          if \<not> isVisible quiz then (Inl (AppError ''This quiz is not available'' 403 None), db)
          else
            (case req_responses body of
               None \<Rightarrow> (Inl (AppError ''Responses are required'' 400 None), db)
             | Some rs \<Rightarrow>
                 (case map_throw (scoreResponse (questionMap (questions quiz))) rs of
                    Inl e \<Rightarrow> (Inl e, db)
                  | Inr scoredResponses \<Rightarrow>
                      (let total = foldl (\<lambda>sum r. num_add sum (marksAwarded r)) (Fin 0) scoredResponses;
                           maxM = foldl (\<lambda>sum q. num_add sum (marks q)) (Fin 0) (questions quiz);
                           pct = (if num_gt maxM (Fin 0)
                                  then num_div (Math_round (num_mul (num_div total maxM) (Fin 10000))) (Fin 100)
                                  else Fin 0)
                       in QuizAttempt_create db
                            \<lparr> quizId = quiz_id quiz,
                              participantName = req_participantName body,
                              responses = scoredResponses,
                              totalMarks = num_div (Math_round (num_mul total (Fin 100))) (Fin 100),
                              maxMarks = maxM,
                              percentage = pct,
                              completedAt = now \<rparr>))))"

text \<open>\<^verbatim>\<open>getQuizById\<close> (quiz.controller.ts): the stored document is returned as it is.\<close>

definition getQuizById :: "quiz_db \<Rightarrow> string \<Rightarrow> error + Quiz" where
  "getQuizById db i =
     (case Quiz_findById (quizzes db) i of
        None \<Rightarrow> Inl (NotFoundError ''Quiz'')
      | Some quiz \<Rightarrow> Inr quiz)"

section \<open>The specification's vocabulary for quizzes\<close>

text \<open>
  Rounding to two decimal places in exact arithmetic (nearest hundredth, a tie going up), and
  the award the scoring rule describes for a correct answer, in exact arithmetic: the marks
  scaled by the fraction of the time limit that remains, not below a tenth of the marks,
  rounded to two decimal places.
\<close>

definition round2 :: "rat \<Rightarrow> rat" where
  "round2 x = of_int (round (x * 100)) / 100"

definition exactAward :: "rat \<Rightarrow> rat \<Rightarrow> rat \<Rightarrow> rat" where
  "exactAward m t rt = round2 (max (m * (1 / 10)) (m * max 0 ((t - rt) / t)))"

text \<open>The code's expression \<^verbatim>\<open>Math.round(x * 100) / 100\<close> on numbers.\<close>

definition roundHundredths :: "number \<Rightarrow> number" where
  "roundHundredths x = num_div (Math_round (num_mul x (Fin 100))) (Fin 100)"

text \<open>
  The rational value of a finite number, and what the quiz schema and the quiz validators
  let into the store as a question: an integer number of marks of at least 1 and an integer
  time limit of 5 to 300 seconds. The marks are taken below \<open>2 ^ 40\<close>, far inside the range
  where every integer and every product formed by the scoring is a number.
\<close>

fun valueOf :: "number \<Rightarrow> rat" where
  "valueOf (Fin x) = x"
| "valueOf a = 0"

definition isInteger :: "rat \<Rightarrow> bool" where
  "isInteger x = (of_int \<lfloor>x\<rfloor> = x)"

definition storedQuestion :: "Question \<Rightarrow> bool" where
  "storedQuestion q =
     ((case marks q of Fin m \<Rightarrow> isInteger m \<and> 1 \<le> m \<and> m < 2 ^ 40 | _ \<Rightarrow> False)
      \<and> (case timeLimitSeconds q of Fin t \<Rightarrow> isInteger t \<and> 5 \<le> t \<and> t \<le> 300 | _ \<Rightarrow> False))"

text \<open>
  A response as the route's validators and the attempt schema both accept it: an answer index
  from 0 to 3 and a finite response time that is not negative.
\<close>

definition acceptedResponse :: "SubmittedResponse \<Rightarrow> bool" where
  "acceptedResponse r =
     (0 \<le> req_selectedAnswerIndex r \<and> req_selectedAnswerIndex r \<le> 3
      \<and> (case req_responseTimeSeconds r of Fin x \<Rightarrow> 0 \<le> x | _ \<Rightarrow> False))"

section \<open>Competition team domain\<close>

text \<open>
  \<^verbatim>\<open>models/competitionTeam.model.ts\<close>. The two status types are unions of string
  literals in the source. The authenticated student (\<^verbatim>\<open>req.student._id\<close>) is passed as
  an argument, in its string form.
\<close>

datatype TeamStatus = TeamPending | TeamActive | TeamDisbanded

datatype TeamMemberStatus = MemberPending | MemberApproved | MemberRejected

record Student =
  student_id :: string
  student_name :: string
  student_email :: string
  student_registrationNo :: string

record CompetitionTeamMember =
  studentId :: string
  member_name :: string
  member_email :: string
  registrationNo :: string
  member_status :: TeamMemberStatus
  joinedAt :: "nat option"

record CompetitionTeam =
  team_id :: string
  team_name :: string
  leaderId :: string
  leaderName :: string
  leaderEmail :: string
  members :: "CompetitionTeamMember list"
  team_status :: TeamStatus

record team_db =
  students :: "Student list"
  teams :: "CompetitionTeam list"

text \<open>
  \<^verbatim>\<open>Student.findById\<close>: the id is cast to an object id first, and a string that is not one
  makes the query throw a \<^verbatim>\<open>CastError\<close> for the path \<^verbatim>\<open>_id\<close>. Which strings are object
  ids is the parameter \<open>isObjectId\<close>. \<^verbatim>\<open>createTeam\<close> passes the elements of
  \<^verbatim>\<open>memberIds\<close> to this lookup as they arrive: its route validates the name only.
  Ids are compared as strings throughout: an object id is spelled the way the database
  prints it.
\<close>

definition Student_findById :: "(string \<Rightarrow> bool) \<Rightarrow> Student list \<Rightarrow> string \<Rightarrow> error + Student option" where
  "Student_findById isObjectId ss i =
     (if isObjectId i then Inr (find (\<lambda>s. student_id s = i) ss)
      else Inl (MongooseCastError ''_id'' i))"

text \<open>
  \<^verbatim>\<open>CompetitionTeam.findById\<close>, on the \<^verbatim>\<open>:id\<close> parameter that the routes have validated as
  an object id, and \<^verbatim>\<open>CompetitionTeam.findOne({ name })\<close>, whose filter is cast by the schema,
  so that the name is trimmed before it is compared.
\<close>

definition CompetitionTeam_findById :: "CompetitionTeam list \<Rightarrow> string \<Rightarrow> CompetitionTeam option" where
  "CompetitionTeam_findById ts i = find (\<lambda>t. team_id t = i) ts"

definition CompetitionTeam_findOne_name :: "CompetitionTeam list \<Rightarrow> string \<Rightarrow> CompetitionTeam option" where
  "CompetitionTeam_findOne_name ts n = find (\<lambda>t. team_name t = trim n) ts"

text \<open>
  The validators of \<^verbatim>\<open>competitionTeamMemberSchema\<close> and \<^verbatim>\<open>competitionTeamSchema\<close> on a
  document whose setters have run: a required string is not empty, and the name has at most
  100 code units. (The ids are present and the statuses belong to their enumerations by the
  types.)
\<close>

definition CompetitionTeamMember_validate :: "CompetitionTeamMember \<Rightarrow> bool" where
  "CompetitionTeamMember_validate m =
     (member_name m \<noteq> [] \<and> member_email m \<noteq> [] \<and> registrationNo m \<noteq> [])"

definition CompetitionTeam_validate :: "CompetitionTeam \<Rightarrow> bool" where
  "CompetitionTeam_validate t =
     (team_name t \<noteq> [] \<and> length (team_name t) \<le> 100
      \<and> leaderName t \<noteq> [] \<and> leaderEmail t \<noteq> []
      \<and> list_all CompetitionTeamMember_validate (members t))"

text \<open>
  \<^verbatim>\<open>CompetitionTeam.create\<close>: the name is trimmed, the document validated and, when valid,
  appended to the collection. (The unique index on the name cannot reject a document here:
  \<^verbatim>\<open>createTeam\<close> has just looked for the trimmed name and found none.)
\<close>

definition CompetitionTeam_create ::
  "team_db \<Rightarrow> CompetitionTeam \<Rightarrow> (error + CompetitionTeam) \<times> team_db" where
  "CompetitionTeam_create db doc =
     (let d = doc\<lparr>team_name := trim (team_name doc)\<rparr>
      in if CompetitionTeam_validate d then (Inr d, db\<lparr>teams := teams db @ [d]\<rparr>)
         else (Inl MongooseValidationError, db))"

text \<open>\<^verbatim>\<open>team.save()\<close>: the stored document with the team's id is replaced.\<close>

definition team_save :: "team_db \<Rightarrow> CompetitionTeam \<Rightarrow> team_db" where
  "team_save db t = db\<lparr>teams := map (\<lambda>x. if team_id x = team_id t then t else x) (teams db)\<rparr>"

text \<open>
  The callback of \<^verbatim>\<open>(memberIds || []).map\<close> in \<^verbatim>\<open>createTeam\<close>: the member entry of
  a student of the directory, \<^verbatim>\<open>null\<close> for an id that is not found; the lookup's
  \<^verbatim>\<open>CastError\<close> rejects the promise.
\<close>

definition resolveMember ::
  "(string \<Rightarrow> bool) \<Rightarrow> Student list \<Rightarrow> string \<Rightarrow> error + CompetitionTeamMember option" where
  "resolveMember isObjectId ss memberId =
     (case Student_findById isObjectId ss memberId of
        Inl e \<Rightarrow> Inl e
      | Inr None \<Rightarrow> Inr None
      | Inr (Some student) \<Rightarrow>
          Inr (Some \<lparr> studentId = student_id student,
                      member_name = student_name student,
                      member_email = student_email student,
                      registrationNo = student_registrationNo student,
                      member_status = MemberPending,
                      joinedAt = None \<rparr>))"

text \<open>
  \<^verbatim>\<open>createTeam\<close> (competitionTeam.controller.ts). \<open>memberIds = None\<close> stands for a body
  without \<^verbatim>\<open>memberIds\<close>; \<open>newId\<close> is the id the database gives the new document.
  \<^verbatim>\<open>Promise.all\<close> rejects as soon as one lookup has thrown, and nothing is created then.
  (The leader's id is that of the authenticated student, hence an object id; on a string that
  is not one the leader's lookup of the model fails as every lookup does.)
\<close>

definition createTeam ::
  "(string \<Rightarrow> bool) \<Rightarrow> team_db \<Rightarrow> string \<Rightarrow> string \<Rightarrow> string list option \<Rightarrow> string
     \<Rightarrow> (error + CompetitionTeam) \<times> team_db" where
  "createTeam isObjectId db leaderIdent name memberIds newId =
     (case Student_findById isObjectId (students db) leaderIdent of
        Inl e \<Rightarrow> (Inl e, db)
      | Inr None \<Rightarrow> (Inl (AppError ''Student not found'' 404 None), db)
      | Inr (Some leader) \<Rightarrow>
          (case CompetitionTeam_findOne_name (teams db) name of
             Some existingTeam \<Rightarrow> (Inl (AppError ''A team with this name already exists'' 400 None), db)
           | None \<Rightarrow>
               (case map_throw (resolveMember isObjectId (students db))
                               (case memberIds of None \<Rightarrow> [] | Some ids \<Rightarrow> ids) of
                  Inl e \<Rightarrow> (Inl e, db)
                | Inr found \<Rightarrow>
                    (let validMembers = map the (filter (\<lambda>m. m \<noteq> None) found)
                     in CompetitionTeam_create db
                          \<lparr> team_id = newId,
                            team_name = name,
                            leaderId = leaderIdent,
                            leaderName = student_name leader,
                            leaderEmail = student_email leader,
                            members = validMembers,
                            team_status = (if length validMembers > 0 then TeamPending else TeamActive) \<rparr>))))"

text \<open>
  The \<^verbatim>\<open>status\<close> of the request body is any string;
  \<^verbatim>\<open>['approved', 'rejected'].includes(status)\<close> holds exactly when it parses.
\<close>

definition parseDecision :: "string \<Rightarrow> TeamMemberStatus option" where
  "parseDecision s =
     (if s = ''approved'' then Some MemberApproved
      else if s = ''rejected'' then Some MemberRejected
      else None)"

text \<open>\<^verbatim>\<open>respondToInvitation\<close>; \<open>now\<close> is the value of \<^verbatim>\<open>new Date()\<close>.\<close>

definition respondToInvitation ::
  "team_db \<Rightarrow> string \<Rightarrow> string \<Rightarrow> string \<Rightarrow> nat \<Rightarrow> (error + CompetitionTeam) \<times> team_db" where
  "respondToInvitation db student teamId status now =
     (case parseDecision status of
        None \<Rightarrow> (Inl (AppError ''Invalid status. Must be approved or rejected'' 400 None), db)
      | Some decision \<Rightarrow>
          (case CompetitionTeam_findById (teams db) teamId of
             None \<Rightarrow> (Inl (AppError ''Team not found'' 404 None), db)
           | Some team \<Rightarrow>
               (case findIndex (\<lambda>m. studentId m = student) (members team) of
                  None \<Rightarrow> (Inl (AppError ''You are not invited to this team'' 400 None), db)
                | Some memberIndex \<Rightarrow>
                    (let m0 = members team ! memberIndex;
                         m1 = m0\<lparr>member_status := decision\<rparr>;
                         m2 = (if decision = MemberApproved then m1\<lparr>joinedAt := Some now\<rparr> else m1);
                         ms = (members team)[memberIndex := m2];
                         allResponded = list_all (\<lambda>m. member_status m \<noteq> MemberPending) ms;
                         allApproved = list_all (\<lambda>m. member_status m = MemberApproved) ms;
                         team1 = team\<lparr>members := ms\<rparr>;
                         team2 = (if allResponded \<and> allApproved
                                  then team1\<lparr>team_status := TeamActive\<rparr> else team1)
                     in (Inr team2, team_save db team2)))))"

text \<open>\<^verbatim>\<open>leaveTeam\<close>: the response carries a message only.\<close>

definition leaveTeam :: "team_db \<Rightarrow> string \<Rightarrow> string \<Rightarrow> (error + unit) \<times> team_db" where
  "leaveTeam db student teamId =
     (case CompetitionTeam_findById (teams db) teamId of
        None \<Rightarrow> (Inl (AppError ''Team not found'' 404 None), db)
      | Some team \<Rightarrow>
          if leaderId team = student
          then (Inl (AppError ''Team leader cannot leave. Disband the team instead.'' 400 None), db)
          else (Inr (), team_save db (team\<lparr>members := filter (\<lambda>m. studentId m \<noteq> student) (members team)\<rparr>)))"

text \<open>\<^verbatim>\<open>disbandTeam\<close>.\<close>

definition disbandTeam :: "team_db \<Rightarrow> string \<Rightarrow> string \<Rightarrow> (error + unit) \<times> team_db" where
  "disbandTeam db student teamId =
     (case CompetitionTeam_findById (teams db) teamId of
        None \<Rightarrow> (Inl (AppError ''Team not found'' 404 None), db)
      | Some team \<Rightarrow>
          if leaderId team \<noteq> student
          then (Inl (AppError ''Only the team leader can disband the team'' 403 None), db)
          else (Inr (), team_save db (team\<lparr>team_status := TeamDisbanded\<rparr>)))"

text \<open>\<^verbatim>\<open>removeMember\<close>.\<close>

definition removeMember ::
  "team_db \<Rightarrow> string \<Rightarrow> string \<Rightarrow> string \<Rightarrow> (error + CompetitionTeam) \<times> team_db" where
  "removeMember db student teamId memberId =
     (case CompetitionTeam_findById (teams db) teamId of
        None \<Rightarrow> (Inl (AppError ''Team not found'' 404 None), db)
      | Some team \<Rightarrow>
          if leaderId team \<noteq> student
          then (Inl (AppError ''Only the team leader can remove members'' 403 None), db)
          else (let team1 = team\<lparr>members := filter (\<lambda>m. studentId m \<noteq> memberId) (members team)\<rparr>
                in (Inr team1, team_save db team1)))"

text \<open>
  Reachable stores: the requests of the team routes, handled one after the other.
\<close>

datatype team_request =
    CreateTeam string string "string list option" string
  | RespondToInvitation string string string nat
  | LeaveTeam string string
  | DisbandTeam string string
  | RemoveMember string string string

fun handle :: "(string \<Rightarrow> bool) \<Rightarrow> team_db \<Rightarrow> team_request \<Rightarrow> team_db" where
  "handle isObjectId db (CreateTeam leader name memberIds newId) =
     snd (createTeam isObjectId db leader name memberIds newId)"
| "handle isObjectId db (RespondToInvitation student teamId status now) =
     snd (respondToInvitation db student teamId status now)"
| "handle isObjectId db (LeaveTeam student teamId) = snd (leaveTeam db student teamId)"
| "handle isObjectId db (DisbandTeam student teamId) = snd (disbandTeam db student teamId)"
| "handle isObjectId db (RemoveMember student teamId memberId) =
     snd (removeMember db student teamId memberId)"

definition run :: "(string \<Rightarrow> bool) \<Rightarrow> team_db \<Rightarrow> team_request list \<Rightarrow> team_db" where
  "run isObjectId db reqs = foldl (handle isObjectId) db reqs"

text \<open>A request that creates a team whose leader lists their own id among the invitees.\<close>

fun invitesSelf :: "team_request \<Rightarrow> bool" where
  "invitesSelf (CreateTeam leader name memberIds newId) =
     (case memberIds of None \<Rightarrow> False | Some ids \<Rightarrow> leader \<in> set ids)"
| "invitesSelf _ = False"

text \<open>The leader has no entry in the members list, for every stored team.\<close>

definition leaderNotMember :: "team_db \<Rightarrow> bool" where
  "leaderNotMember db = list_all (\<lambda>t. leaderId t \<notin> set (map studentId (members t))) (teams db)"

text \<open>
  A student as the student schema stores it (name, email and registration number are
  required there), and a directory of such students.
\<close>

definition storedStudent :: "Student \<Rightarrow> bool" where
  "storedStudent s = (student_name s \<noteq> [] \<and> student_email s \<noteq> [] \<and> student_registrationNo s \<noteq> [])"

section \<open>Example data\<close>

text \<open>
  The strings that are object ids, for the examples: 24 hexadecimal digits, in the spelling of
  the database.
\<close>

definition hex24 :: "string \<Rightarrow> bool" where
  "hex24 s = (length s = 24 \<and> list_all (\<lambda>c. c \<in> set ''0123456789abcdef'') s)"

text \<open>A two-question quiz, one late and one dangling response, and a small student directory.\<close>

definition ex_q1 :: Question where
  "ex_q1 = \<lparr> question_id = ''64c000000000000000000001'', questionText = ''2 + 2'', imageUrl = None,
      answers = [\<lparr>answer_text = ''3'', isCorrect = False\<rparr>, \<lparr>answer_text = ''4'', isCorrect = True\<rparr>,
                 \<lparr>answer_text = ''5'', isCorrect = False\<rparr>, \<lparr>answer_text = ''6'', isCorrect = False\<rparr>],
      timeLimitSeconds = Fin 20, marks = Fin 10 \<rparr>"

definition ex_q2 :: Question where
  "ex_q2 = \<lparr> question_id = ''64c000000000000000000002'', questionText = ''3 + 3'', imageUrl = None,
      answers = [\<lparr>answer_text = ''6'', isCorrect = True\<rparr>, \<lparr>answer_text = ''7'', isCorrect = False\<rparr>,
                 \<lparr>answer_text = ''8'', isCorrect = False\<rparr>, \<lparr>answer_text = ''9'', isCorrect = False\<rparr>],
      timeLimitSeconds = Fin 20, marks = Fin 3 \<rparr>"

definition ex_quiz :: Quiz where
  "ex_quiz = \<lparr> quiz_id = ''64d000000000000000000001'', title = ''Sums'', description = None,
      questions = [ex_q1, ex_q2], isVisible = True \<rparr>"

definition ex_quiz_db :: quiz_db where
  "ex_quiz_db = \<lparr> quizzes = [ex_quiz], attempts = [] \<rparr>"

definition ex_late :: SubmittedResponse where
  "ex_late = \<lparr> req_questionId = ''64c000000000000000000001'', req_selectedAnswerIndex = 1,
               req_responseTimeSeconds = Fin 25 \<rparr>"

definition ex_unknown :: SubmittedResponse where
  "ex_unknown = \<lparr> req_questionId = ''64c000000000000000000009'', req_selectedAnswerIndex = 0,
                  req_responseTimeSeconds = Fin 1 \<rparr>"

text \<open>
  A second quiz, with a question of 1 mark and 40 seconds and a question of 7 marks and
  30 seconds, and correct responses to them after 17, 33 and 11 seconds.
\<close>

definition ex_q3 :: Question where
  "ex_q3 = \<lparr> question_id = ''64c000000000000000000003'', questionText = ''4 + 4'', imageUrl = None,
      answers = [\<lparr>answer_text = ''7'', isCorrect = False\<rparr>, \<lparr>answer_text = ''8'', isCorrect = True\<rparr>,
                 \<lparr>answer_text = ''9'', isCorrect = False\<rparr>, \<lparr>answer_text = ''10'', isCorrect = False\<rparr>],
      timeLimitSeconds = Fin 40, marks = Fin 1 \<rparr>"

definition ex_q4 :: Question where
  "ex_q4 = \<lparr> question_id = ''64c000000000000000000004'', questionText = ''5 + 5'', imageUrl = None,
      answers = [\<lparr>answer_text = ''9'', isCorrect = False\<rparr>, \<lparr>answer_text = ''10'', isCorrect = True\<rparr>,
                 \<lparr>answer_text = ''11'', isCorrect = False\<rparr>, \<lparr>answer_text = ''12'', isCorrect = False\<rparr>],
      timeLimitSeconds = Fin 30, marks = Fin 7 \<rparr>"

definition ex_quiz2 :: Quiz where
  "ex_quiz2 = \<lparr> quiz_id = ''64d000000000000000000002'', title = ''More sums'', description = None,
      questions = [ex_q3, ex_q4], isVisible = True \<rparr>"

definition ex_quiz_db2 :: quiz_db where
  "ex_quiz_db2 = \<lparr> quizzes = [ex_quiz2], attempts = [] \<rparr>"

definition ex_r3 :: SubmittedResponse where
  "ex_r3 = \<lparr> req_questionId = ''64c000000000000000000003'', req_selectedAnswerIndex = 1,
             req_responseTimeSeconds = Fin 17 \<rparr>"

definition ex_r3' :: SubmittedResponse where
  "ex_r3' = \<lparr> req_questionId = ''64c000000000000000000003'', req_selectedAnswerIndex = 1,
              req_responseTimeSeconds = Fin 33 \<rparr>"

definition ex_r4 :: SubmittedResponse where
  "ex_r4 = \<lparr> req_questionId = ''64c000000000000000000004'', req_selectedAnswerIndex = 1,
             req_responseTimeSeconds = Fin 11 \<rparr>"

definition ex_students :: "Student list" where
  "ex_students =
     [\<lparr> student_id = ''64a000000000000000000001'', student_name = ''Lea'',
        student_email = ''lea@x.org'', student_registrationNo = ''R1'' \<rparr>,
      \<lparr> student_id = ''64a000000000000000000002'', student_name = ''Max'',
        student_email = ''max@x.org'', student_registrationNo = ''R2'' \<rparr>,
      \<lparr> student_id = ''64a000000000000000000003'', student_name = ''Noa'',
        student_email = ''noa@x.org'', student_registrationNo = ''R3'' \<rparr>]"

definition ex_team_db :: team_db where
  "ex_team_db = \<lparr> students = ex_students, teams = [] \<rparr>"

definition ex_team1 :: CompetitionTeam where
  "ex_team1 = \<lparr> team_id = ''64b000000000000000000001'', team_name = ''alpha'',
       leaderId = ''64a000000000000000000001'',
       leaderName = ''Lea'', leaderEmail = ''lea@x.org'',
       members =
         [\<lparr> studentId = ''64a000000000000000000002'', member_name = ''Max'', member_email = ''max@x.org'',
             registrationNo = ''R2'', member_status = MemberPending, joinedAt = None \<rparr>,
          \<lparr> studentId = ''64a000000000000000000003'', member_name = ''Noa'', member_email = ''noa@x.org'',
             registrationNo = ''R3'', member_status = MemberPending, joinedAt = None \<rparr>],
       team_status = TeamPending \<rparr>"

definition ex_team_db1 :: team_db where
  "ex_team_db1 = \<lparr> students = ex_students, teams = [ex_team1] \<rparr>"

definition ex_team_db2 :: team_db where
  "ex_team_db2 = \<lparr> students = ex_students, teams = [ex_team1\<lparr>team_status := TeamDisbanded\<rparr>] \<rparr>"

text \<open>The same quiz with every correctness flag inverted and nothing else changed.\<close>

definition flipCorrectness :: "Quiz \<Rightarrow> Quiz" where
  "flipCorrectness quiz =
     quiz\<lparr>questions :=
       map (\<lambda>q. q\<lparr>answers := map (\<lambda>a. a\<lparr>isCorrect := \<not> isCorrect a\<rparr>) (answers q)\<rparr>) (questions quiz)\<rparr>"

section \<open>Rounding to the nearest number\<close>

lemma ilog2_bracket:
  "0 < x \<Longrightarrow> 2 powi ilog2 x \<le> x \<and> x < 2 powi (ilog2 x + 1)"
proof (induction x rule: ilog2.induct)
  case (1 x)
  show ?case
  proof (cases "x < 1")
    case True
    with "1.prems" have e: "ilog2 x = ilog2 (2 * x) - 1"
      by (subst ilog2.simps) simp
    from "1.IH"(1) "1.prems" True
    have ih: "2 powi ilog2 (2 * x) \<le> 2 * x \<and> 2 * x < 2 powi (ilog2 (2 * x) + 1)"
      by simp
    have p1: "(2::rat) powi ilog2 (2 * x) = 2 * 2 powi (ilog2 (2 * x) - 1)"
      by (simp add: power_int_diff)
    have p2: "(2::rat) powi (ilog2 (2 * x) + 1) = 2 * 2 powi ilog2 (2 * x)"
      by (simp add: power_int_add)
    from ih p1 have g1: "2 powi (ilog2 (2 * x) - 1) \<le> x" by linarith
    from ih p2 have g2: "x < 2 powi ilog2 (2 * x)" by linarith
    from g1 g2 show ?thesis unfolding e by simp
  next
    case False
    note nl = this
    show ?thesis
    proof (cases "2 \<le> x")
      case True
      with "1.prems" nl have e: "ilog2 x = ilog2 (x / 2) + 1"
        by (subst ilog2.simps) simp
      from "1.IH"(2) "1.prems" nl True
      have ih: "2 powi ilog2 (x / 2) \<le> x / 2 \<and> x / 2 < 2 powi (ilog2 (x / 2) + 1)"
        by simp
      have p1: "(2::rat) powi (ilog2 (x / 2) + 1) = 2 * 2 powi ilog2 (x / 2)"
        by (simp add: power_int_add)
      have p2: "(2::rat) powi (ilog2 (x / 2) + 1 + 1) = 2 * 2 powi (ilog2 (x / 2) + 1)"
        by (simp add: power_int_add)
      from ih p1 have g1: "2 powi (ilog2 (x / 2) + 1) \<le> x" by linarith
      from ih p1 p2 have g2: "x < 2 powi (ilog2 (x / 2) + 1 + 1)" by linarith
      from g1 g2 show ?thesis unfolding e by simp
    next
      case False
      with "1.prems" nl have e: "ilog2 x = 0"
        by (subst ilog2.simps) simp
      from False nl show ?thesis unfolding e by simp
    qed
  qed
qed

lemma pow2_less_imp: "(2::rat) powi a < 2 powi b \<Longrightarrow> a < b"
  by (rule ccontr) (simp add: not_less power_int_increasing [of b a "2::rat"] leD)

lemma pow2_mono: "a \<le> b \<Longrightarrow> (2::rat) powi a \<le> 2 powi b"
  by (rule power_int_increasing) simp_all

lemma ilog2_mono:
  assumes "0 < x" and "x \<le> y"
  shows "ilog2 x \<le> ilog2 y"
proof -
  from assms have y: "0 < y" by simp
  from ilog2_bracket [OF assms(1)] ilog2_bracket [OF y] assms(2)
  have "(2::rat) powi ilog2 x < 2 powi (ilog2 y + 1)" by linarith
  then have "ilog2 x < ilog2 y + 1" by (rule pow2_less_imp)
  then show ?thesis by simp
qed

lemma ilog2_unique:
  assumes "2 powi e \<le> x" and "x < 2 powi (e + 1)"
  shows "ilog2 x = e"
proof -
  have "(0::rat) < 2 powi e" by simp
  with assms(1) have pos: "0 < x" by linarith
  from ilog2_bracket [OF pos] assms
  have a: "(2::rat) powi ilog2 x < 2 powi (e + 1)" and b: "(2::rat) powi e < 2 powi (ilog2 x + 1)"
    by linarith+
  from a have "ilog2 x < e + 1" by (rule pow2_less_imp)
  moreover from b have "e < ilog2 x + 1" by (rule pow2_less_imp)
  ultimately show ?thesis by simp
qed

lemma rne_of_int: "rne (of_int k) = k"
  by (simp add: rne_def)

lemma rne_floor_bounds: "\<lfloor>y\<rfloor> \<le> rne y \<and> rne y \<le> \<lfloor>y\<rfloor> + 1"
  by (simp add: rne_def Let_def)

lemma rne_mono:
  assumes "y \<le> z"
  shows "rne y \<le> rne z"
proof (cases "\<lfloor>y\<rfloor> = \<lfloor>z\<rfloor>")
  case True
  have "y - of_int \<lfloor>y\<rfloor> \<le> z - of_int \<lfloor>z\<rfloor>" using assms True by simp
  then show ?thesis
    unfolding rne_def Let_def True by auto
next
  case False
  with assms have "\<lfloor>y\<rfloor> < \<lfloor>z\<rfloor>" by (simp add: floor_mono le_neq_trans)
  then have "\<lfloor>y\<rfloor> + 1 \<le> \<lfloor>z\<rfloor>" by simp
  with rne_floor_bounds [of y] rne_floor_bounds [of z] show ?thesis by linarith
qed

lemma rne_le_int: "y \<le> of_int n \<Longrightarrow> rne y \<le> n"
  using rne_mono [of y "of_int n"] by (simp add: rne_of_int)

lemma rne_ge_int: "of_int n \<le> y \<Longrightarrow> n \<le> rne y"
  using rne_mono [of "of_int n" y] by (simp add: rne_of_int)

text \<open>A value strictly within one half of an integer rounds to it.\<close>

lemma rne_near:
  assumes "of_int n - 1 / 2 < y" and "y < of_int n + 1 / 2"
  shows "rne y = n"
proof (cases "of_int n \<le> y")
  case True
  with assms have f: "\<lfloor>y\<rfloor> = n" by (simp add: floor_eq_iff)
  with assms show ?thesis by (simp add: rne_def Let_def)
next
  case False
  with assms have f: "\<lfloor>y\<rfloor> = n - 1" by (simp add: floor_eq_iff)
  with assms show ?thesis by (simp add: rne_def Let_def)
qed

lemma fl_eval:
  assumes "2 powi e \<le> \<bar>x\<bar>" and "\<bar>x\<bar> < 2 powi (e + 1)" and "- 1022 \<le> e" and "e \<le> 1022"
    and "rne (x / 2 powi (e - 52)) = n"
    and "r = of_int n * 2 powi (e - 52)"
  shows "fl x = Fin r"
proof -
  have il: "ilog2 \<bar>x\<bar> = e" by (rule ilog2_unique [OF assms(1,2)])
  have ex: "expo x = e" using assms(3,4) by (simp add: expo_def il)
  have rx: "rnd x = r" by (simp add: rnd_def ex assms(5,6))
  have q: "(0::rat) < 2 powi (e - 52)" by simp
  have p: "(2::rat) powi (e + 1) = 2 ^ 53 * 2 powi (e - 52)"
    by (simp add: power_int_diff power_int_add)
  have "x / 2 powi (e - 52) \<le> of_int (2 ^ 53)"
    using assms(2) unfolding p by (simp add: pos_divide_le_eq)
  then have "n \<le> 2 ^ 53" unfolding assms(5) [symmetric] by (rule rne_le_int)
  moreover have "of_int (- (2 ^ 53)) \<le> x / 2 powi (e - 52)"
    using assms(2) unfolding p by (simp add: pos_le_divide_eq)
  then have "- (2 ^ 53) \<le> n" unfolding assms(5) [symmetric] by (rule rne_ge_int)
  ultimately have "\<bar>of_int n :: rat\<bar> \<le> 2 ^ 53" by (simp add: abs_le_iff)
  then have "\<bar>r\<bar> \<le> 2 ^ 53 * 2 powi (e - 52)"
    unfolding assms(6) by (simp add: abs_mult mult_right_mono)
  also have "\<dots> = 2 powi (e + 1)" by (rule p [symmetric])
  also have "\<dots> \<le> 2 powi 1023" by (rule pow2_mono) (use assms(4) in simp)
  also have "\<dots> < (2::rat) powi 1024" by (rule power_int_strict_increasing) simp_all
  finally have "\<bar>r\<bar> < 2 powi 1024" .
  then show ?thesis by (simp add: fl_def rx abs_less_iff not_le)
qed

lemma rnd_0: "rnd 0 = 0"
  by (simp add: rnd_def rne_def)

lemma rnd_nonneg: "0 \<le> x \<Longrightarrow> 0 \<le> rnd x"
proof -
  assume "0 \<le> x"
  then have "of_int 0 \<le> x / 2 powi (expo x - 52)" by simp
  then have "0 \<le> rne (x / 2 powi (expo x - 52))" by (rule rne_ge_int)
  then show ?thesis by (simp add: rnd_def)
qed

lemma rnd_nonpos: "x \<le> 0 \<Longrightarrow> rnd x \<le> 0"
proof -
  assume "x \<le> 0"
  then have "x / 2 powi (expo x - 52) \<le> of_int 0" by (simp add: divide_nonpos_pos)
  then have "rne (x / 2 powi (expo x - 52)) \<le> 0" by (rule rne_le_int)
  then show ?thesis by (simp add: rnd_def mult_nonpos_nonneg)
qed

lemma expo_bounds: "- 1022 \<le> expo x \<and> expo x \<le> 1023"
  by (simp add: expo_def)

text \<open>A value with at most 53 significant bits, within the range of the format, is not changed.\<close>

lemma rnd_exact:
  assumes k: "\<bar>k\<bar> < 2 ^ 53" and j: "- 1074 \<le> j"
    and r: "\<bar>of_int k * 2 powi j\<bar> < (2::rat) powi 1024"
  shows "rnd (of_int k * 2 powi j) = of_int k * 2 powi j"
proof (cases "k = 0")
  case True
  then show ?thesis by (simp add: rnd_0)
next
  case False
  define x :: rat where "x = of_int k * 2 powi j"
  define E where "E = ilog2 \<bar>x\<bar>"
  define e where "e = expo x"
  have xpos: "0 < \<bar>x\<bar>" using False by (simp add: x_def)
  from ilog2_bracket [OF xpos] have br: "2 powi E \<le> \<bar>x\<bar>" "\<bar>x\<bar> < 2 powi (E + 1)"
    by (simp_all add: E_def)
  have "(2::rat) powi E < 2 powi 1024" using br(1) r unfolding x_def by (rule le_less_trans)
  then have E_hi: "E < 1024" by (rule pow2_less_imp)
  have e_def': "e = max (- 1022) E" using E_hi by (simp add: e_def expo_def E_def)
  have ax: "\<bar>x\<bar> = of_int \<bar>k\<bar> * 2 powi j" by (simp add: x_def abs_mult)
  have shift: "0 \<le> j - (e - 52)"
  proof (cases "E \<le> - 1022")
    case True
    then have "e = - 1022" by (simp add: e_def')
    with j show ?thesis by simp
  next
    case False
    then have ee: "e = E" by (simp add: e_def')
    have "of_int \<bar>k\<bar> < (2::rat) ^ 53" using k by (metis of_int_less_numeral_power_cancel_iff)
    then have "of_int \<bar>k\<bar> * (2::rat) powi j < 2 ^ 53 * 2 powi j"
      by (rule mult_strict_right_mono) simp
    with br(1) have "(2::rat) powi E < 2 ^ 53 * 2 powi j" unfolding ax by (rule le_less_trans)
    also have "\<dots> = 2 powi (53 + j)" by (simp add: power_int_add)
    finally have "E < 53 + j" by (rule pow2_less_imp)
    with ee show ?thesis by simp
  qed
  define n where "n = nat (j - (e - 52))"
  have jn: "j = int n + (e - 52)" using shift by (simp add: n_def)
  have "(2::rat) powi j = 2 ^ n * 2 powi (e - 52)"
    by (subst jn) (simp add: power_int_add)
  then have xq: "x = of_int (k * 2 ^ n) * 2 powi (e - 52)" by (simp add: x_def)
  then have "x / 2 powi (e - 52) = of_int (k * 2 ^ n)" by simp
  then have "rne (x / 2 powi (e - 52)) = k * 2 ^ n" by (simp only: rne_of_int)
  then have "rnd x = of_int (k * 2 ^ n) * 2 powi (e - 52)" by (simp add: rnd_def e_def)
  also have "\<dots> = x" by (rule xq [symmetric])
  finally show ?thesis by (simp only: x_def)
qed

lemma small_lt_huge: "\<bar>x\<bar> \<le> (2::rat) ^ 53 \<Longrightarrow> \<bar>x\<bar> < 2 powi 1024"
proof -
  assume "\<bar>x\<bar> \<le> (2::rat) ^ 53"
  also have "(2::rat) ^ 53 = 2 powi 53" by simp
  also have "\<dots> < 2 powi 1024" by (rule power_int_strict_increasing) simp_all
  finally show ?thesis .
qed

lemma rnd_of_int: "\<bar>k\<bar> < 2 ^ 53 \<Longrightarrow> rnd (of_int k) = of_int k"
proof -
  assume k: "\<bar>k\<bar> < 2 ^ 53"
  then have "\<bar>of_int k :: rat\<bar> < 2 ^ 53" by (metis of_int_abs of_int_less_numeral_power_cancel_iff)
  then have "\<bar>of_int k :: rat\<bar> < 2 powi 1024" using small_lt_huge [of "of_int k"] by simp
  then have "\<bar>of_int k * 2 powi 0 :: rat\<bar> < 2 powi 1024" by simp
  from rnd_exact [OF k _ this] show ?thesis by simp
qed

lemma expo_mono:
  assumes "0 < x" and "x \<le> y"
  shows "expo x \<le> expo y"
proof -
  from assms have "ilog2 \<bar>x\<bar> \<le> ilog2 \<bar>y\<bar>" using ilog2_mono [of x y] by simp
  then show ?thesis by (simp add: expo_def)
qed

text \<open>Rounding is monotone (shown for the nonnegative values the scoring works with).\<close>

lemma rnd_mono:
  assumes "0 \<le> x" and "x \<le> y"
  shows "rnd x \<le> rnd y"
proof (cases "x = 0")
  case True
  with assms rnd_nonneg [of y] show ?thesis by (simp add: rnd_0)
next
  case False
  with assms have xpos: "0 < x" and ypos: "0 < y" by simp_all
  from expo_mono [OF xpos assms(2)] have le: "expo x \<le> expo y" .
  show ?thesis
  proof (cases "expo x = expo y")
    case True
    have "x / 2 powi (expo y - 52) \<le> y / 2 powi (expo y - 52)"
      using assms(2) by (simp add: divide_right_mono)
    then have "rne (x / 2 powi (expo y - 52)) \<le> rne (y / 2 powi (expo y - 52))" by (rule rne_mono)
    then show ?thesis by (simp add: rnd_def True)
  next
    case False
    with le have lt: "expo x < expo y" by simp
    from ilog2_bracket [of "\<bar>x\<bar>"] xpos
    have bx: "x < 2 powi (ilog2 \<bar>x\<bar> + 1)" by simp
    from ilog2_bracket [of "\<bar>y\<bar>"] ypos
    have "by": "2 powi ilog2 \<bar>y\<bar> \<le> y" by simp
    have ex: "ilog2 \<bar>x\<bar> \<le> expo x" using lt expo_bounds [of y] unfolding expo_def by linarith
    have ey: "expo y \<le> ilog2 \<bar>y\<bar>" using lt expo_bounds [of x] unfolding expo_def by linarith
    have "x < 2 powi (expo x + 1)"
      using bx pow2_mono [of "ilog2 \<bar>x\<bar> + 1" "expo x + 1"] ex by simp
    also have "(2::rat) powi (expo x + 1) = 2 ^ 53 * 2 powi (expo x - 52)"
      by (simp add: power_int_diff power_int_add)
    finally have "x / 2 powi (expo x - 52) \<le> of_int (2 ^ 53)"
      by (simp add: pos_divide_le_eq)
    then have "rne (x / 2 powi (expo x - 52)) \<le> 2 ^ 53" by (rule rne_le_int)
    then have "(of_int (rne (x / 2 powi (expo x - 52))) :: rat) \<le> 2 ^ 53"
      by (metis of_int_le_numeral_power_cancel_iff)
    then have "rnd x \<le> 2 ^ 53 * 2 powi (expo x - 52)"
      by (simp add: rnd_def)
    also have "\<dots> = 2 powi (expo x + 1)" by (simp add: power_int_diff power_int_add)
    also have "\<dots> \<le> 2 powi expo y" using lt by (simp add: pow2_mono)
    finally have up: "rnd x \<le> 2 powi expo y" .
    have "2 powi expo y \<le> y" using "by" pow2_mono [OF ey] by simp
    moreover have "(2::rat) powi expo y = 2 ^ 52 * 2 powi (expo y - 52)"
      by (simp add: power_int_diff)
    ultimately have "of_int (2 ^ 52) \<le> y / 2 powi (expo y - 52)"
      by (simp add: pos_le_divide_eq)
    then have "2 ^ 52 \<le> rne (y / 2 powi (expo y - 52))" by (rule rne_ge_int)
    then have "(2::rat) ^ 52 \<le> of_int (rne (y / 2 powi (expo y - 52)))"
      by (metis numeral_power_le_of_int_cancel_iff)
    then have "2 ^ 52 * 2 powi (expo y - 52) \<le> rnd y"
      by (simp add: rnd_def)
    also have "(2::rat) ^ 52 * 2 powi (expo y - 52) = 2 powi expo y" by (simp add: power_int_diff)
    finally have "2 powi expo y \<le> rnd y" .
    with up show ?thesis by simp
  qed
qed

lemma fl_Fin: "\<bar>rnd x\<bar> < 2 powi 1024 \<Longrightarrow> fl x = Fin (rnd x)"
  by (simp add: fl_def abs_less_iff not_le)

lemma fl_of_int: "\<bar>k\<bar> < 2 ^ 53 \<Longrightarrow> fl (of_int k) = Fin (of_int k)"
proof -
  assume k: "\<bar>k\<bar> < 2 ^ 53"
  then have "\<bar>of_int k :: rat\<bar> < 2 ^ 53" by (metis of_int_abs of_int_less_numeral_power_cancel_iff)
  then have "\<bar>of_int k :: rat\<bar> < 2 powi 1024" using small_lt_huge [of "of_int k"] by simp
  then show ?thesis using rnd_of_int [OF k] fl_Fin [of "of_int k"] by simp
qed

text \<open>A nonnegative argument below an integer bound rounds to a finite value in the same range.\<close>

lemma fl_bounded:
  assumes "0 \<le> x" and "x \<le> of_int b" and "b < 2 ^ 53"
  shows "fl x = Fin (rnd x) \<and> 0 \<le> rnd x \<and> rnd x \<le> of_int b"
proof -
  from assms(1,2) have b0: "0 \<le> b" by (metis of_int_0_le_iff order_trans)
  with assms(3) have ab: "\<bar>b\<bar> < 2 ^ 53" by simp
  have up: "rnd x \<le> of_int b"
    using rnd_mono [OF assms(1,2)] rnd_of_int [OF ab] by simp
  have lo: "0 \<le> rnd x" by (rule rnd_nonneg [OF assms(1)])
  have "(of_int b :: rat) < 2 ^ 53" using assms(3) by (metis of_int_less_numeral_power_cancel_iff)
  with up lo have "\<bar>rnd x\<bar> \<le> 2 ^ 53" by simp
  then have "\<bar>rnd x\<bar> < 2 powi 1024" by (rule small_lt_huge)
  then show ?thesis using up lo by (simp add: fl_Fin)
qed

text \<open>
  A nonnegative value below \<open>2 ^ 52 / 2 ^ n\<close> lies between two neighbouring multiples of
  \<open>1 / 2 ^ n\<close>, which are values of the format; so does its rounding.
\<close>

lemma rnd_near_grid:
  assumes x0: "0 \<le> x" and xs: "x * 2 ^ n < 2 ^ 52" and n: "n \<le> 1074"
  shows "\<bar>rnd x - x\<bar> \<le> 1 / 2 ^ n"
proof -
  define k where "k = \<lfloor>x * 2 ^ n\<rfloor>"
  define L :: rat where "L = of_int k * 2 powi (- int n)"
  define U :: rat where "U = of_int (k + 1) * 2 powi (- int n)"
  have p: "(2::rat) powi (- int n) = 1 / 2 ^ n" by (simp add: power_int_minus_divide)
  have k0: "0 \<le> k" using x0 by (simp add: k_def)
  have "of_int k \<le> x * 2 ^ n" by (simp add: k_def)
  then have kx: "(of_int k :: rat) < 2 ^ 52" using xs by linarith
  then have k52: "k < 2 ^ 52" by (metis of_int_less_numeral_power_cancel_iff)
  have Lx: "L \<le> x" unfolding L_def p k_def by (simp add: pos_divide_le_eq)
  have xU: "x \<le> U" unfolding U_def p k_def
    by (simp add: pos_le_divide_eq) linarith
  have L0: "0 \<le> L" using k0 by (simp add: L_def)
  have "L \<le> of_int k" unfolding L_def p using k0
    by (simp add: pos_divide_le_eq mult_le_cancel_left1 of_int_0_le_iff)
  then have Lb: "\<bar>L\<bar> \<le> 2 ^ 53" using L0 kx by simp
  have "U \<le> of_int (k + 1)" unfolding U_def p using k0
    by (simp add: pos_divide_le_eq mult_le_cancel_left1)
  moreover have "0 \<le> U" using k0 by (simp add: U_def)
  ultimately have Ub: "\<bar>U\<bar> \<le> 2 ^ 53" using kx by simp
  have rL: "rnd L = L" unfolding L_def
    by (rule rnd_exact) (use k0 k52 n Lb small_lt_huge [of L] in \<open>simp_all add: L_def\<close>)
  have rU: "rnd U = U" unfolding U_def
    by (rule rnd_exact) (use k0 k52 n Ub small_lt_huge [of U] in \<open>simp_all add: U_def\<close>)
  from rnd_mono [OF L0 Lx] rL have lo: "L \<le> rnd x" by simp
  from rnd_mono [OF x0 xU] rU have hi: "rnd x \<le> U" by simp
  have "U - L = 1 / 2 ^ n" by (simp add: U_def L_def p add_divide_distrib)
  with lo hi Lx xU show ?thesis by (simp add: abs_le_iff)
qed

section \<open>Operations on numbers\<close>

lemma fl_tenth: "fl (1 / 10) = Fin (3602879701896397 / 36028797018963968)"
  by (rule fl_eval [where e = "- 4" and n = 7205759403792794]) (simp_all add: rne_near)

lemma num_sub_Fin: "num_sub (Fin a) (Fin b) = fl (a - b)"
  by (simp add: num_sub_def)

lemma fl_nonneg_cases: "0 \<le> x \<Longrightarrow> fl x = PosInf \<or> fl x = Fin (rnd x) \<and> 0 \<le> rnd x"
proof -
  assume "0 \<le> x"
  then have "0 \<le> rnd x" by (rule rnd_nonneg)
  moreover have "(0::rat) < 2 powi 1024" by simp
  ultimately show ?thesis unfolding fl_def by force
qed

lemma fl_nonpos_cases: "x \<le> 0 \<Longrightarrow> fl x = NegInf \<or> fl x = Fin (rnd x) \<and> rnd x \<le> 0"
proof -
  assume "x \<le> 0"
  then have "rnd x \<le> 0" by (rule rnd_nonpos)
  moreover have "(0::rat) < 2 powi 1024" by simp
  ultimately show ?thesis unfolding fl_def by force
qed

lemma fl_nonneg: "0 \<le> x \<Longrightarrow> num_ge (fl x) (Fin 0)"
  using fl_nonneg_cases [of x] by auto

lemma num_ge_0_cases: "num_ge a (Fin 0) \<longleftrightarrow> a = PosInf \<or> (\<exists>x. a = Fin x \<and> 0 \<le> x)"
  by (cases a) simp_all

lemma num_ge_not_NaN: "num_ge a (Fin 0) \<Longrightarrow> a \<noteq> NaN"
  by (cases a) simp_all

lemma num_add_nonneg:
  "num_ge a (Fin 0) \<Longrightarrow> num_ge b (Fin 0) \<Longrightarrow> num_ge (num_add a b) (Fin 0)"
  by (cases a; cases b) (simp_all add: fl_nonneg)

lemma num_mul_nonneg_pos:
  "num_ge a (Fin 0) \<Longrightarrow> 0 < y \<Longrightarrow> num_ge (num_mul a (Fin y)) (Fin 0)"
  by (cases a) (simp_all add: fl_nonneg)

lemma num_div_nonneg_pos:
  "num_ge a (Fin 0) \<Longrightarrow> 0 < y \<Longrightarrow> num_ge (num_div a (Fin y)) (Fin 0)"
  by (cases a) (simp_all add: fl_nonneg)

lemma Math_round_nonneg: "num_ge a (Fin 0) \<Longrightarrow> num_ge (Math_round a) (Fin 0)"
  by (cases a) (simp_all add: floor_le_iff le_floor_iff)

lemma roundHundredths_nonneg: "num_ge a (Fin 0) \<Longrightarrow> num_ge (roundHundredths a) (Fin 0)"
  unfolding roundHundredths_def
  by (intro num_div_nonneg_pos Math_round_nonneg num_mul_nonneg_pos) simp_all

lemma foldl_num_add_nonneg:
  "num_ge a (Fin 0) \<Longrightarrow> list_all (\<lambda>x. num_ge x (Fin 0)) xs \<Longrightarrow> num_ge (foldl num_add a xs) (Fin 0)"
  by (induction xs arbitrary: a) (simp_all add: num_add_nonneg)

text \<open>The fraction of the time limit that remains.\<close>

lemma timeFraction:
  fixes t :: int and rt :: rat
  assumes t: "0 < t" "t < 2 ^ 53" and rt: "0 \<le> rt"
  shows "\<exists>f. Math_max (Fin 0) (num_div (num_sub (Fin (of_int t)) (Fin rt)) (Fin (of_int t))) = Fin f
           \<and> 0 \<le> f \<and> f \<le> 1 \<and> (rt = 0 \<longrightarrow> f = 1) \<and> (of_int t \<le> rt \<longrightarrow> f = 0)"
proof (cases "rt \<le> of_int t")
  case True
  define d where "d = of_int t - rt"
  have d: "0 \<le> d" "d \<le> of_int t" using True rt by (simp_all add: d_def)
  from fl_bounded [OF d t(2)]
  have fd: "fl d = Fin (rnd d)" "0 \<le> rnd d" "rnd d \<le> of_int t" by simp_all
  define g where "g = rnd d / of_int t"
  have tpos: "(0::rat) < of_int t" using t(1) by simp
  have g: "0 \<le> g" "g \<le> of_int 1" using fd tpos by (simp_all add: g_def pos_divide_le_eq)
  from fl_bounded [OF g] have fg: "fl g = Fin (rnd g)" "0 \<le> rnd g" "rnd g \<le> 1" by simp_all
  have e: "Math_max (Fin 0) (num_div (num_sub (Fin (of_int t)) (Fin rt)) (Fin (of_int t))) = Fin (rnd g)"
    using tpos fd(1) fg by (simp add: num_sub_Fin d_def [symmetric] g_def [symmetric] max_def)
  have z: "rt = 0 \<longrightarrow> rnd g = 1"
  proof
    assume "rt = 0"
    then have "d = of_int t" by (simp add: d_def)
    moreover have "rnd (of_int t :: rat) = of_int t" by (rule rnd_of_int) (use t in simp)
    ultimately have "g = of_int 1" using tpos by (simp add: g_def)
    moreover have "rnd (of_int 1 :: rat) = of_int 1" by (rule rnd_of_int) simp
    ultimately show "rnd g = 1" by simp
  qed
  have l: "of_int t \<le> rt \<longrightarrow> rnd g = 0"
  proof
    assume "of_int t \<le> rt"
    with True have "d = 0" by (simp add: d_def)
    then show "rnd g = 0" by (simp add: g_def rnd_0)
  qed
  from e fg z l show ?thesis by blast
next
  case False
  define d where "d = of_int t - rt"
  have d: "d \<le> 0" using False by (simp add: d_def)
  have tpos: "(0::rat) < of_int t" using t(1) by simp
  have "num_div (fl d) (Fin (of_int t)) = NegInf
      \<or> (\<exists>r. num_div (fl d) (Fin (of_int t)) = Fin r \<and> r \<le> 0)"
  proof -
    from fl_nonpos_cases [OF d] show ?thesis
    proof
      assume "fl d = NegInf"
      then show ?thesis using tpos by simp
    next
      assume a: "fl d = Fin (rnd d) \<and> rnd d \<le> 0"
      then have "rnd d / of_int t \<le> 0" using tpos by (simp add: divide_le_0_iff)
      from fl_nonpos_cases [OF this] a tpos show ?thesis by auto
    qed
  qed
  then have "Math_max (Fin 0) (num_div (num_sub (Fin (of_int t)) (Fin rt)) (Fin (of_int t))) = Fin 0"
    by (auto simp: num_sub_Fin d_def [symmetric] max_def)
  with False rt tpos show ?thesis by auto
qed

text \<open>\<^verbatim>\<open>Math.round(x * 100) / 100\<close> on a nonnegative value below an integer bound.\<close>

lemma roundHundredths_Fin:
  assumes x: "0 \<le> x" "x \<le> of_int b" and b: "b < 2 ^ 46"
  shows "roundHundredths (Fin x) = Fin (rnd (of_int \<lfloor>rnd (x * 100) + 1 / 2\<rfloor> / 100))
       \<and> 0 \<le> rnd (of_int \<lfloor>rnd (x * 100) + 1 / 2\<rfloor> / 100)
       \<and> rnd (of_int \<lfloor>rnd (x * 100) + 1 / 2\<rfloor> / 100) \<le> of_int b"
proof -
  have b': "100 * b < 2 ^ 53" using b by simp
  have x': "0 \<le> x * 100" "x * 100 \<le> of_int (100 * b)" using x by simp_all
  from fl_bounded [OF x' b']
  have f1: "fl (x * 100) = Fin (rnd (x * 100))" "0 \<le> rnd (x * 100)" "rnd (x * 100) \<le> of_int (100 * b)"
    by simp_all
  define n where "n = \<lfloor>rnd (x * 100) + 1 / 2\<rfloor>"
  have n0: "0 \<le> n" using f1(2) by (simp add: n_def le_floor_iff)
  have "rnd (x * 100) + 1 / 2 < of_int (100 * b + 1)" using f1(3) by simp
  then have "n < 100 * b + 1" unfolding n_def by (simp only: floor_less_iff)
  then have nb: "n \<le> 100 * b" by simp
  have y: "0 \<le> (of_int n :: rat) / 100" "(of_int n :: rat) / 100 \<le> of_int b"
    using n0 nb by (simp_all add: pos_divide_le_eq)
  have b'': "b < 2 ^ 53" using b by simp
  from fl_bounded [OF y b'']
  have f2: "fl (of_int n / 100) = Fin (rnd (of_int n / 100))" "0 \<le> rnd (of_int n / 100 :: rat)"
    "rnd (of_int n / 100 :: rat) \<le> of_int b" by simp_all
  have "roundHundredths (Fin x) = Fin (rnd (of_int n / 100))"
    by (simp add: roundHundredths_def f1(1) n_def [symmetric] f2(1))
  with f2 show ?thesis by (simp add: n_def)
qed

lemma roundHundredths_mono:
  assumes "0 \<le> x" "x \<le> y" "y \<le> of_int b" "b < 2 ^ 46"
  shows "valueOf (roundHundredths (Fin x)) \<le> valueOf (roundHundredths (Fin y))"
proof -
  have xb: "x \<le> of_int b" and y0: "0 \<le> y" using assms by simp_all
  have "rnd (x * 100) \<le> rnd (y * 100)" by (rule rnd_mono) (use assms in simp_all)
  then have "\<lfloor>rnd (x * 100) + 1 / 2\<rfloor> \<le> \<lfloor>rnd (y * 100) + 1 / 2\<rfloor>" by (intro floor_mono) simp
  then have le: "(of_int \<lfloor>rnd (x * 100) + 1 / 2\<rfloor> :: rat) / 100 \<le> of_int \<lfloor>rnd (y * 100) + 1 / 2\<rfloor> / 100"
    by (simp add: divide_right_mono)
  have "0 \<le> rnd (x * 100)" by (rule rnd_nonneg) (use assms in simp)
  then have "0 \<le> \<lfloor>rnd (x * 100) + 1 / 2\<rfloor>" by (simp add: le_floor_iff)
  then have "(0::rat) \<le> of_int \<lfloor>rnd (x * 100) + 1 / 2\<rfloor> / 100" by simp
  from rnd_mono [OF this le]
  show ?thesis
    using roundHundredths_Fin [OF assms(1) xb assms(4)] roundHundredths_Fin [OF y0 assms(3,4)]
    by simp
qed

lemma roundHundredths_of_int:
  assumes "0 \<le> m" "m < 2 ^ 46"
  shows "roundHundredths (Fin (of_int m)) = Fin (of_int m)"
proof -
  have x: "(0::rat) \<le> of_int m" "(of_int m :: rat) \<le> of_int m" using assms by simp_all
  have "\<bar>m * 100\<bar> < 2 ^ 53" using assms by simp
  from rnd_of_int [OF this] have "rnd (of_int m * 100 :: rat) = of_int (m * 100)" by simp
  moreover have "\<lfloor>(of_int (m * 100) :: rat) + 1 / 2\<rfloor> = m * 100"
    by (rule floor_unique) simp_all
  ultimately have "\<lfloor>rnd (of_int m * 100 :: rat) + 1 / 2\<rfloor> = m * 100"
    by (simp only:)
  moreover have "\<bar>m\<bar> < 2 ^ 53" using assms by simp
  from rnd_of_int [OF this] have "rnd (of_int m :: rat) = of_int m" .
  ultimately show ?thesis using roundHundredths_Fin [OF x assms(2)] by simp
qed

text \<open>
  The floor of the award: the product of the marks with the number nearest to one tenth,
  times 100, rounds to ten times the marks. (A hundred times that number exceeds 10 by
  \<open>5 / 2 ^ 53\<close>.)
\<close>

lemma tenth_floor:
  fixes m :: int
  assumes m: "1 \<le> m" "m < 2 ^ 40"
  shows "\<lfloor>rnd (rnd (of_int m * (3602879701896397 / 36028797018963968)) * 100) + 1 / 2\<rfloor> = 10 * m"
proof -
  define c :: rat where "c = 3602879701896397 / 36028797018963968"
  define M :: rat where "M = of_int m"
  define x1 where "x1 = M * c"
  define v1 where "v1 = rnd x1"
  define x2 where "x2 = v1 * 100"
  define v2 where "v2 = rnd x2"
  have "(of_int m :: rat) < of_int (2 ^ 40)" using m(2) by (simp only: of_int_less_iff)
  then have M: "1 \<le> M" "M < 1099511627776" using m(1) by (simp_all add: M_def)
  have c100: "100 * x1 = 10 * M + M * (5 / 9007199254740992)"
    by (simp add: x1_def c_def algebra_simps)
  have x1b: "0 \<le> x1" "x1 \<le> M / 8" using M by (simp_all add: x1_def c_def)
  have "x1 * 2 ^ 12 < 2 ^ 52" using x1b M by simp
  from rnd_near_grid [OF x1b(1) this] have "\<bar>v1 - x1\<bar> \<le> 1 / 4096" by (simp add: v1_def)
  then have g1: "v1 \<le> x1 + 1 / 4096" "x1 - 1 / 4096 \<le> v1" unfolding abs_le_iff by linarith+
  have v10: "0 \<le> v1" unfolding v1_def by (rule rnd_nonneg [OF x1b(1)])
  have x2: "x2 = 100 * v1" by (simp add: x2_def)
  have x20: "0 \<le> x2" using v10 by (simp add: x2_def)
  have "x2 * 16 < 4503599627370496" using g1 x1b M x2 by linarith
  then have "x2 * 2 ^ 4 < 2 ^ 52" by simp
  from rnd_near_grid [OF x20 this] have "\<bar>v2 - x2\<bar> \<le> 1 / 16" by (simp add: v2_def)
  then have g2: "v2 \<le> x2 + 1 / 16" "x2 - 1 / 16 \<le> v2" unfolding abs_le_iff by linarith+
  have lo: "10 * M \<le> v2 + 1 / 2" using g1 g2 c100 M x2 by linarith
  have hi: "v2 + 1 / 2 < 10 * M + 1" using g1 g2 c100 M x2 by linarith
  have "\<lfloor>v2 + 1 / 2\<rfloor> = 10 * m"
    by (rule floor_unique) (use lo hi in \<open>simp_all add: M_def\<close>)
  then show ?thesis by (simp add: v2_def x2_def v1_def x1_def M_def c_def)
qed

section \<open>Scoring a response\<close>

lemma fl_0: "fl 0 = Fin 0"
  using fl_of_int [of 0] by simp

lemma Math_round_eval:
  "of_int k \<le> x + 1 / 2 \<Longrightarrow> x + 1 / 2 < of_int k + 1 \<Longrightarrow> Math_round (Fin x) = Fin (of_int k)"
  by (simp add: floor_unique)

lemma rnd_sixteenth: "rnd (1 / 16) = 1 / 16"
proof -
  have "rnd (of_int 1 * 2 powi (- 4)) = (of_int 1 * 2 powi (- 4) :: rat)"
    by (rule rnd_exact) (simp_all add: power_int_minus_divide small_lt_huge)
  then show ?thesis by (simp add: power_int_minus_divide)
qed

text \<open>
  The award for a correct answer to a question of \<open>m\<close> marks, when a fraction \<open>f\<close> of the time
  limit remains.
\<close>

lemma award_bounds:
  fixes m :: int and f :: rat
  assumes m: "1 \<le> m" "m < 2 ^ 40" and f: "0 \<le> f" "f \<le> 1"
  shows "\<exists>a w. roundHundredths (Math_max (num_mul (Fin (of_int m)) (fl (1 / 10)))
                                        (num_mul (Fin (of_int m)) (Fin f))) = Fin a
           \<and> fl (of_int m / 10) = Fin w \<and> 0 < w \<and> w \<le> a \<and> a \<le> of_int m
           \<and> (f = 1 \<longrightarrow> a = of_int m) \<and> (f = 0 \<longrightarrow> a = w)"
proof -
  define c :: rat where "c = 3602879701896397 / 36028797018963968"
  define M :: rat where "M = of_int m"
  define v1 where "v1 = rnd (M * c)"
  define u where "u = rnd (M * f)"
  define x where "x = max v1 u"
  define w where "w = rnd (M / 10)"
  have M1: "1 \<le> M" using m(1) by (simp add: M_def)
  have m53: "m < 2 ^ 53" and m46: "m < 2 ^ 46" using m(2) by simp_all
  have "0 \<le> M * c" "M * c \<le> of_int m" using M1 by (simp_all add: c_def M_def)
  from fl_bounded [OF this m53]
  have b1: "fl (M * c) = Fin v1" "0 \<le> v1" "v1 \<le> M" by (simp_all add: v1_def M_def)
  have "0 \<le> M * f" "M * f \<le> of_int m" using M1 f by (simp_all add: M_def mult_left_le)
  from fl_bounded [OF this m53]
  have b2: "fl (M * f) = Fin u" "0 \<le> u" "u \<le> M" by (simp_all add: u_def M_def)
  have mx: "Math_max (num_mul (Fin (of_int m)) (fl (1 / 10))) (num_mul (Fin (of_int m)) (Fin f)) = Fin x"
    by (simp add: fl_tenth M_def [symmetric] c_def [symmetric] b1(1) b2(1) x_def)
  have x: "0 \<le> x" "x \<le> of_int m" "v1 \<le> x" using b1 b2 by (simp_all add: x_def M_def)
  define a where "a = valueOf (roundHundredths (Fin x))"
  from roundHundredths_Fin [OF x(1,2) m46]
  have ra: "roundHundredths (Fin x) = Fin a" "a \<le> of_int m" by (simp_all add: a_def)
  have v1m: "v1 \<le> of_int m" using b1(3) by (simp add: M_def)
  have "\<lfloor>rnd (v1 * 100) + 1 / 2\<rfloor> = 10 * m"
    unfolding v1_def M_def c_def by (rule tenth_floor [OF m])
  with roundHundredths_Fin [OF b1(2) v1m m46]
  have rw: "roundHundredths (Fin v1) = Fin w" by (simp add: w_def M_def)
  from roundHundredths_mono [OF b1(2) x(3) x(2) m46] have wa: "w \<le> a"
    by (simp add: rw a_def)
  have "0 \<le> M / 10" "M / 10 \<le> of_int m" using M1 by (simp_all add: M_def)
  from fl_bounded [OF this m53] have fw: "fl (of_int m / 10) = Fin w"
    by (simp add: w_def M_def)
  have "rnd (1 / 16) \<le> rnd (M / 10)" by (rule rnd_mono) (use M1 in simp_all)
  then have wpos: "0 < w" by (simp add: rnd_sixteenth w_def)
  have one: "f = 1 \<longrightarrow> a = of_int m"
  proof
    assume "f = 1"
    then have "u = M" using rnd_of_int [of m] m53 m(1) by (simp add: u_def M_def)
    with b1(3) have "x = of_int m" by (simp add: x_def M_def)
    with roundHundredths_of_int [of m] m46 m(1) show "a = of_int m" by (simp add: a_def)
  qed
  have zero: "f = 0 \<longrightarrow> a = w"
  proof
    assume "f = 0"
    then have "u = 0" by (simp add: u_def rnd_0)
    with b1(2) have "x = v1" by (simp add: x_def)
    with rw show "a = w" by (simp add: a_def)
  qed
  from mx ra fw wpos wa one zero show ?thesis by auto
qed

lemma storedQuestion_cases:
  assumes "storedQuestion q"
  shows "\<exists>m t. marks q = Fin (of_int m) \<and> 1 \<le> m \<and> m < 2 ^ 40
             \<and> timeLimitSeconds q = Fin (of_int t) \<and> 5 \<le> t \<and> t \<le> 300"
proof -
  from assms obtain x y where mq: "marks q = Fin x" "isInteger x" "1 \<le> x" "x < 2 ^ 40"
    and tq: "timeLimitSeconds q = Fin y" "isInteger y" "5 \<le> y" "y \<le> 300"
    by (auto simp: storedQuestion_def split: number.splits)
  from mq(2) have x: "x = of_int \<lfloor>x\<rfloor>" unfolding isInteger_def by (rule sym)
  from tq(2) have y: "y = of_int \<lfloor>y\<rfloor>" unfolding isInteger_def by (rule sym)
  have "1 \<le> \<lfloor>x\<rfloor>" using mq(3) by (simp add: le_floor_iff)
  moreover have "\<lfloor>x\<rfloor> < 2 ^ 40" using mq(4) by (simp add: floor_less_iff)
  moreover have "5 \<le> \<lfloor>y\<rfloor>" using tq(3) by (simp add: le_floor_iff)
  moreover have "\<lfloor>y\<rfloor> \<le> 300" using tq(4) by (simp add: floor_le_iff)
  ultimately show ?thesis using mq(1) tq(1) x y by metis
qed

lemma scoreResponse_found:
  assumes "qmap (req_questionId r) = Some q"
  shows "scoreResponse qmap r =
     Inr \<lparr> questionId = req_questionId r,
           selectedAnswerIndex = req_selectedAnswerIndex r,
           responseTimeSeconds = req_responseTimeSeconds r,
           resp_isCorrect = answerIsCorrect (answers q) (req_selectedAnswerIndex r),
           marksAwarded =
             (if answerIsCorrect (answers q) (req_selectedAnswerIndex r)
              then roundHundredths
                     (Math_max (num_mul (marks q) (fl (1 / 10)))
                        (num_mul (marks q)
                           (Math_max (Fin 0)
                              (num_div (num_sub (timeLimitSeconds q) (req_responseTimeSeconds r))
                                       (timeLimitSeconds q)))))
              else Fin 0) \<rparr>"
  using assms by (simp add: scoreResponse_def Let_def roundHundredths_def)

text \<open>The award of a stored question for an accepted response.\<close>

lemma scoreResponse_award:
  assumes qm: "qmap (req_questionId r) = Some q"
    and mq: "marks q = Fin (of_int m)" "1 \<le> m" "m < 2 ^ 40"
    and tq: "timeLimitSeconds q = Fin (of_int t)" "5 \<le> t" "t \<le> 300"
    and rt: "req_responseTimeSeconds r = Fin rt" "0 \<le> rt"
  shows "\<exists>sr w. scoreResponse qmap r = Inr sr
           \<and> questionId sr = req_questionId r
           \<and> selectedAnswerIndex sr = req_selectedAnswerIndex r
           \<and> responseTimeSeconds sr = Fin rt
           \<and> fl (of_int m / 10) = Fin w \<and> 0 < w
           \<and> (if answerIsCorrect (answers q) (req_selectedAnswerIndex r)
               then resp_isCorrect sr
                    \<and> marksAwarded sr =
                        roundHundredths
                          (Math_max (num_mul (Fin (of_int m)) (fl (1 / 10)))
                             (num_mul (Fin (of_int m))
                                (Math_max (Fin 0)
                                   (num_div (num_sub (Fin (of_int t)) (Fin rt)) (Fin (of_int t))))))
                    \<and> (\<exists>a. marksAwarded sr = Fin a \<and> w \<le> a \<and> a \<le> of_int m
                           \<and> (rt = 0 \<longrightarrow> a = of_int m) \<and> (of_int t \<le> rt \<longrightarrow> a = w))
               else \<not> resp_isCorrect sr \<and> marksAwarded sr = Fin 0)"
proof -
  have t: "0 < t" "t < 2 ^ 53" using tq(2,3) by simp_all
  from timeFraction [OF t rt(2)] obtain f where
    f: "Math_max (Fin 0) (num_div (num_sub (Fin (of_int t)) (Fin rt)) (Fin (of_int t))) = Fin f"
      "0 \<le> f" "f \<le> 1" "rt = 0 \<longrightarrow> f = 1" "of_int t \<le> rt \<longrightarrow> f = 0"
    by blast
  from award_bounds [OF mq(2,3) f(2,3)] obtain a w where
    a: "roundHundredths (Math_max (num_mul (Fin (of_int m)) (fl (1 / 10)))
                                  (num_mul (Fin (of_int m)) (Fin f))) = Fin a"
      "fl (of_int m / 10) = Fin w" "0 < w" "w \<le> a" "a \<le> of_int m"
      "f = 1 \<longrightarrow> a = of_int m" "f = 0 \<longrightarrow> a = w"
    by blast
  have "scoreResponse qmap r =
     Inr \<lparr> questionId = req_questionId r,
           selectedAnswerIndex = req_selectedAnswerIndex r,
           responseTimeSeconds = Fin rt,
           resp_isCorrect = answerIsCorrect (answers q) (req_selectedAnswerIndex r),
           marksAwarded =
             (if answerIsCorrect (answers q) (req_selectedAnswerIndex r) then Fin a else Fin 0) \<rparr>"
    by (simp only: scoreResponse_found [of qmap r q, OF qm] mq(1) tq(1) rt(1) f(1) a(1))
  moreover have "roundHundredths
        (Math_max (num_mul (Fin (of_int m)) (fl (1 / 10)))
           (num_mul (Fin (of_int m))
              (Math_max (Fin 0)
                 (num_div (num_sub (Fin (of_int t)) (Fin rt)) (Fin (of_int t)))))) = Fin a"
    by (simp only: f(1) a(1))
  ultimately show ?thesis
    using f(4,5) a(2-7) by (simp del: num_mul.simps num_div.simps Math_max.simps)
qed

lemma scoreResponse_valid:
  assumes qm: "qmap (req_questionId r) = Some q" and sq: "storedQuestion q"
    and acc: "acceptedResponse r"
  shows "\<exists>sr. scoreResponse qmap r = Inr sr \<and> QuestionResponse_validate sr"
proof -
  from storedQuestion_cases [OF sq] obtain m t where
    mt: "marks q = Fin (of_int m)" "1 \<le> m" "m < 2 ^ 40"
      "timeLimitSeconds q = Fin (of_int t)" "5 \<le> t" "t \<le> 300"
    by blast
  from acc obtain rt where rt: "req_responseTimeSeconds r = Fin rt" "0 \<le> rt"
    by (auto simp: acceptedResponse_def split: number.splits)
  from scoreResponse_award [of qmap r q m t rt, OF qm mt rt] obtain sr w where
    s: "scoreResponse qmap r = Inr sr" "selectedAnswerIndex sr = req_selectedAnswerIndex r"
      "responseTimeSeconds sr = Fin rt" "0 < w"
    and br: "if answerIsCorrect (answers q) (req_selectedAnswerIndex r)
       then resp_isCorrect sr
            \<and> marksAwarded sr =
                roundHundredths
                  (Math_max (num_mul (Fin (of_int m)) (fl (1 / 10)))
                     (num_mul (Fin (of_int m))
                        (Math_max (Fin 0)
                           (num_div (num_sub (Fin (of_int t)) (Fin rt)) (Fin (of_int t))))))
            \<and> (\<exists>a. marksAwarded sr = Fin a \<and> w \<le> a \<and> a \<le> of_int m
                   \<and> (rt = 0 \<longrightarrow> a = of_int m) \<and> (of_int t \<le> rt \<longrightarrow> a = w))
       else \<not> resp_isCorrect sr \<and> marksAwarded sr = Fin 0"
    by blast
  have "num_ge (marksAwarded sr) (Fin 0)"
  proof (cases "answerIsCorrect (answers q) (req_selectedAnswerIndex r)")
    case True
    from br [unfolded if_P [OF True]] obtain a where "marksAwarded sr = Fin a" "w \<le> a" by blast
    with s(4) show ?thesis by simp
  next
    case False
    from br [unfolded if_not_P [OF False]] show ?thesis by simp
  qed
  with s(1-3) rt(2) acc show ?thesis
    by (auto simp: QuestionResponse_validate_def acceptedResponse_def)
qed

section \<open>Scoring an attempt\<close>

lemma map_throw_Inr_iff:
  "map_throw f xs = Inr ys \<longleftrightarrow> list_all2 (\<lambda>x y. f x = Inr y) xs ys"
proof (induction xs arbitrary: ys)
  case Nil
  then show ?case by auto
next
  case (Cons x xs)
  show ?case
  proof (cases "f x")
    case (Inl e)
    then show ?thesis by (auto simp: list_all2_Cons1)
  next
    case fx: (Inr y)
    show ?thesis
    proof (cases "map_throw f xs")
      case (Inl e)
      with fx Cons.IH show ?thesis by (auto simp: list_all2_Cons1)
    next
      case (Inr zs)
      with Cons.IH have all2: "\<And>ys. list_all2 (\<lambda>x y. f x = Inr y) xs ys \<longleftrightarrow> zs = ys"
        by simp
      have "map_throw f (x # xs) = Inr (y # zs)" using fx Inr by simp
      moreover have "list_all2 (\<lambda>x y. f x = Inr y) (x # xs) ys \<longleftrightarrow> ys = y # zs"
        using fx by (cases ys) (auto simp: all2)
      ultimately show ?thesis by auto
    qed
  qed
qed

lemma map_throw_total:
  "\<forall>x \<in> set xs. \<exists>y. f x = Inr y \<Longrightarrow> \<exists>ys. map_throw f xs = Inr ys"
  by (induction xs) (auto split: sum.splits)

lemma map_throw_first_error:
  "find (\<lambda>x. isl (f x)) xs = Some x0 \<Longrightarrow> map_throw f xs = Inl (projl (f x0))"
proof (induction xs)
  case Nil
  then show ?case by simp
next
  case (Cons x xs)
  then show ?case
    by (cases "f x") (auto split: sum.splits if_splits)
qed

lemma fold_upd_None:
  "fold (\<lambda>q m. m(question_id q \<mapsto> q)) qs m0 k = None \<longleftrightarrow>
     m0 k = None \<and> k \<notin> question_id ` set qs"
  by (induction qs arbitrary: m0) auto

lemma questionMap_None_iff:
  "questionMap qs k = None \<longleftrightarrow> k \<notin> question_id ` set qs"
  by (simp add: questionMap_def fold_upd_None)

lemma fold_upd_Some:
  "fold (\<lambda>q m. m(question_id q \<mapsto> q)) qs m0 k = Some q \<Longrightarrow>
     q \<in> set qs \<and> question_id q = k \<or> m0 k = Some q"
proof (induction qs arbitrary: m0)
  case Nil
  then show ?case by simp
next
  case (Cons a qs)
  from Cons.prems have "fold (\<lambda>q m. m(question_id q \<mapsto> q)) qs (m0(question_id a \<mapsto> a)) k = Some q"
    by (simp only: fold_simps o_apply)
  from Cons.IH [OF this] show ?case by (auto split: if_splits)
qed

text \<open>An entry of the question map is a question of the quiz, filed under its own id.\<close>

lemma questionMap_Some:
  "questionMap qs k = Some q \<Longrightarrow> q \<in> set qs \<and> question_id q = k"
  using fold_upd_Some [of qs Map.empty k q] by (simp add: questionMap_def)

lemma fold_upd_other:
  "k \<notin> question_id ` set qs \<Longrightarrow> fold (\<lambda>q m. m(question_id q \<mapsto> q)) qs m0 k = m0 k"
  by (induction qs arbitrary: m0) auto

lemma fold_upd_distinct:
  "distinct (map question_id qs) \<Longrightarrow> q \<in> set qs \<Longrightarrow>
     fold (\<lambda>q m. m(question_id q \<mapsto> q)) qs m0 (question_id q) = Some q"
proof (induction qs arbitrary: m0)
  case Nil
  then show ?case by simp
next
  case (Cons a qs)
  show ?case
  proof (cases "q \<in> set qs")
    case True
    with Cons show ?thesis by simp
  next
    case False
    with Cons.prems have qa: "q = a" and new: "question_id a \<notin> question_id ` set qs" by auto
    have "fold (\<lambda>q m. m(question_id q \<mapsto> q)) (a # qs) m0 (question_id a)
        = fold (\<lambda>q m. m(question_id q \<mapsto> q)) qs (m0(question_id a \<mapsto> a)) (question_id a)"
      by (simp only: fold_simps o_apply)
    also have "\<dots> = (m0(question_id a \<mapsto> a)) (question_id a)"
      by (rule fold_upd_other) (rule new)
    also have "\<dots> = Some a" by simp
    finally show ?thesis by (simp only: qa)
  qed
qed

text \<open>When the ids of the questions are distinct, the map files every question under its id.\<close>

lemma questionMap_distinct:
  "distinct (map question_id qs) \<Longrightarrow> q \<in> set qs \<Longrightarrow> questionMap qs (question_id q) = Some q"
  by (simp add: questionMap_def fold_upd_distinct)

lemma scoreResponse_Inl_iff:
  "isl (scoreResponse qmap r) \<longleftrightarrow> qmap (req_questionId r) = None"
  by (simp add: scoreResponse_def Let_def split: option.splits)

lemma scoreResponse_error:
  "qmap (req_questionId r) = None \<Longrightarrow>
   scoreResponse qmap r =
     Inl (AppError (''Question '' @ req_questionId r @ '' not found in this quiz'') 400 None)"
  by (simp add: scoreResponse_def)

lemma scoreResponse_index:
  "scoreResponse qmap r = Inr sr \<Longrightarrow> selectedAnswerIndex sr = req_selectedAnswerIndex r"
  by (auto simp: scoreResponse_def Let_def split: option.splits)

lemma storedQuestion_marks_nonneg:
  "list_all storedQuestion qs \<Longrightarrow> 0 \<le> sum_list (map (\<lambda>q. valueOf (marks q)) qs)"
proof (induction qs)
  case Nil
  then show ?case by simp
next
  case (Cons q qs)
  from Cons.prems storedQuestion_cases [of q] obtain m where "marks q = Fin (of_int m)" "1 \<le> m"
    by auto
  with Cons show ?case by simp
qed

text \<open>The sum of the marks of stored questions is exact as long as it stays below \<open>2 ^ 53\<close>.\<close>

lemma maxMarks_exact:
  assumes "list_all storedQuestion qs" and "0 \<le> a"
    and "of_int a + sum_list (map (\<lambda>q. valueOf (marks q)) qs) < 2 ^ 53"
  shows "foldl (\<lambda>sum q. num_add sum (marks q)) (Fin (of_int a)) qs
           = Fin (of_int a + sum_list (map (\<lambda>q. valueOf (marks q)) qs))"
  using assms
proof (induction qs arbitrary: a)
  case Nil
  then show ?case by simp
next
  case (Cons q qs)
  from Cons.prems(1) storedQuestion_cases [of q] obtain m where
    m: "marks q = Fin (of_int m)" "1 \<le> m" by auto
  from Cons.prems(1) have rest: "0 \<le> sum_list (map (\<lambda>q. valueOf (marks q)) qs)"
    by (simp add: storedQuestion_marks_nonneg)
  have "(of_int (a + m) :: rat) < 2 ^ 53" using Cons.prems(3) m(1) rest by simp
  then have "a + m < 2 ^ 53" by (metis of_int_less_numeral_power_cancel_iff)
  then have "\<bar>a + m\<bar> < 2 ^ 53" using Cons.prems(2) m(2) by simp
  from fl_of_int [OF this] have s: "num_add (Fin (of_int a)) (marks q) = Fin (of_int (a + m))"
    by (simp add: m(1))
  have "foldl (\<lambda>sum q. num_add sum (marks q)) (Fin (of_int a)) (q # qs)
      = foldl (\<lambda>sum q. num_add sum (marks q)) (num_add (Fin (of_int a)) (marks q)) qs"
    by (simp only: foldl_Cons)
  also have "\<dots> = foldl (\<lambda>sum q. num_add sum (marks q)) (Fin (of_int (a + m))) qs"
    by (simp only: s)
  also have "\<dots> = Fin (of_int (a + m) + sum_list (map (\<lambda>q. valueOf (marks q)) qs))"
    by (rule Cons.IH) (use Cons.prems m in simp_all)
  also have "\<dots> = Fin (of_int a + sum_list (map (\<lambda>q. valueOf (marks q)) (q # qs)))"
    by (simp add: m(1))
  finally show ?case .
qed

lemma scored_responses_valid:
  assumes acc: "\<forall>r \<in> set rs. req_questionId r \<in> question_id ` set qs \<and> acceptedResponse r"
    and stored: "list_all storedQuestion qs"
  shows "\<exists>srs. map_throw (scoreResponse (questionMap qs)) rs = Inr srs
           \<and> list_all QuestionResponse_validate srs"
proof -
  have one: "\<exists>sr. scoreResponse (questionMap qs) r = Inr sr \<and> QuestionResponse_validate sr"
    if "r \<in> set rs" for r
  proof -
    from that acc have k: "req_questionId r \<in> question_id ` set qs" and a: "acceptedResponse r"
      by simp_all
    from k obtain q where q: "questionMap qs (req_questionId r) = Some q"
      using questionMap_None_iff [of qs "req_questionId r"] by (cases "questionMap qs (req_questionId r)") auto
    from questionMap_Some [OF q] stored have "storedQuestion q" by (simp add: list_all_iff)
    from scoreResponse_valid [of "questionMap qs" r q, OF q this a] show ?thesis .
  qed
  then have "\<forall>r \<in> set rs. \<exists>y. scoreResponse (questionMap qs) r = Inr y" by blast
  from map_throw_total [OF this] obtain srs where
    srs: "map_throw (scoreResponse (questionMap qs)) rs = Inr srs" by blast
  then have all2: "list_all2 (\<lambda>x y. scoreResponse (questionMap qs) x = Inr y) rs srs"
    by (simp add: map_throw_Inr_iff)
  have "QuestionResponse_validate sr" if "sr \<in> set srs" for sr
  proof -
    from that obtain k where k: "k < length srs" "srs ! k = sr" by (auto simp: in_set_conv_nth)
    from all2 have len: "length rs = length srs"
      and nth: "\<forall>k < length rs. scoreResponse (questionMap qs) (rs ! k) = Inr (srs ! k)"
      by (simp_all add: list_all2_conv_all_nth)
    from k len have "rs ! k \<in> set rs" by simp
    moreover from k len nth have "scoreResponse (questionMap qs) (rs ! k) = Inr sr" by auto
    ultimately show ?thesis using one [of "rs ! k"] by auto
  qed
  with srs show ?thesis by (auto simp: list_all_iff)
qed

text \<open>
  A submission that names known questions only reaches \<^verbatim>\<open>QuizAttempt.create\<close> with this
  document.
\<close>

lemma submitQuizAttempt_scored:
  assumes "Quiz_findById (quizzes db) i = Some quiz" and "isVisible quiz"
    and "req_responses body = Some rs"
    and "map_throw (scoreResponse (questionMap (questions quiz))) rs = Inr srs"
  shows "submitQuizAttempt db i body now =
     QuizAttempt_create db
       \<lparr> quizId = quiz_id quiz,
         participantName = req_participantName body,
         responses = srs,
         totalMarks = roundHundredths (foldl num_add (Fin 0) (map marksAwarded srs)),
         maxMarks = foldl (\<lambda>sum q. num_add sum (marks q)) (Fin 0) (questions quiz),
         percentage =
           (if num_gt (foldl (\<lambda>sum q. num_add sum (marks q)) (Fin 0) (questions quiz)) (Fin 0)
            then num_div (Math_round (num_mul
                   (num_div (foldl num_add (Fin 0) (map marksAwarded srs))
                            (foldl (\<lambda>sum q. num_add sum (marks q)) (Fin 0) (questions quiz)))
                   (Fin 10000))) (Fin 100)
            else Fin 0),
         completedAt = now \<rparr>"
  using assms by (simp add: submitQuizAttempt_def Let_def roundHundredths_def foldl_map)

lemma submitQuizAttempt_accepted:
  assumes found: "Quiz_findById (quizzes db) i = Some quiz" and vis: "isVisible quiz"
    and rs: "req_responses body = Some rs"
    and name: "2 \<le> length (trim (req_participantName body))"
      "length (trim (req_participantName body)) \<le> 100"
    and acc: "\<forall>r \<in> set rs. req_questionId r \<in> question_id ` set (questions quiz) \<and> acceptedResponse r"
    and stored: "list_all storedQuestion (questions quiz)"
    and safe: "sum_list (map (\<lambda>q. valueOf (marks q)) (questions quiz)) < 2 ^ 53"
  shows "\<exists>srs. map_throw (scoreResponse (questionMap (questions quiz))) rs = Inr srs
     \<and> (let total = foldl num_add (Fin 0) (map marksAwarded srs);
            maxM = sum_list (map (\<lambda>q. valueOf (marks q)) (questions quiz));
            attempt =
              \<lparr> quizId = quiz_id quiz,
                participantName = trim (req_participantName body),
                responses = srs,
                totalMarks = roundHundredths total,
                maxMarks = Fin maxM,
                percentage =
                  (if 0 < maxM
                   then num_div (Math_round (num_mul (num_div total (Fin maxM)) (Fin 10000))) (Fin 100)
                   else Fin 0),
                completedAt = now \<rparr>
        in submitQuizAttempt db i body now = (Inr attempt, db\<lparr>attempts := attempts db @ [attempt]\<rparr>))"
proof -
  from scored_responses_valid [OF acc stored] obtain srs where
    srs: "map_throw (scoreResponse (questionMap (questions quiz))) rs = Inr srs"
    and val: "list_all QuestionResponse_validate srs" by blast
  define total where "total = foldl num_add (Fin 0) (map marksAwarded srs)"
  define maxM where "maxM = sum_list (map (\<lambda>q. valueOf (marks q)) (questions quiz))"
  have "list_all (\<lambda>x. num_ge x (Fin 0)) (map marksAwarded srs)"
    using val by (simp add: list_all_iff QuestionResponse_validate_def)
  then have tot: "num_ge total (Fin 0)"
    unfolding total_def by (intro foldl_num_add_nonneg) simp_all
  have mx: "foldl (\<lambda>sum q. num_add sum (marks q)) (Fin 0) (questions quiz) = Fin maxM"
    using maxMarks_exact [OF stored, of 0] safe by (simp add: maxM_def)
  define pct where "pct = (if 0 < maxM
       then num_div (Math_round (num_mul (num_div total (Fin maxM)) (Fin 10000))) (Fin 100)
       else Fin 0)"
  have "num_ge pct (Fin 0)"
  proof (cases "0 < maxM")
    case True
    have "num_ge (num_div (Math_round (num_mul (num_div total (Fin maxM)) (Fin 10000))) (Fin 100)) (Fin 0)"
      by (intro num_div_nonneg_pos Math_round_nonneg num_mul_nonneg_pos tot True) simp_all
    with True show ?thesis by (simp add: pct_def)
  next
    case False
    then show ?thesis by (simp add: pct_def)
  qed
  then have p: "pct \<noteq> NaN" by (rule num_ge_not_NaN)
  have t: "roundHundredths total \<noteq> NaN"
    by (rule num_ge_not_NaN) (rule roundHundredths_nonneg [OF tot])
  define attempt where "attempt =
      \<lparr> quizId = quiz_id quiz, participantName = trim (req_participantName body), responses = srs,
        totalMarks = roundHundredths total, maxMarks = Fin maxM, percentage = pct,
        completedAt = now \<rparr>"
  have v: "QuizAttempt_validate attempt"
    using name val p t by (simp add: QuizAttempt_validate_def attempt_def)
  have pc: "(if num_gt (Fin maxM) (Fin 0)
            then num_div (Math_round (num_mul (num_div total (Fin maxM)) (Fin 10000))) (Fin 100)
            else Fin 0) = pct"
    by (simp only: num_gt.simps pct_def)
  have "submitQuizAttempt db i body now =
     QuizAttempt_create db
       \<lparr> quizId = quiz_id quiz, participantName = req_participantName body, responses = srs,
         totalMarks = roundHundredths total, maxMarks = Fin maxM, percentage = pct,
         completedAt = now \<rparr>"
    by (simp only: submitQuizAttempt_scored [OF found vis rs srs] mx total_def [symmetric] pc)
  also have "\<dots> = (Inr attempt, db\<lparr>attempts := attempts db @ [attempt]\<rparr>)"
    using v by (simp add: QuizAttempt_create_def Let_def attempt_def)
  finally have main:
    "submitQuizAttempt db i body now = (Inr attempt, db\<lparr>attempts := attempts db @ [attempt]\<rparr>)" .
  from srs main show ?thesis
    unfolding Let_def attempt_def pct_def total_def maxM_def by blast
qed

lemma scoreResponse_time:
  "scoreResponse qmap r = Inr sr \<Longrightarrow> responseTimeSeconds sr = req_responseTimeSeconds r"
  by (auto simp: scoreResponse_def Let_def split: option.splits)

lemma QuizAttempt_create_rejected:
  "length (trim (participantName doc)) < 2 \<or> 100 < length (trim (participantName doc))
     \<or> \<not> list_all QuestionResponse_validate (responses doc) \<Longrightarrow>
   QuizAttempt_create db doc = (Inl MongooseValidationError, db)"
  by (auto simp: QuizAttempt_create_def Let_def QuizAttempt_validate_def)

text \<open>
  A submission of known question ids whose name or responses the attempt schema does not
  accept is scored and then rejected by \<^verbatim>\<open>QuizAttempt.create\<close>; nothing is stored.
\<close>

lemma submitQuizAttempt_rejected:
  assumes found: "Quiz_findById (quizzes db) i = Some quiz" and vis: "isVisible quiz"
    and rs: "req_responses body = Some rs"
    and known: "\<forall>r \<in> set rs. req_questionId r \<in> question_id ` set (questions quiz)"
    and bad: "length (trim (req_participantName body)) < 2
      \<or> 100 < length (trim (req_participantName body))
      \<or> (\<exists>r \<in> set rs. req_selectedAnswerIndex r < 0 \<or> 3 < req_selectedAnswerIndex r
                       \<or> \<not> num_ge (req_responseTimeSeconds r) (Fin 0))"
  shows "submitQuizAttempt db i body now = (Inl MongooseValidationError, db)"
proof -
  let ?qm = "questionMap (questions quiz)"
  have "\<forall>r \<in> set rs. \<exists>y. scoreResponse ?qm r = Inr y"
  proof
    fix r assume "r \<in> set rs"
    with known have "?qm (req_questionId r) \<noteq> None" by (simp add: questionMap_None_iff)
    then obtain q where "?qm (req_questionId r) = Some q" by auto
    from scoreResponse_found [of ?qm r q, OF this] show "\<exists>y. scoreResponse ?qm r = Inr y" by blast
  qed
  from map_throw_total [OF this] obtain srs where srs: "map_throw (scoreResponse ?qm) rs = Inr srs"
    by blast
  then have len: "length rs = length srs"
    and nth: "\<forall>k < length rs. scoreResponse ?qm (rs ! k) = Inr (srs ! k)"
    by (simp_all add: map_throw_Inr_iff list_all2_conv_all_nth)
  have "length (trim (req_participantName body)) < 2 \<or> 100 < length (trim (req_participantName body))
     \<or> \<not> list_all QuestionResponse_validate srs"
  proof (cases "\<exists>r \<in> set rs. req_selectedAnswerIndex r < 0 \<or> 3 < req_selectedAnswerIndex r
                       \<or> \<not> num_ge (req_responseTimeSeconds r) (Fin 0)")
    case True
    then obtain k where k: "k < length rs"
      and b: "req_selectedAnswerIndex (rs ! k) < 0 \<or> 3 < req_selectedAnswerIndex (rs ! k)
                \<or> \<not> num_ge (req_responseTimeSeconds (rs ! k)) (Fin 0)"
      by (auto simp: in_set_conv_nth)
    from nth k have s: "scoreResponse ?qm (rs ! k) = Inr (srs ! k)" by simp
    from b scoreResponse_index [OF s] scoreResponse_time [OF s]
    have "\<not> QuestionResponse_validate (srs ! k)" by (auto simp: QuestionResponse_validate_def)
    moreover have "srs ! k \<in> set srs" using k len by simp
    ultimately show ?thesis by (auto simp: list_all_iff)
  next
    case False
    with bad show ?thesis by blast
  qed
  then show ?thesis
    by (simp only: submitQuizAttempt_scored [OF found vis rs srs])
       (rule QuizAttempt_create_rejected, simp)
qed

text \<open>
  Claim C10. A quiz that exists but whose \<open>isVisible\<close> flag is false accepts no attempt:
  \<open>submitQuizAttempt\<close> fails with the error "This quiz is not available" (status 403)
  before any scoring, and the store, in particular the attempts collection, is unchanged.
\<close>

theorem submitQuizAttempt_hidden_quiz:
  assumes "Quiz_findById (quizzes db) i = Some quiz" and "\<not> isVisible quiz"
  shows "submitQuizAttempt db i body now =
           (Inl (AppError ''This quiz is not available'' 403 None), db)"
  using assms by (simp add: submitQuizAttempt_def)

theorem submitQuizAttempt_hidden_quiz_witness:
  "submitQuizAttempt \<lparr> quizzes = [ex_quiz\<lparr>isVisible := False\<rparr>], attempts = [] \<rparr>
        ''64d000000000000000000001''
        \<lparr> req_participantName = ''Ann'', req_responses = Some [ex_late] \<rparr> 0
     = (Inl (AppError ''This quiz is not available'' 403 None),
        \<lparr> quizzes = [ex_quiz\<lparr>isVisible := False\<rparr>], attempts = [] \<rparr>)"
proof -
  have h1: "Quiz_findById (quizzes \<lparr> quizzes = [ex_quiz\<lparr>isVisible := False\<rparr>], attempts = [] \<rparr>)
              ''64d000000000000000000001''
       = Some (ex_quiz\<lparr>isVisible := False\<rparr>)"
    by (simp add: Quiz_findById_def ex_quiz_def)
  have h2: "\<not> isVisible (ex_quiz\<lparr>isVisible := False\<rparr>)" by simp
  from submitQuizAttempt_hidden_quiz [OF h1 h2] show ?thesis .
qed

text \<open>
  Claim C3. If some submitted response carries a question id that matches no question of
  the (visible) quiz, \<open>submitQuizAttempt\<close> fails with the error naming the id of the first
  such response, and the store is left as it was: no attempt record is created, so a
  partially scored attempt is never persisted.
\<close>

theorem submitQuizAttempt_unknown_question:
  assumes "Quiz_findById (quizzes db) i = Some quiz" and "isVisible quiz"
    and "req_responses body = Some rs"
    and "\<exists>r \<in> set rs. req_questionId r \<notin> question_id ` set (questions quiz)"
  shows "\<exists>bad. find (\<lambda>r. req_questionId r \<notin> question_id ` set (questions quiz)) rs = Some bad
           \<and> submitQuizAttempt db i body now =
               (Inl (AppError (''Question '' @ req_questionId bad @ '' not found in this quiz'') 400 None), db)
           \<and> attempts (snd (submitQuizAttempt db i body now)) = attempts db"
proof -
  let ?qm = "questionMap (questions quiz)"
  let ?P = "\<lambda>r. req_questionId r \<notin> question_id ` set (questions quiz)"
  from assms(4) obtain bad where bad: "find ?P rs = Some bad"
    by (cases "find ?P rs") (auto simp: find_None_iff)
  then have Pbad: "?P bad" by (auto simp: find_Some_iff)
  have "(\<lambda>r. isl (scoreResponse ?qm r)) = ?P"
    by (simp add: scoreResponse_Inl_iff questionMap_None_iff fun_eq_iff)
  with bad have "find (\<lambda>r. isl (scoreResponse ?qm r)) rs = Some bad" by simp
  then have "map_throw (scoreResponse ?qm) rs = Inl (projl (scoreResponse ?qm bad))"
    by (rule map_throw_first_error)
  moreover have "scoreResponse ?qm bad =
      Inl (AppError (''Question '' @ req_questionId bad @ '' not found in this quiz'') 400 None)"
    using Pbad by (simp add: scoreResponse_error questionMap_None_iff)
  ultimately have "submitQuizAttempt db i body now =
      (Inl (AppError (''Question '' @ req_questionId bad @ '' not found in this quiz'') 400 None), db)"
    using assms(1-3) by (simp add: submitQuizAttempt_def)
  with bad show ?thesis by simp
qed

theorem submitQuizAttempt_unknown_question_witness:
  "submitQuizAttempt ex_quiz_db ''64d000000000000000000001''
        \<lparr> req_participantName = ''Ann'', req_responses = Some [ex_late, ex_unknown] \<rparr> 0
     = (Inl (AppError ''Question 64c000000000000000000009 not found in this quiz'' 400 None), ex_quiz_db)"
proof -
  have h1: "Quiz_findById (quizzes ex_quiz_db) ''64d000000000000000000001'' = Some ex_quiz"
    by (simp add: Quiz_findById_def ex_quiz_db_def ex_quiz_def)
  have h2: "isVisible ex_quiz" by (simp add: ex_quiz_def)
  have h3: "req_responses \<lparr> req_participantName = ''Ann'', req_responses = Some [ex_late, ex_unknown] \<rparr>
       = Some [ex_late, ex_unknown]"
    by simp
  have h4: "\<exists>r \<in> set [ex_late, ex_unknown]. req_questionId r \<notin> question_id ` set (questions ex_quiz)"
    by (simp add: ex_quiz_def ex_q1_def ex_q2_def ex_late_def ex_unknown_def)
  have f: "find (\<lambda>r. req_questionId r \<notin> question_id ` set (questions ex_quiz)) [ex_late, ex_unknown]
       = Some ex_unknown"
    by (simp add: ex_quiz_def ex_q1_def ex_q2_def ex_late_def ex_unknown_def)
  have q: "req_questionId ex_unknown = ''64c000000000000000000009''" by (simp add: ex_unknown_def)
  from submitQuizAttempt_unknown_question [OF h1 h2 h3 h4, of 0] f q show ?thesis by auto
qed

text \<open>
  Claim C8. \<open>getQuizById\<close> returns the stored quiz with the \<open>isCorrect\<close> flag of every
  answer: for two stores that differ only in those flags its responses differ.
\<close>

theorem getQuizById_returns_isCorrect:
  "getQuizById ex_quiz_db ''64d000000000000000000001'' = Inr ex_quiz
   \<and> getQuizById (ex_quiz_db\<lparr>quizzes := [flipCorrectness ex_quiz]\<rparr>) ''64d000000000000000000001''
       = Inr (flipCorrectness ex_quiz)
   \<and> flipCorrectness ex_quiz \<noteq> ex_quiz
   \<and> map (map isCorrect) (map answers (questions ex_quiz))
        = [[False, True, False, False], [True, False, False, False]]"
  by (simp add: getQuizById_def Quiz_findById_def flipCorrectness_def
        ex_quiz_db_def ex_quiz_def ex_q1_def ex_q2_def)

text \<open>
  Claim C2 (as amended). For a visible quiz of stored questions (the sum of whose marks is
  below \<open>2 ^ 53\<close>) and a submission of known question ids that the attempt schema accepts (a
  name of 2 to 100 code units once trimmed, answer indexes from 0 to 3, finite response times
  that are not negative), however few responses it has: the attempt is created under the
  trimmed name with one scored response per submitted response; its \<open>totalMarks\<close> is
  \<^verbatim>\<open>Math.round(S * 100) / 100\<close> for the sum \<open>S\<close> of the \<open>marksAwarded\<close> of its responses,
  added as numbers from left to right; its \<open>maxMarks\<close> is the exact sum of the marks of all
  questions of the quiz; and its \<open>percentage\<close> is
  \<^verbatim>\<open>Math.round((S / maxMarks) * 10000) / 100\<close> when \<open>maxMarks\<close> is positive and 0 otherwise,
  computed from the unrounded sum \<open>S\<close>, not from the stored \<open>totalMarks\<close>. A submission of
  known question ids whose trimmed name is shorter than 2 or longer than 100 creates nothing:
  it fails the validation of the attempt schema.
\<close>

theorem submitQuizAttempt_totals:
  assumes "Quiz_findById (quizzes db) i = Some quiz" and "isVisible quiz"
    and "req_responses body = Some rs"
    and "\<forall>r \<in> set rs. req_questionId r \<in> question_id ` set (questions quiz)"
  shows "(2 \<le> length (trim (req_participantName body))
          \<and> length (trim (req_participantName body)) \<le> 100
          \<and> (\<forall>r \<in> set rs. acceptedResponse r)
          \<and> list_all storedQuestion (questions quiz)
          \<and> sum_list (map (\<lambda>q. valueOf (marks q)) (questions quiz)) < 2 ^ 53 \<longrightarrow>
          (\<exists>attempt.
             submitQuizAttempt db i body now = (Inr attempt, db\<lparr>attempts := attempts db @ [attempt]\<rparr>)
             \<and> participantName attempt = trim (req_participantName body)
             \<and> length (responses attempt) = length rs
             \<and> (let S = foldl num_add (Fin 0) (map marksAwarded (responses attempt));
                    maxM = sum_list (map (\<lambda>q. valueOf (marks q)) (questions quiz))
                in totalMarks attempt = roundHundredths S
                   \<and> maxMarks attempt = Fin maxM
                   \<and> percentage attempt =
                       (if 0 < maxM
                        then num_div (Math_round (num_mul (num_div S (Fin maxM)) (Fin 10000))) (Fin 100)
                        else Fin 0))))
       \<and> (length (trim (req_participantName body)) < 2
          \<or> 100 < length (trim (req_participantName body)) \<longrightarrow>
          submitQuizAttempt db i body now = (Inl MongooseValidationError, db))"
proof (intro conjI impI)
  assume a: "2 \<le> length (trim (req_participantName body))
          \<and> length (trim (req_participantName body)) \<le> 100
          \<and> (\<forall>r \<in> set rs. acceptedResponse r)
          \<and> list_all storedQuestion (questions quiz)
          \<and> sum_list (map (\<lambda>q. valueOf (marks q)) (questions quiz)) < 2 ^ 53"
  then have acc: "\<forall>r \<in> set rs. req_questionId r \<in> question_id ` set (questions quiz) \<and> acceptedResponse r"
    using assms(4) by blast
  from a have n: "2 \<le> length (trim (req_participantName body))"
      "length (trim (req_participantName body)) \<le> 100"
    and st: "list_all storedQuestion (questions quiz)"
    and sf: "sum_list (map (\<lambda>q. valueOf (marks q)) (questions quiz)) < 2 ^ 53"
    by simp_all
  define attempt where "attempt the_srs =
      \<lparr> quizId = quiz_id quiz,
        participantName = trim (req_participantName body),
        responses = the_srs,
        totalMarks = roundHundredths (foldl num_add (Fin 0) (map marksAwarded the_srs)),
        maxMarks = Fin (sum_list (map (\<lambda>q. valueOf (marks q)) (questions quiz))),
        percentage =
          (if 0 < sum_list (map (\<lambda>q. valueOf (marks q)) (questions quiz))
           then num_div (Math_round (num_mul
                  (num_div (foldl num_add (Fin 0) (map marksAwarded the_srs))
                           (Fin (sum_list (map (\<lambda>q. valueOf (marks q)) (questions quiz)))))
                  (Fin 10000))) (Fin 100)
           else Fin 0),
        completedAt = now \<rparr>" for the_srs
  from submitQuizAttempt_accepted [OF assms(1-3) n acc st sf, of now] obtain srs where
    srs: "map_throw (scoreResponse (questionMap (questions quiz))) rs = Inr srs"
    and sub: "submitQuizAttempt db i body now
                = (Inr (attempt srs), db\<lparr>attempts := attempts db @ [attempt srs]\<rparr>)"
    unfolding Let_def attempt_def by blast
  from srs have len: "length srs = length rs"
    by (simp add: map_throw_Inr_iff list_all2_conv_all_nth)
  have "participantName (attempt srs) = trim (req_participantName body)"
    "responses (attempt srs) = srs"
    "totalMarks (attempt srs) = roundHundredths (foldl num_add (Fin 0) (map marksAwarded srs))"
    "maxMarks (attempt srs) = Fin (sum_list (map (\<lambda>q. valueOf (marks q)) (questions quiz)))"
    "percentage (attempt srs) =
       (if 0 < sum_list (map (\<lambda>q. valueOf (marks q)) (questions quiz))
        then num_div (Math_round (num_mul
               (num_div (foldl num_add (Fin 0) (map marksAwarded srs))
                        (Fin (sum_list (map (\<lambda>q. valueOf (marks q)) (questions quiz)))))
               (Fin 10000))) (Fin 100)
        else Fin 0)"
    by (simp_all only: attempt_def QuizAttempt.simps)
  with sub len show "\<exists>attempt.
             submitQuizAttempt db i body now = (Inr attempt, db\<lparr>attempts := attempts db @ [attempt]\<rparr>)
             \<and> participantName attempt = trim (req_participantName body)
             \<and> length (responses attempt) = length rs
             \<and> (let S = foldl num_add (Fin 0) (map marksAwarded (responses attempt));
                    maxM = sum_list (map (\<lambda>q. valueOf (marks q)) (questions quiz))
                in totalMarks attempt = roundHundredths S
                   \<and> maxMarks attempt = Fin maxM
                   \<and> percentage attempt =
                       (if 0 < maxM
                        then num_div (Math_round (num_mul (num_div S (Fin maxM)) (Fin 10000))) (Fin 100)
                        else Fin 0))"
    unfolding Let_def by (intro exI [of _ "attempt srs"]) (simp only: simp_thms)
next
  assume "length (trim (req_participantName body)) < 2
          \<or> 100 < length (trim (req_participantName body))"
  then show "submitQuizAttempt db i body now = (Inl MongooseValidationError, db)"
    by (intro submitQuizAttempt_rejected [OF assms]) blast
qed

text \<open>
  Claim C1 (as amended). In an accepted submission on a quiz of stored questions with distinct
  ids, the response at position \<open>j\<close>, which refers to the question \<open>q\<close> of \<open>m\<close> marks and
  time limit \<open>t\<close> and was given after \<open>rt\<close> seconds, is stored as follows. If the selected
  index is outside the answer list or the selected answer is not flagged correct, it is
  incorrect with 0 marks. Otherwise it is correct and its \<open>marksAwarded\<close> is the number
  \<^verbatim>\<open>Math.round(Math.max(m * 0.1, m * Math.max(0, (t - rt) / t)) * 100) / 100\<close>, every
  operation rounding to the nearest number. This is a number \<open>a\<close> between \<open>w\<close> and \<open>m\<close>,
  where \<open>w\<close> is the number nearest to \<open>m / 10\<close>, which is positive: \<open>a = m\<close> for an instant
  answer, and \<open>a = w\<close> when the response time is the time limit or more. (In between it need
  not be the exact value rounded to two decimal places: see the counterexample.) A submission
  of known question ids in which some answer index is outside 0 to 3 or some response time is
  not at least 0 creates nothing: it fails the validation of the attempt schema.
\<close>

theorem submitQuizAttempt_marksAwarded:
  assumes "Quiz_findById (quizzes db) i = Some quiz" and "isVisible quiz"
    and "req_responses body = Some rs"
    and "\<forall>r \<in> set rs. req_questionId r \<in> question_id ` set (questions quiz)"
  shows "(2 \<le> length (trim (req_participantName body))
          \<and> length (trim (req_participantName body)) \<le> 100
          \<and> (\<forall>r \<in> set rs. acceptedResponse r)
          \<and> list_all storedQuestion (questions quiz)
          \<and> sum_list (map (\<lambda>q. valueOf (marks q)) (questions quiz)) < 2 ^ 53
          \<and> distinct (map question_id (questions quiz))
          \<and> j < length rs \<and> q \<in> set (questions quiz) \<and> question_id q = req_questionId (rs ! j)
          \<and> marks q = Fin m \<and> timeLimitSeconds q = Fin t
          \<and> req_responseTimeSeconds (rs ! j) = Fin rt \<longrightarrow>
          (\<exists>attempt w.
             submitQuizAttempt db i body now = (Inr attempt, db\<lparr>attempts := attempts db @ [attempt]\<rparr>)
             \<and> length (responses attempt) = length rs
             \<and> questionId (responses attempt ! j) = question_id q
             \<and> fl (m / 10) = Fin w \<and> 0 < w
             \<and> (if 0 \<le> req_selectedAnswerIndex (rs ! j)
                    \<and> req_selectedAnswerIndex (rs ! j) < int (length (answers q))
                    \<and> isCorrect (answers q ! nat (req_selectedAnswerIndex (rs ! j)))
                 then resp_isCorrect (responses attempt ! j)
                      \<and> marksAwarded (responses attempt ! j) =
                          roundHundredths
                            (Math_max (num_mul (Fin m) (fl (1 / 10)))
                               (num_mul (Fin m)
                                  (Math_max (Fin 0) (num_div (num_sub (Fin t) (Fin rt)) (Fin t)))))
                      \<and> (\<exists>a. marksAwarded (responses attempt ! j) = Fin a \<and> w \<le> a \<and> a \<le> m
                             \<and> (rt = 0 \<longrightarrow> a = m) \<and> (t \<le> rt \<longrightarrow> a = w))
                 else \<not> resp_isCorrect (responses attempt ! j)
                      \<and> marksAwarded (responses attempt ! j) = Fin 0)))
       \<and> ((\<exists>r \<in> set rs. req_selectedAnswerIndex r < 0 \<or> 3 < req_selectedAnswerIndex r
                         \<or> \<not> num_ge (req_responseTimeSeconds r) (Fin 0)) \<longrightarrow>
          submitQuizAttempt db i body now = (Inl MongooseValidationError, db))"
proof (intro conjI impI)
  let ?qm = "questionMap (questions quiz)"
  assume a: "2 \<le> length (trim (req_participantName body))
          \<and> length (trim (req_participantName body)) \<le> 100
          \<and> (\<forall>r \<in> set rs. acceptedResponse r)
          \<and> list_all storedQuestion (questions quiz)
          \<and> sum_list (map (\<lambda>q. valueOf (marks q)) (questions quiz)) < 2 ^ 53
          \<and> distinct (map question_id (questions quiz))
          \<and> j < length rs \<and> q \<in> set (questions quiz) \<and> question_id q = req_questionId (rs ! j)
          \<and> marks q = Fin m \<and> timeLimitSeconds q = Fin t
          \<and> req_responseTimeSeconds (rs ! j) = Fin rt"
  then have acc: "\<forall>r \<in> set rs. req_questionId r \<in> question_id ` set (questions quiz) \<and> acceptedResponse r"
    using assms(4) by blast
  from a have n: "2 \<le> length (trim (req_participantName body))"
      "length (trim (req_participantName body)) \<le> 100"
    and st: "list_all storedQuestion (questions quiz)"
    and sf: "sum_list (map (\<lambda>q. valueOf (marks q)) (questions quiz)) < 2 ^ 53"
    and di: "distinct (map question_id (questions quiz))"
    and j: "j < length rs" and q: "q \<in> set (questions quiz)"
    and qid: "question_id q = req_questionId (rs ! j)"
    and mq: "marks q = Fin m" and tq: "timeLimitSeconds q = Fin t"
    and rt: "req_responseTimeSeconds (rs ! j) = Fin rt"
    by simp_all
  from submitQuizAttempt_accepted [OF assms(1-3) n acc st sf, of now] obtain srs attempt where
    srs: "map_throw (scoreResponse ?qm) rs = Inr srs"
    and sub: "submitQuizAttempt db i body now = (Inr attempt, db\<lparr>attempts := attempts db @ [attempt]\<rparr>)"
    and res: "responses attempt = srs"
    unfolding Let_def by (metis QuizAttempt.select_convs(3))
  from srs res have len: "length (responses attempt) = length rs"
    and nth: "\<forall>k < length rs. scoreResponse ?qm (rs ! k) = Inr (responses attempt ! k)"
    by (simp_all add: map_throw_Inr_iff list_all2_conv_all_nth)
  from nth j have sj: "scoreResponse ?qm (rs ! j) = Inr (responses attempt ! j)" by simp
  from questionMap_distinct [OF di q] qid have qm: "?qm (req_questionId (rs ! j)) = Some q" by simp
  from st q have "storedQuestion q" by (simp add: list_all_iff)
  from storedQuestion_cases [OF this] mq tq obtain m' t' where
    mt: "m = of_int m'" "t = of_int t'" and b: "1 \<le> m'" "m' < 2 ^ 40" "5 \<le> t'" "t' \<le> 300"
    by auto
  from a j have "acceptedResponse (rs ! j)" by simp
  with rt have rt0: "0 \<le> rt" by (simp add: acceptedResponse_def)
  have mq': "marks q = Fin (of_int m')" and tq': "timeLimitSeconds q = Fin (of_int t')"
    using mq tq mt by simp_all
  from scoreResponse_award [of ?qm "rs ! j" q m' t' rt, OF qm mq' b(1,2) tq' b(3,4) rt rt0]
  obtain sr w where s: "scoreResponse ?qm (rs ! j) = Inr sr"
    and w: "questionId sr = req_questionId (rs ! j)" "fl (of_int m' / 10) = Fin w" "0 < w"
    and br: "if answerIsCorrect (answers q) (req_selectedAnswerIndex (rs ! j))
       then resp_isCorrect sr
            \<and> marksAwarded sr =
                roundHundredths
                  (Math_max (num_mul (Fin (of_int m')) (fl (1 / 10)))
                     (num_mul (Fin (of_int m'))
                        (Math_max (Fin 0)
                           (num_div (num_sub (Fin (of_int t')) (Fin rt)) (Fin (of_int t'))))))
            \<and> (\<exists>a. marksAwarded sr = Fin a \<and> w \<le> a \<and> a \<le> of_int m'
                   \<and> (rt = 0 \<longrightarrow> a = of_int m') \<and> (of_int t' \<le> rt \<longrightarrow> a = w))
       else \<not> resp_isCorrect sr \<and> marksAwarded sr = Fin 0"
    by blast
  from s sj have sr: "sr = responses attempt ! j" by simp
  have c: "answerIsCorrect (answers q) (req_selectedAnswerIndex (rs ! j))
      \<longleftrightarrow> 0 \<le> req_selectedAnswerIndex (rs ! j)
                    \<and> req_selectedAnswerIndex (rs ! j) < int (length (answers q))
                    \<and> isCorrect (answers q ! nat (req_selectedAnswerIndex (rs ! j)))"
    by (auto simp: answerIsCorrect_def)
  have qi: "questionId (responses attempt ! j) = question_id q"
    using w(1) by (simp only: sr qid)
  note w' = w(2,3) [folded mt] and br' = br [unfolded sr, folded mt]
  from sub len qi w' br' show "\<exists>attempt w.
             submitQuizAttempt db i body now = (Inr attempt, db\<lparr>attempts := attempts db @ [attempt]\<rparr>)
             \<and> length (responses attempt) = length rs
             \<and> questionId (responses attempt ! j) = question_id q
             \<and> fl (m / 10) = Fin w \<and> 0 < w
             \<and> (if 0 \<le> req_selectedAnswerIndex (rs ! j)
                    \<and> req_selectedAnswerIndex (rs ! j) < int (length (answers q))
                    \<and> isCorrect (answers q ! nat (req_selectedAnswerIndex (rs ! j)))
                 then resp_isCorrect (responses attempt ! j)
                      \<and> marksAwarded (responses attempt ! j) =
                          roundHundredths
                            (Math_max (num_mul (Fin m) (fl (1 / 10)))
                               (num_mul (Fin m)
                                  (Math_max (Fin 0) (num_div (num_sub (Fin t) (Fin rt)) (Fin t)))))
                      \<and> (\<exists>a. marksAwarded (responses attempt ! j) = Fin a \<and> w \<le> a \<and> a \<le> m
                             \<and> (rt = 0 \<longrightarrow> a = m) \<and> (t \<le> rt \<longrightarrow> a = w))
                 else \<not> resp_isCorrect (responses attempt ! j)
                      \<and> marksAwarded (responses attempt ! j) = Fin 0)"
    unfolding c [symmetric] by blast
next
  assume "\<exists>r \<in> set rs. req_selectedAnswerIndex r < 0 \<or> 3 < req_selectedAnswerIndex r
                         \<or> \<not> num_ge (req_responseTimeSeconds r) (Fin 0)"
  then show "submitQuizAttempt db i body now = (Inl MongooseValidationError, db)"
    by (intro submitQuizAttempt_rejected [OF assms]) blast
qed

section \<open>The scoring arithmetic on examples\<close>

lemma round2_eval:
  "of_int k \<le> x * 100 + 1 / 2 \<Longrightarrow> x * 100 + 1 / 2 < of_int k + 1 \<Longrightarrow> round2 x = of_int k / 100"
  by (simp add: round2_def round_def floor_unique)

lemma rne_tie: "y = of_int f + 1 / 2 \<Longrightarrow> rne y = (if even f then f else f + 1)"
proof -
  assume y: "y = of_int f + 1 / 2"
  then have "\<lfloor>y\<rfloor> = f" by (simp add: floor_unique)
  with y show ?thesis by (simp add: rne_def)
qed

lemma trim_Ann: "trim ''Ann'' = ''Ann''"
  by (simp add: trim_def isWhiteSpace_def)

lemma trim_A: "trim '' A '' = ''A''"
  by (simp add: trim_def isWhiteSpace_def)

text \<open>
  The steps of the scoring arithmetic on the second example quiz, each an operation on two
  numbers with the number it rounds to.
\<close>

lemma dbl_1:
  "num_sub (Fin 40) (Fin 17) = Fin 23"
  by (simp add: num_sub_def, rule fl_eval [where e = "4" and n = 6473924464345088]) (simp_all add: rne_near)

lemma dbl_2:
  "num_div (Fin 23) (Fin 40) = Fin (2589569785738035 / 4503599627370496)"
  by (simp, rule fl_eval [where e = "- 1" and n = 5179139571476070]) (simp_all add: rne_near)

lemma dbl_3:
  "num_mul (Fin 1) (Fin (3602879701896397 / 36028797018963968)) = Fin (3602879701896397 / 36028797018963968)"
  by (simp, rule fl_eval [where e = "- 4" and n = 7205759403792794]) (simp_all add: rne_near)

lemma dbl_4:
  "num_mul (Fin 1) (Fin (2589569785738035 / 4503599627370496)) = Fin (2589569785738035 / 4503599627370496)"
  by (simp, rule fl_eval [where e = "- 1" and n = 5179139571476070]) (simp_all add: rne_near)

lemma dbl_5:
  "num_mul (Fin (2589569785738035 / 4503599627370496)) (Fin 100) = Fin (8092405580431359 / 140737488355328)"
  by (simp, rule fl_eval [where e = "5" and n = 8092405580431359]) (simp_all add: rne_near)

lemma dbl_6:
  "Math_round (Fin (8092405580431359 / 140737488355328)) = Fin 57"
  using Math_round_eval [of 57 "8092405580431359 / 140737488355328"] by simp

lemma dbl_7:
  "num_div (Fin 57) (Fin 100) = Fin (5134103575202365 / 9007199254740992)"
  by (simp, rule fl_eval [where e = "- 1" and n = 5134103575202365]) (simp_all add: rne_near)

lemma dbl_8:
  "num_add (Fin 0) (Fin (5134103575202365 / 9007199254740992)) = Fin (5134103575202365 / 9007199254740992)"
  by (simp, rule fl_eval [where e = "- 1" and n = 5134103575202365]) (simp_all add: rne_near)

lemma dbl_9:
  "num_add (Fin 0) (Fin 1) = Fin 1"
  by (simp, rule fl_eval [where e = "0" and n = 4503599627370496]) (simp_all add: rne_near)

lemma dbl_10:
  "num_add (Fin 1) (Fin 7) = Fin 8"
  by (simp, rule fl_eval [where e = "3" and n = 4503599627370496]) (simp_all add: rne_near)

lemma dbl_11:
  "num_div (Fin (5134103575202365 / 9007199254740992)) (Fin 8) = Fin (5134103575202365 / 72057594037927936)"
  by (simp, rule fl_eval [where e = "- 4" and n = 5134103575202365]) (simp_all add: rne_near)

lemma dbl_12:
  "num_mul (Fin (5134103575202365 / 72057594037927936)) (Fin 10000) = Fin (6267216278323199 / 8796093022208)"
  by (simp, rule fl_eval [where e = "9" and n = 6267216278323199]) (simp_all add: rne_near)

lemma dbl_13:
  "Math_round (Fin (6267216278323199 / 8796093022208)) = Fin 712"
  using Math_round_eval [of 712 "6267216278323199 / 8796093022208"] by simp

lemma dbl_14:
  "num_div (Fin 712) (Fin 100) = Fin (8016407336719483 / 1125899906842624)"
  by (simp, rule fl_eval [where e = "2" and n = 8016407336719483]) (simp_all add: rne_near)

lemma dbl_15:
  "num_mul (Fin (5134103575202365 / 9007199254740992)) (Fin 100) = Fin (8022036836253695 / 140737488355328)"
  by (simp, rule fl_eval [where e = "5" and n = 8022036836253695]) (simp_all add: rne_near)

lemma dbl_16:
  "Math_round (Fin (8022036836253695 / 140737488355328)) = Fin 57"
  using Math_round_eval [of 57 "8022036836253695 / 140737488355328"] by simp

lemma dbl_17:
  "num_sub (Fin 40) (Fin 33) = Fin 7"
  by (simp add: num_sub_def, rule fl_eval [where e = "2" and n = 7881299347898368]) (simp_all add: rne_near)

lemma dbl_18:
  "num_div (Fin 7) (Fin 40) = Fin (3152519739159347 / 18014398509481984)"
  by (simp, rule fl_eval [where e = "- 3" and n = 6305039478318694]) (simp_all add: rne_near)

lemma dbl_19:
  "num_mul (Fin 1) (Fin (3152519739159347 / 18014398509481984)) = Fin (3152519739159347 / 18014398509481984)"
  by (simp, rule fl_eval [where e = "- 3" and n = 6305039478318694]) (simp_all add: rne_near)

lemma dbl_20:
  "num_mul (Fin (3152519739159347 / 18014398509481984)) (Fin 100) = Fin (35 / 2)"
  by (simp, rule fl_eval [where e = "4" and n = 4925812092436480]) (simp_all add: rne_near)

lemma dbl_21:
  "Math_round (Fin (35 / 2)) = Fin 18"
  using Math_round_eval [of 18 "35 / 2"] by simp

lemma dbl_22:
  "num_div (Fin 18) (Fin 100) = Fin (3242591731706757 / 18014398509481984)"
  by (simp, rule fl_eval [where e = "- 3" and n = 6485183463413514]) (simp_all add: rne_near)

lemma dbl_23:
  "num_sub (Fin 30) (Fin 11) = Fin 19"
  by (simp add: num_sub_def, rule fl_eval [where e = "4" and n = 5348024557502464]) (simp_all add: rne_near)

lemma dbl_24:
  "num_div (Fin 19) (Fin 30) = Fin (1426139882000657 / 2251799813685248)"
  by (simp, rule fl_eval [where e = "- 1" and n = 5704559528002628]) (simp_all add: rne_near)

lemma dbl_25:
  "num_mul (Fin 7) (Fin (3602879701896397 / 36028797018963968)) = Fin (6305039478318695 / 9007199254740992)"
  by (simp, rule fl_eval [where e = "- 1" and n = 6305039478318695]) (simp_all add: rne_near)

lemma dbl_26:
  "num_mul (Fin 7) (Fin (1426139882000657 / 2251799813685248)) = Fin (1247872396750575 / 281474976710656)"
  by (simp, rule fl_eval [where e = "2" and n = 4991489587002300]) (simp_all add: rne_near rne_tie [where f = 4991489587002299])

lemma dbl_27:
  "num_mul (Fin (1247872396750575 / 281474976710656)) (Fin 100) = Fin (3899601239845547 / 8796093022208)"
  by (simp, rule fl_eval [where e = "8" and n = 7799202479691094]) (simp_all add: rne_near)

lemma dbl_28:
  "Math_round (Fin (3899601239845547 / 8796093022208)) = Fin 443"
  using Math_round_eval [of 443 "3899601239845547 / 8796093022208"] by simp

lemma dbl_29:
  "num_div (Fin 443) (Fin 100) = Fin (623467073414103 / 140737488355328)"
  by (simp, rule fl_eval [where e = "2" and n = 4987736587312824]) (simp_all add: rne_near)

lemma dbl_30:
  "num_add (Fin 0) (Fin (3242591731706757 / 18014398509481984)) = Fin (3242591731706757 / 18014398509481984)"
  by (simp, rule fl_eval [where e = "- 3" and n = 6485183463413514]) (simp_all add: rne_near)

lemma dbl_31:
  "num_add (Fin (3242591731706757 / 18014398509481984)) (Fin (623467073414103 / 140737488355328)) = Fin (324399910659031 / 70368744177664)"
  by (simp, rule fl_eval [where e = "2" and n = 5190398570544496]) (simp_all add: rne_near)

lemma dbl_32:
  "num_div (Fin (324399910659031 / 70368744177664)) (Fin 8) = Fin (324399910659031 / 562949953421312)"
  by (simp, rule fl_eval [where e = "- 1" and n = 5190398570544496]) (simp_all add: rne_near)

lemma dbl_33:
  "num_mul (Fin (324399910659031 / 562949953421312)) (Fin 10000) = Fin (6335935755059199 / 1099511627776)"
  by (simp, rule fl_eval [where e = "12" and n = 6335935755059199]) (simp_all add: rne_near)

lemma dbl_34:
  "Math_round (Fin (6335935755059199 / 1099511627776)) = Fin 5762"
  using Math_round_eval [of 5762 "6335935755059199 / 1099511627776"] by simp

lemma dbl_35:
  "num_div (Fin 5762) (Fin 100) = Fin (8109294079033999 / 140737488355328)"
  by (simp, rule fl_eval [where e = "5" and n = 8109294079033999]) (simp_all add: rne_near)

lemma dbl_36:
  "num_mul (Fin (324399910659031 / 70368744177664)) (Fin 100) = Fin (8109997766475775 / 17592186044416)"
  by (simp, rule fl_eval [where e = "8" and n = 8109997766475775]) (simp_all add: rne_near)

lemma dbl_37:
  "Math_round (Fin (8109997766475775 / 17592186044416)) = Fin 461"
  using Math_round_eval [of 461 "8109997766475775 / 17592186044416"] by simp

lemma dbl_38:
  "num_div (Fin 461) (Fin 100) = Fin (5190398570544497 / 1125899906842624)"
  by (simp, rule fl_eval [where e = "2" and n = 5190398570544497]) (simp_all add: rne_near)

lemma dbl_39:
  "num_div (Fin (5190398570544497 / 1125899906842624)) (Fin 8) = Fin (5190398570544497 / 9007199254740992)"
  by (simp, rule fl_eval [where e = "- 1" and n = 5190398570544497]) (simp_all add: rne_near)

lemma dbl_40:
  "num_mul (Fin (5190398570544497 / 9007199254740992)) (Fin 100) = Fin (8109997766475777 / 140737488355328)"
  by (simp, rule fl_eval [where e = "5" and n = 8109997766475777]) (simp_all add: rne_near)

lemma dbl_41:
  "num_mul (Fin (8109997766475777 / 140737488355328)) (Fin 100) = Fin (6335935755059201 / 1099511627776)"
  by (simp, rule fl_eval [where e = "12" and n = 6335935755059201]) (simp_all add: rne_near)

lemma dbl_42:
  "Math_round (Fin (6335935755059201 / 1099511627776)) = Fin 5763"
  using Math_round_eval [of 5763 "6335935755059201 / 1099511627776"] by simp

lemma dbl_43:
  "num_div (Fin 5763) (Fin 100) = Fin (8110701453917553 / 140737488355328)"
  by (simp, rule fl_eval [where e = "5" and n = 8110701453917553]) (simp_all add: rne_near)

lemmas dbl = dbl_1 dbl_2 dbl_3 dbl_4 dbl_5 dbl_6 dbl_7 dbl_8 dbl_9 dbl_10 dbl_11 dbl_12 dbl_13 dbl_14 dbl_15 dbl_16 dbl_17 dbl_18 dbl_19 dbl_20 dbl_21 dbl_22 dbl_23 dbl_24 dbl_25 dbl_26 dbl_27 dbl_28 dbl_29 dbl_30 dbl_31 dbl_32 dbl_33 dbl_34 dbl_35 dbl_36 dbl_37 dbl_38 dbl_39 dbl_40 dbl_41 dbl_42 dbl_43

lemmas quiz_eval = submitQuizAttempt_def Quiz_findById_def questionMap_def scoreResponse_def
  answerIsCorrect_def QuizAttempt_create_def QuizAttempt_validate_def QuestionResponse_validate_def
  Let_def ex_quiz_db2_def ex_quiz2_def ex_q3_def ex_q4_def ex_r3_def ex_r3'_def ex_r4_def

lemma fl_057: "fl (57 / 100) = Fin (5134103575202365 / 9007199254740992)"
  by (rule fl_eval [where e = "- 1" and n = 5134103575202365]) (simp_all add: rne_near)

lemma fl_058: "fl (58 / 100) = Fin (5224175567749775 / 9007199254740992)"
  by (rule fl_eval [where e = "- 1" and n = 5224175567749775]) (simp_all add: rne_near)

lemma fl_461: "fl (461 / 100) = Fin (5190398570544497 / 1125899906842624)"
  by (rule fl_eval [where e = "2" and n = 5190398570544497]) (simp_all add: rne_near)

lemma fl_5762: "fl (5762 / 100) = Fin (8109294079033999 / 140737488355328)"
  by (rule fl_eval [where e = "5" and n = 8109294079033999]) (simp_all add: rne_near)

lemma fl_5763: "fl (5763 / 100) = Fin (8110701453917553 / 140737488355328)"
  by (rule fl_eval [where e = "5" and n = 8110701453917553]) (simp_all add: rne_near)

lemma ce1_run:
  "submitQuizAttempt ex_quiz_db2 ''64d000000000000000000002''
      \<lparr> req_participantName = ''Ann'', req_responses = Some [ex_r3] \<rparr> 0
   = (Inr \<lparr> quizId = ''64d000000000000000000002'', participantName = ''Ann'',
             responses = [\<lparr> questionId = ''64c000000000000000000003'', selectedAnswerIndex = 1,
                            responseTimeSeconds = Fin 17, resp_isCorrect = True,
                            marksAwarded = Fin (5134103575202365 / 9007199254740992) \<rparr>],
             totalMarks = Fin (5134103575202365 / 9007199254740992),
             maxMarks = Fin 8,
             percentage = Fin (8016407336719483 / 1125899906842624),
             completedAt = 0 \<rparr>,
      ex_quiz_db2\<lparr>attempts :=
        [\<lparr> quizId = ''64d000000000000000000002'', participantName = ''Ann'',
             responses = [\<lparr> questionId = ''64c000000000000000000003'', selectedAnswerIndex = 1,
                            responseTimeSeconds = Fin 17, resp_isCorrect = True,
                            marksAwarded = Fin (5134103575202365 / 9007199254740992) \<rparr>],
             totalMarks = Fin (5134103575202365 / 9007199254740992),
             maxMarks = Fin 8,
             percentage = Fin (8016407336719483 / 1125899906842624),
             completedAt = 0 \<rparr>]\<rparr>)"
  by (simp add: quiz_eval trim_Ann fl_tenth dbl
        del: num_add.simps num_mul.simps num_div.simps Math_round.simps)

lemma ce2_run:
  "submitQuizAttempt ex_quiz_db2 ''64d000000000000000000002''
      \<lparr> req_participantName = ''Ann'', req_responses = Some [ex_r3', ex_r4] \<rparr> 0
   = (Inr \<lparr> quizId = ''64d000000000000000000002'', participantName = ''Ann'',
             responses = [\<lparr> questionId = ''64c000000000000000000003'', selectedAnswerIndex = 1,
                            responseTimeSeconds = Fin 33, resp_isCorrect = True,
                            marksAwarded = Fin (3242591731706757 / 18014398509481984) \<rparr>,
                          \<lparr> questionId = ''64c000000000000000000004'', selectedAnswerIndex = 1,
                            responseTimeSeconds = Fin 11, resp_isCorrect = True,
                            marksAwarded = Fin (623467073414103 / 140737488355328) \<rparr>],
             totalMarks = Fin (5190398570544497 / 1125899906842624),
             maxMarks = Fin 8,
             percentage = Fin (8109294079033999 / 140737488355328),
             completedAt = 0 \<rparr>,
      ex_quiz_db2\<lparr>attempts :=
        [\<lparr> quizId = ''64d000000000000000000002'', participantName = ''Ann'',
             responses = [\<lparr> questionId = ''64c000000000000000000003'', selectedAnswerIndex = 1,
                            responseTimeSeconds = Fin 33, resp_isCorrect = True,
                            marksAwarded = Fin (3242591731706757 / 18014398509481984) \<rparr>,
                          \<lparr> questionId = ''64c000000000000000000004'', selectedAnswerIndex = 1,
                            responseTimeSeconds = Fin 11, resp_isCorrect = True,
                            marksAwarded = Fin (623467073414103 / 140737488355328) \<rparr>],
             totalMarks = Fin (5190398570544497 / 1125899906842624),
             maxMarks = Fin 8,
             percentage = Fin (8109294079033999 / 140737488355328),
             completedAt = 0 \<rparr>]\<rparr>)"
  by (simp add: quiz_eval trim_Ann fl_tenth dbl
        del: num_add.simps num_mul.simps num_div.simps Math_round.simps)

lemma ex_quiz2_found:
  "Quiz_findById (quizzes ex_quiz_db2) ''64d000000000000000000002'' = Some ex_quiz2"
  by (simp add: Quiz_findById_def ex_quiz_db2_def ex_quiz2_def)

theorem submitQuizAttempt_marksAwarded_witness:
  "(\<exists>attempt w.
      submitQuizAttempt ex_quiz_db2 ''64d000000000000000000002''
          \<lparr> req_participantName = ''Ann'', req_responses = Some [ex_r3] \<rparr> 0
        = (Inr attempt, ex_quiz_db2\<lparr>attempts := attempts ex_quiz_db2 @ [attempt]\<rparr>)
      \<and> length (responses attempt) = 1
      \<and> fl (1 / 10) = Fin w \<and> 0 < w
      \<and> resp_isCorrect (responses attempt ! 0)
      \<and> (\<exists>a. marksAwarded (responses attempt ! 0) = Fin a \<and> w \<le> a \<and> a \<le> 1))
   \<and> submitQuizAttempt ex_quiz_db2 ''64d000000000000000000002''
          \<lparr> req_participantName = ''Ann'',
            req_responses = Some [ex_r3\<lparr>req_selectedAnswerIndex := 7\<rparr>] \<rparr> 0
        = (Inl MongooseValidationError, ex_quiz_db2)"
proof -
  have vis: "isVisible ex_quiz2" by (simp add: ex_quiz2_def)
  have r1: "req_responses \<lparr> req_participantName = ''Ann'', req_responses = Some [ex_r3] \<rparr>
      = Some [ex_r3]" by simp
  have k1: "\<forall>r \<in> set [ex_r3]. req_questionId r \<in> question_id ` set (questions ex_quiz2)"
    by (simp add: ex_quiz2_def ex_q3_def ex_q4_def ex_r3_def)
  have hyp: "2 \<le> length (trim (req_participantName \<lparr> req_participantName = ''Ann'', req_responses = Some [ex_r3] \<rparr>))
          \<and> length (trim (req_participantName \<lparr> req_participantName = ''Ann'', req_responses = Some [ex_r3] \<rparr>)) \<le> 100
          \<and> (\<forall>r \<in> set [ex_r3]. acceptedResponse r)
          \<and> list_all storedQuestion (questions ex_quiz2)
          \<and> sum_list (map (\<lambda>q. valueOf (marks q)) (questions ex_quiz2)) < 2 ^ 53
          \<and> distinct (map question_id (questions ex_quiz2))
          \<and> 0 < length [ex_r3] \<and> ex_q3 \<in> set (questions ex_quiz2)
          \<and> question_id ex_q3 = req_questionId ([ex_r3] ! 0)
          \<and> marks ex_q3 = Fin 1 \<and> timeLimitSeconds ex_q3 = Fin 40
          \<and> req_responseTimeSeconds ([ex_r3] ! 0) = Fin 17"
    by (simp add: trim_Ann acceptedResponse_def storedQuestion_def isInteger_def
          ex_quiz2_def ex_q3_def ex_q4_def ex_r3_def)
  have c: "0 \<le> req_selectedAnswerIndex ([ex_r3] ! 0)
        \<and> req_selectedAnswerIndex ([ex_r3] ! 0) < int (length (answers ex_q3))
        \<and> isCorrect (answers ex_q3 ! nat (req_selectedAnswerIndex ([ex_r3] ! 0)))"
    by (simp add: ex_q3_def ex_r3_def)
  have r2: "req_responses \<lparr> req_participantName = ''Ann'',
            req_responses = Some [ex_r3\<lparr>req_selectedAnswerIndex := 7\<rparr>] \<rparr>
      = Some [ex_r3\<lparr>req_selectedAnswerIndex := 7\<rparr>]" by simp
  have k2: "\<forall>r \<in> set [ex_r3\<lparr>req_selectedAnswerIndex := 7\<rparr>].
      req_questionId r \<in> question_id ` set (questions ex_quiz2)"
    by (simp add: ex_quiz2_def ex_q3_def ex_q4_def ex_r3_def)
  have bad: "\<exists>r \<in> set [ex_r3\<lparr>req_selectedAnswerIndex := 7\<rparr>].
      req_selectedAnswerIndex r < 0 \<or> 3 < req_selectedAnswerIndex r
        \<or> \<not> num_ge (req_responseTimeSeconds r) (Fin 0)"
    by simp
  note t1 = submitQuizAttempt_marksAwarded [OF ex_quiz2_found vis r1 k1,
      where j = 0 and q = ex_q3 and m = 1 and t = 40 and rt = 17 and now = 0,
      THEN conjunct1, THEN mp, OF hyp]
  note t2 = submitQuizAttempt_marksAwarded [OF ex_quiz2_found vis r2 k2,
      where j = 0 and q = ex_q3 and m = 1 and t = 40 and rt = 17 and now = 0,
      THEN conjunct2, THEN mp, OF bad]
  from t1 have "\<exists>attempt w.
      submitQuizAttempt ex_quiz_db2 ''64d000000000000000000002''
          \<lparr> req_participantName = ''Ann'', req_responses = Some [ex_r3] \<rparr> 0
        = (Inr attempt, ex_quiz_db2\<lparr>attempts := attempts ex_quiz_db2 @ [attempt]\<rparr>)
      \<and> length (responses attempt) = length [ex_r3]
      \<and> questionId (responses attempt ! 0) = question_id ex_q3
      \<and> fl (1 / 10) = Fin w \<and> 0 < w
      \<and> resp_isCorrect (responses attempt ! 0)
      \<and> marksAwarded (responses attempt ! 0) =
          roundHundredths
            (Math_max (num_mul (Fin 1) (fl (1 / 10)))
               (num_mul (Fin 1) (Math_max (Fin 0) (num_div (num_sub (Fin 40) (Fin 17)) (Fin 40)))))
      \<and> (\<exists>a. marksAwarded (responses attempt ! 0) = Fin a \<and> w \<le> a \<and> a \<le> 1
             \<and> (17 = (0::rat) \<longrightarrow> a = 1) \<and> ((40::rat) \<le> 17 \<longrightarrow> a = w))"
    by (simp only: c if_True simp_thms)
  then obtain attempt w a where
    p: "submitQuizAttempt ex_quiz_db2 ''64d000000000000000000002''
          \<lparr> req_participantName = ''Ann'', req_responses = Some [ex_r3] \<rparr> 0
        = (Inr attempt, ex_quiz_db2\<lparr>attempts := attempts ex_quiz_db2 @ [attempt]\<rparr>)"
      "length (responses attempt) = length [ex_r3]"
      "fl (1 / 10) = Fin w" "0 < w" "resp_isCorrect (responses attempt ! 0)"
      "marksAwarded (responses attempt ! 0) = Fin a" "w \<le> a" "a \<le> 1"
    by blast
  from p(2) have "length (responses attempt) = 1" by simp
  with p have "\<exists>attempt w.
      submitQuizAttempt ex_quiz_db2 ''64d000000000000000000002''
          \<lparr> req_participantName = ''Ann'', req_responses = Some [ex_r3] \<rparr> 0
        = (Inr attempt, ex_quiz_db2\<lparr>attempts := attempts ex_quiz_db2 @ [attempt]\<rparr>)
      \<and> length (responses attempt) = 1
      \<and> fl (1 / 10) = Fin w \<and> 0 < w
      \<and> resp_isCorrect (responses attempt ! 0)
      \<and> (\<exists>a. marksAwarded (responses attempt ! 0) = Fin a \<and> w \<le> a \<and> a \<le> 1)"
    by blast
  with t2 show ?thesis by (rule_tac conjI)
qed

text \<open>
  Counterexample to claim C1 as stated: a correct answer after 17 of the 40 seconds to a
  question of 1 mark. The exact award is 0.575, which the claim's formula rounds to 0.58; the
  code's product \<^verbatim>\<open>0.575 * 100\<close> is a number just below 57.5, so that the stored
  \<open>marksAwarded\<close> is the number 0.57, not the number 0.58. And a response whose answer
  index is 7 is not stored as incorrect with 0 marks: the submission creates nothing.
\<close>

theorem submitQuizAttempt_marksAwarded_counterexample:
  "fst (submitQuizAttempt ex_quiz_db2 ''64d000000000000000000002''
          \<lparr> req_participantName = ''Ann'', req_responses = Some [ex_r3] \<rparr> 0)
     = Inr \<lparr> quizId = ''64d000000000000000000002'', participantName = ''Ann'',
             responses = [\<lparr> questionId = ''64c000000000000000000003'', selectedAnswerIndex = 1,
                            responseTimeSeconds = Fin 17, resp_isCorrect = True,
                            marksAwarded = Fin (5134103575202365 / 9007199254740992) \<rparr>],
             totalMarks = Fin (5134103575202365 / 9007199254740992),
             maxMarks = Fin 8,
             percentage = Fin (8016407336719483 / 1125899906842624),
             completedAt = 0 \<rparr>
   \<and> fl (57 / 100) = Fin (5134103575202365 / 9007199254740992)
   \<and> exactAward 1 40 17 = 58 / 100
   \<and> fl (58 / 100) = Fin (5224175567749775 / 9007199254740992)
   \<and> submitQuizAttempt ex_quiz_db2 ''64d000000000000000000002''
          \<lparr> req_participantName = ''Ann'',
            req_responses = Some [ex_r3\<lparr>req_selectedAnswerIndex := 7\<rparr>] \<rparr> 0
        = (Inl MongooseValidationError, ex_quiz_db2)"
proof (intro conjI)
  show "exactAward 1 40 17 = 58 / 100"
    using round2_eval [of 58 "23 / 40"] by (simp add: exactAward_def)
  show "submitQuizAttempt ex_quiz_db2 ''64d000000000000000000002''
          \<lparr> req_participantName = ''Ann'',
            req_responses = Some [ex_r3\<lparr>req_selectedAnswerIndex := 7\<rparr>] \<rparr> 0
        = (Inl MongooseValidationError, ex_quiz_db2)"
    by (rule submitQuizAttempt_rejected [OF ex_quiz2_found, where rs = "[ex_r3\<lparr>req_selectedAnswerIndex := 7\<rparr>]"])
       (simp_all add: ex_quiz2_def ex_q3_def ex_q4_def ex_r3_def)
qed (simp_all only: ce1_run fst_conv fl_057 fl_058)

theorem submitQuizAttempt_totals_witness:
  "(\<exists>attempt.
      submitQuizAttempt ex_quiz_db2 ''64d000000000000000000002''
          \<lparr> req_participantName = ''Ann'', req_responses = Some [ex_r4] \<rparr> 0
        = (Inr attempt, ex_quiz_db2\<lparr>attempts := attempts ex_quiz_db2 @ [attempt]\<rparr>)
      \<and> participantName attempt = ''Ann''
      \<and> length (responses attempt) = 1
      \<and> totalMarks attempt
           = roundHundredths (foldl num_add (Fin 0) (map marksAwarded (responses attempt)))
      \<and> maxMarks attempt = Fin 8
      \<and> percentage attempt =
           num_div (Math_round (num_mul
             (num_div (foldl num_add (Fin 0) (map marksAwarded (responses attempt))) (Fin 8))
             (Fin 10000))) (Fin 100))
   \<and> submitQuizAttempt ex_quiz_db2 ''64d000000000000000000002''
          \<lparr> req_participantName = '' A '', req_responses = Some [ex_r4] \<rparr> 0
        = (Inl MongooseValidationError, ex_quiz_db2)"
proof -
  have vis: "isVisible ex_quiz2" by (simp add: ex_quiz2_def)
  have r1: "req_responses \<lparr> req_participantName = ''Ann'', req_responses = Some [ex_r4] \<rparr>
      = Some [ex_r4]" by simp
  have r2: "req_responses \<lparr> req_participantName = '' A '', req_responses = Some [ex_r4] \<rparr>
      = Some [ex_r4]" by simp
  have k: "\<forall>r \<in> set [ex_r4]. req_questionId r \<in> question_id ` set (questions ex_quiz2)"
    by (simp add: ex_quiz2_def ex_q3_def ex_q4_def ex_r4_def)
  have hyp: "2 \<le> length (trim (req_participantName \<lparr> req_participantName = ''Ann'', req_responses = Some [ex_r4] \<rparr>))
          \<and> length (trim (req_participantName \<lparr> req_participantName = ''Ann'', req_responses = Some [ex_r4] \<rparr>)) \<le> 100
          \<and> (\<forall>r \<in> set [ex_r4]. acceptedResponse r)
          \<and> list_all storedQuestion (questions ex_quiz2)
          \<and> sum_list (map (\<lambda>q. valueOf (marks q)) (questions ex_quiz2)) < 2 ^ 53"
    by (simp add: trim_Ann acceptedResponse_def storedQuestion_def isInteger_def
          ex_quiz2_def ex_q3_def ex_q4_def ex_r4_def)
  have bad: "length (trim (req_participantName \<lparr> req_participantName = '' A '', req_responses = Some [ex_r4] \<rparr>)) < 2
      \<or> 100 < length (trim (req_participantName \<lparr> req_participantName = '' A '', req_responses = Some [ex_r4] \<rparr>))"
    by (simp add: trim_A)
  have s: "sum_list (map (\<lambda>q. valueOf (marks q)) (questions ex_quiz2)) = 8"
    by (simp add: ex_quiz2_def ex_q3_def ex_q4_def)
  note t1 = submitQuizAttempt_totals [OF ex_quiz2_found vis r1 k, where now = 0,
      THEN conjunct1, THEN mp, OF hyp]
  note t2 = submitQuizAttempt_totals [OF ex_quiz2_found vis r2 k, where now = 0,
      THEN conjunct2, THEN mp, OF bad]
  from t1 have "\<exists>attempt.
      submitQuizAttempt ex_quiz_db2 ''64d000000000000000000002''
          \<lparr> req_participantName = ''Ann'', req_responses = Some [ex_r4] \<rparr> 0
        = (Inr attempt, ex_quiz_db2\<lparr>attempts := attempts ex_quiz_db2 @ [attempt]\<rparr>)
      \<and> participantName attempt = ''Ann''
      \<and> length (responses attempt) = 1
      \<and> totalMarks attempt
           = roundHundredths (foldl num_add (Fin 0) (map marksAwarded (responses attempt)))
      \<and> maxMarks attempt = Fin 8
      \<and> percentage attempt =
           num_div (Math_round (num_mul
             (num_div (foldl num_add (Fin 0) (map marksAwarded (responses attempt))) (Fin 8))
             (Fin 10000))) (Fin 100)"
    unfolding Let_def s by (simp add: trim_Ann del: num_div.simps num_mul.simps Math_round.simps)
  with t2 show ?thesis by (rule_tac conjI)
qed

text \<open>
  Counterexample to claim C2 as stated: correct answers after 33 of 40 seconds to a question
  of 1 mark and after 11 of 30 seconds to a question of 7 marks are awarded 0.18 and 4.43.
  Their sum as numbers is just below 4.61; the stored \<open>totalMarks\<close> is the number 4.61,
  \<open>maxMarks\<close> is 8 and the stored \<open>percentage\<close> is the number 57.62. The claim's
  \<open>round2 ((totalMarks / maxMarks) * 100)\<close> is 57.63, whether it is evaluated exactly on the
  stored number, exactly on the decimal 4.61, or on numbers as the code would.
\<close>

theorem submitQuizAttempt_totals_counterexample:
  "fst (submitQuizAttempt ex_quiz_db2 ''64d000000000000000000002''
          \<lparr> req_participantName = ''Ann'', req_responses = Some [ex_r3', ex_r4] \<rparr> 0)
     = Inr \<lparr> quizId = ''64d000000000000000000002'', participantName = ''Ann'',
             responses = [\<lparr> questionId = ''64c000000000000000000003'', selectedAnswerIndex = 1,
                            responseTimeSeconds = Fin 33, resp_isCorrect = True,
                            marksAwarded = Fin (3242591731706757 / 18014398509481984) \<rparr>,
                          \<lparr> questionId = ''64c000000000000000000004'', selectedAnswerIndex = 1,
                            responseTimeSeconds = Fin 11, resp_isCorrect = True,
                            marksAwarded = Fin (623467073414103 / 140737488355328) \<rparr>],
             totalMarks = Fin (5190398570544497 / 1125899906842624),
             maxMarks = Fin 8,
             percentage = Fin (8109294079033999 / 140737488355328),
             completedAt = 0 \<rparr>
   \<and> fl (461 / 100) = Fin (5190398570544497 / 1125899906842624)
   \<and> fl (5762 / 100) = Fin (8109294079033999 / 140737488355328)
   \<and> fl (5763 / 100) = Fin (8110701453917553 / 140737488355328)
   \<and> round2 (5190398570544497 / 1125899906842624 / 8 * 100) = 5763 / 100
   \<and> round2 (461 / 100 / 8 * 100) = 5763 / 100
   \<and> roundHundredths (num_mul (num_div (Fin (5190398570544497 / 1125899906842624)) (Fin 8)) (Fin 100))
       = Fin (8110701453917553 / 140737488355328)"
proof (intro conjI)
  show "round2 (5190398570544497 / 1125899906842624 / 8 * 100) = 5763 / 100"
    using round2_eval [of 5763 "5190398570544497 / 1125899906842624 / 8 * 100"] by simp
  show "round2 (461 / 100 / 8 * 100) = 5763 / 100"
    using round2_eval [of 5763 "461 / 100 / 8 * 100"] by simp
  show "roundHundredths (num_mul (num_div (Fin (5190398570544497 / 1125899906842624)) (Fin 8)) (Fin 100))
       = Fin (8110701453917553 / 140737488355328)"
    by (simp add: roundHundredths_def dbl
          del: num_add.simps num_mul.simps num_div.simps Math_round.simps)
qed (simp_all only: ce2_run fst_conv fl_461 fl_5762 fl_5763)

section \<open>Team membership\<close>

lemmas ex_team_defs = ex_students_def ex_team_db_def ex_team1_def ex_team_db1_def ex_team_db2_def

lemmas team_op_defs = createTeam_def respondToInvitation_def leaveTeam_def disbandTeam_def
  removeMember_def team_save_def resolveMember_def parseDecision_def Student_findById_def
  CompetitionTeam_findById_def CompetitionTeam_findOne_name_def CompetitionTeam_create_def
  CompetitionTeam_validate_def CompetitionTeamMember_validate_def hex24_def run_def Let_def

lemma findIndex_None_iff: "findIndex p xs = None \<longleftrightarrow> (\<forall>x \<in> set xs. \<not> p x)"
  by (induction xs) (auto split: option.splits)

lemma findIndex_Some:
  "findIndex p xs = Some i \<Longrightarrow> i < length xs \<and> p (xs ! i) \<and> (\<forall>j < i. \<not> p (xs ! j))"
proof (induction xs arbitrary: i)
  case Nil
  then show ?case by simp
next
  case (Cons x xs)
  show ?case
  proof (cases "p x")
    case True
    with Cons.prems show ?thesis by simp
  next
    case False
    with Cons.prems obtain k where k: "findIndex p xs = Some k" "i = Suc k"
      by (auto split: option.splits)
    from Cons.IH [OF k(1)] False k(2) show ?thesis
      by (auto simp: nth_Cons split: nat.splits)
  qed
qed

lemma CompetitionTeam_findById_id:
  "CompetitionTeam_findById ts i = Some t \<Longrightarrow> team_id t = i \<and> t \<in> set ts"
  by (auto simp: CompetitionTeam_findById_def find_Some_iff)

lemma find_map_replace:
  "find (\<lambda>t. team_id t = i) (map (\<lambda>x. if team_id x = team_id t then t else x) ts) =
     (if i = team_id t
      then (case find (\<lambda>t. team_id t = i) ts of None \<Rightarrow> None | Some u \<Rightarrow> Some t)
      else find (\<lambda>t. team_id t = i) ts)"
  by (induction ts) auto

lemma findById_team_save:
  "CompetitionTeam_findById (teams (team_save db t)) i =
     (if i = team_id t
      then (case CompetitionTeam_findById (teams db) i of None \<Rightarrow> None | Some u \<Rightarrow> Some t)
      else CompetitionTeam_findById (teams db) i)"
  by (simp add: CompetitionTeam_findById_def team_save_def find_map_replace)

lemma trim_alpha: "trim ''alpha'' = ''alpha''"
  by (simp add: trim_def isWhiteSpace_def)

lemma Student_findById_Some:
  "Student_findById P ss i = Inr (Some s) \<Longrightarrow> student_id s = i \<and> s \<in> set ss \<and> P i"
  by (auto simp: Student_findById_def find_Some_iff in_set_conv_nth split: if_splits)

lemma Student_findById_Inr:
  "P i \<Longrightarrow> Student_findById P ss i = Inr (find (\<lambda>s. student_id s = i) ss)"
  by (simp add: Student_findById_def)

lemma resolveMember_isl: "isl (resolveMember P ss i) \<longleftrightarrow> \<not> P i"
  by (simp add: resolveMember_def Student_findById_def split: option.splits)

lemma resolveMember_Inl:
  "\<not> P i \<Longrightarrow> resolveMember P ss i = Inl (MongooseCastError ''_id'' i)"
  by (simp add: resolveMember_def Student_findById_def)

lemma resolveMember_Inr:
  assumes "resolveMember P ss i = Inr r"
  shows "P i \<and> (r = None \<longleftrightarrow> find (\<lambda>s. student_id s = i) ss = None)
       \<and> (\<forall>m. r = Some m \<longrightarrow> studentId m = i \<and> member_status m = MemberPending \<and> joinedAt m = None
               \<and> (list_all storedStudent ss \<longrightarrow> CompetitionTeamMember_validate m))"
proof (cases "find (\<lambda>s. student_id s = i) ss")
  case None
  with assms show ?thesis
    by (auto simp: resolveMember_def Student_findById_def split: if_splits)
next
  case (Some s)
  then have "student_id s = i" "s \<in> set ss" by (auto simp: find_Some_iff in_set_conv_nth)
  with assms Some show ?thesis
    by (auto simp: resolveMember_def Student_findById_def list_all_iff storedStudent_def
          CompetitionTeamMember_validate_def split: if_splits)
qed

text \<open>
  When every lookup of an invitee succeeds, the entries that remain after the filter belong to
  the ids found in the directory, in order; each is pending and has no joining date.
\<close>

lemma map_throw_resolveMember:
  "map_throw (resolveMember P ss) ids = Inr found \<Longrightarrow>
     (\<forall>i \<in> set ids. P i)
     \<and> map studentId (map the (filter (\<lambda>m. m \<noteq> None) found))
         = filter (\<lambda>i. find (\<lambda>s. student_id s = i) ss \<noteq> None) ids
     \<and> list_all (\<lambda>m. member_status m = MemberPending \<and> joinedAt m = None)
         (map the (filter (\<lambda>m. m \<noteq> None) found))
     \<and> (list_all storedStudent ss \<longrightarrow>
          list_all CompetitionTeamMember_validate (map the (filter (\<lambda>m. m \<noteq> None) found)))"
proof (induction ids arbitrary: found)
  case Nil
  then show ?case by auto
next
  case (Cons i ids)
  from Cons.prems obtain r rest where r: "resolveMember P ss i = Inr r"
    and rest: "map_throw (resolveMember P ss) ids = Inr rest" and f: "found = r # rest"
    by (auto split: sum.splits)
  note ih = Cons.IH [OF rest] and ri = resolveMember_Inr [OF r]
  show ?case
  proof (cases r)
    case None
    with ih ri f show ?thesis by simp
  next
    case (Some m)
    with ih ri f show ?thesis by simp
  qed
qed

lemma map_throw_resolveMember_total:
  "\<forall>i \<in> set ids. P i \<Longrightarrow> \<exists>found. map_throw (resolveMember P ss) ids = Inr found"
proof (rule map_throw_total)
  assume a: "\<forall>i \<in> set ids. P i"
  show "\<forall>i \<in> set ids. \<exists>y. resolveMember P ss i = Inr y"
  proof
    fix i assume "i \<in> set ids"
    with a have "\<not> isl (resolveMember P ss i)" by (simp add: resolveMember_isl)
    then show "\<exists>y. resolveMember P ss i = Inr y" by (cases "resolveMember P ss i") auto
  qed
qed

lemma map_throw_resolveMember_cast:
  assumes "\<not> (\<forall>i \<in> set ids. P i)"
  shows "\<exists>i \<in> set ids. \<not> P i \<and> map_throw (resolveMember P ss) ids = Inl (MongooseCastError ''_id'' i)"
proof -
  from assms obtain i where i: "find (\<lambda>i. \<not> P i) ids = Some i"
    by (cases "find (\<lambda>i. \<not> P i) ids") (auto simp: find_None_iff)
  then have ni: "\<not> P i" "i \<in> set ids" by (auto simp: find_Some_iff in_set_conv_nth)
  from i have "find (\<lambda>i. isl (resolveMember P ss i)) ids = Some i"
    by (simp add: resolveMember_isl)
  from map_throw_first_error [OF this] ni show ?thesis
    by (auto simp: resolveMember_Inl)
qed

text \<open>What a successful \<^verbatim>\<open>createTeam\<close> has done.\<close>

lemma createTeam_Inr:
  assumes "createTeam P db leader name memberIds newId = (Inr team, db')"
  shows "db' = db\<lparr>teams := teams db @ [team]\<rparr> \<and> leaderId team = leader
       \<and> find (\<lambda>s. student_id s = leader) (students db) \<noteq> None
       \<and> (\<forall>i \<in> set (case memberIds of None \<Rightarrow> [] | Some ids \<Rightarrow> ids). P i)
       \<and> map studentId (members team) =
           filter (\<lambda>i. find (\<lambda>s. student_id s = i) (students db) \<noteq> None)
             (case memberIds of None \<Rightarrow> [] | Some ids \<Rightarrow> ids)
       \<and> list_all (\<lambda>m. member_status m = MemberPending \<and> joinedAt m = None) (members team)
       \<and> team_status team = (if members team = [] then TeamActive else TeamPending)"
proof -
  let ?ids = "case memberIds of None \<Rightarrow> [] | Some ids \<Rightarrow> ids"
  from assms obtain leaderDoc where l: "Student_findById P (students db) leader = Inr (Some leaderDoc)"
    by (auto simp: createTeam_def split: sum.splits option.splits)
  from assms l have n: "CompetitionTeam_findOne_name (teams db) name = None"
    by (auto simp: createTeam_def split: option.splits)
  from assms l n obtain found where f: "map_throw (resolveMember P (students db)) ?ids = Inr found"
    by (auto simp: createTeam_def split: sum.splits)
  let ?valid = "map the (filter (\<lambda>m. m \<noteq> None) found)"
  from assms l n f have t: "team = \<lparr> team_id = newId, team_name = trim name, leaderId = leader,
                   leaderName = student_name leaderDoc, leaderEmail = student_email leaderDoc,
                   members = ?valid,
                   team_status = (if length ?valid > 0 then TeamPending else TeamActive) \<rparr>"
    and d: "db' = db\<lparr>teams := teams db @ [team]\<rparr>"
    by (auto simp: createTeam_def CompetitionTeam_create_def Let_def split: if_splits)
  have m: "members team = ?valid" and lt: "leaderId team = leader"
    and st: "team_status team = (if ?valid = [] then TeamActive else TeamPending)"
    by (simp_all add: t)
  from l have lf: "find (\<lambda>s. student_id s = leader) (students db) \<noteq> None"
    by (auto simp: Student_findById_def split: if_splits)
  from map_throw_resolveMember [OF f] d lt lf show ?thesis
    by (simp only: m st) simp
qed

lemma createTeam_Inl:
  "fst (createTeam P db leader name memberIds newId) = Inl e \<Longrightarrow>
     snd (createTeam P db leader name memberIds newId) = db"
  by (auto simp: createTeam_def CompetitionTeam_create_def Let_def
        split: sum.splits option.splits if_splits)

text \<open>When \<^verbatim>\<open>createTeam\<close> succeeds.\<close>

lemma createTeam_created:
  assumes l: "Student_findById P (students db) leader = Inr (Some leaderDoc)"
    and n: "CompetitionTeam_findOne_name (teams db) name = None"
    and wf: "\<forall>i \<in> set (case memberIds of None \<Rightarrow> [] | Some ids \<Rightarrow> ids). P i"
    and nm: "trim name \<noteq> []" "length (trim name) \<le> 100"
    and ss: "list_all storedStudent (students db)"
  shows "\<exists>team. createTeam P db leader name memberIds newId = (Inr team, db\<lparr>teams := teams db @ [team]\<rparr>)"
proof -
  let ?ids = "case memberIds of None \<Rightarrow> [] | Some ids \<Rightarrow> ids"
  from map_throw_resolveMember_total [OF wf] obtain found where
    f: "map_throw (resolveMember P (students db)) ?ids = Inr found" by blast
  from map_throw_resolveMember [OF f] ss
  have v: "list_all CompetitionTeamMember_validate (map the (filter (\<lambda>m. m \<noteq> None) found))"
    by blast
  from Student_findById_Some [OF l] ss have "storedStudent leaderDoc" by (simp add: list_all_iff)
  then have "student_name leaderDoc \<noteq> []" "student_email leaderDoc \<noteq> []"
    by (simp_all add: storedStudent_def)
  with l n f v nm show ?thesis
    by (simp add: createTeam_def CompetitionTeam_create_def CompetitionTeam_validate_def Let_def)
qed

lemma createTeam_cast:
  assumes l: "Student_findById P (students db) leader = Inr (Some leaderDoc)"
    and n: "CompetitionTeam_findOne_name (teams db) name = None"
    and bad: "\<not> (\<forall>i \<in> set (case memberIds of None \<Rightarrow> [] | Some ids \<Rightarrow> ids). P i)"
  shows "\<exists>i \<in> set (case memberIds of None \<Rightarrow> [] | Some ids \<Rightarrow> ids).
           \<not> P i \<and> createTeam P db leader name memberIds newId = (Inl (MongooseCastError ''_id'' i), db)"
proof -
  from map_throw_resolveMember_cast [OF bad, of "students db"] obtain i where
    "i \<in> set (case memberIds of None \<Rightarrow> [] | Some ids \<Rightarrow> ids)" "\<not> P i"
    "map_throw (resolveMember P (students db)) (case memberIds of None \<Rightarrow> [] | Some ids \<Rightarrow> ids)
       = Inl (MongooseCastError ''_id'' i)"
    by blast
  with l n show ?thesis by (auto simp: createTeam_def)
qed

text \<open>
  Claim C4 (as amended). Let the leader be a student and the name be free. If every invitee
  id is an object id, the (trimmed) name is not empty and has at most 100 code units, and the
  directory holds stored students, then the team is created: an invitee id that is not in the
  directory raises no error and is dropped, the member entries are exactly the invitee ids
  found in the directory, in order, each pending, and the initial status is \<open>active\<close>
  exactly when that list is empty and \<open>pending\<close> otherwise; so the team is created
  \<open>pending\<close> exactly when at least one invitee id is found. If some invitee id is not an
  object id, the lookup of one such id throws its \<^verbatim>\<open>CastError\<close>, and no team is created.
\<close>

theorem createTeam_resolved_members_status:
  assumes "Student_findById isObjectId (students db) leader = Inr (Some leaderDoc)"
    and "CompetitionTeam_findOne_name (teams db) name = None"
    and "ids = (case memberIds of None \<Rightarrow> [] | Some l \<Rightarrow> l)"
  shows "((\<forall>i \<in> set ids. isObjectId i) \<and> trim name \<noteq> [] \<and> length (trim name) \<le> 100
           \<and> list_all storedStudent (students db) \<longrightarrow>
          (\<exists>team. createTeam isObjectId db leader name memberIds newId
                     = (Inr team, db\<lparr>teams := teams db @ [team]\<rparr>)
             \<and> map studentId (members team)
                 = filter (\<lambda>i. Student_findById isObjectId (students db) i \<noteq> Inr None) ids
             \<and> list_all (\<lambda>m. member_status m = MemberPending \<and> joinedAt m = None) (members team)
             \<and> team_status team = (if members team = [] then TeamActive else TeamPending)
             \<and> (team_status team = TeamPending
                  \<longleftrightarrow> (\<exists>i \<in> set ids. Student_findById isObjectId (students db) i \<noteq> Inr None))))
       \<and> (\<not> (\<forall>i \<in> set ids. isObjectId i) \<longrightarrow>
          (\<exists>i \<in> set ids. \<not> isObjectId i
             \<and> createTeam isObjectId db leader name memberIds newId
                 = (Inl (MongooseCastError ''_id'' i), db)))"
proof (intro conjI impI)
  assume a: "(\<forall>i \<in> set ids. isObjectId i) \<and> trim name \<noteq> [] \<and> length (trim name) \<le> 100
           \<and> list_all storedStudent (students db)"
  then have wf: "\<forall>i \<in> set (case memberIds of None \<Rightarrow> [] | Some ids \<Rightarrow> ids). isObjectId i"
    by (simp add: assms(3))
  from a have nm: "trim name \<noteq> []" "length (trim name) \<le> 100"
    and ss: "list_all storedStudent (students db)" by simp_all
  from createTeam_created [OF assms(1,2) wf nm ss, of newId] obtain team where
    t: "createTeam isObjectId db leader name memberIds newId = (Inr team, db\<lparr>teams := teams db @ [team]\<rparr>)"
    by blast
  note c = createTeam_Inr [OF t]
  have "filter (\<lambda>i. find (\<lambda>s. student_id s = i) (students db) \<noteq> None) ids
      = filter (\<lambda>i. Student_findById isObjectId (students db) i \<noteq> Inr None) ids"
    using a by (intro filter_cong refl) (simp add: Student_findById_def)
  with c have ms: "map studentId (members team)
      = filter (\<lambda>i. Student_findById isObjectId (students db) i \<noteq> Inr None) ids"
    by (simp add: assms(3))
  have "members team = [] \<longleftrightarrow> map studentId (members team) = []" by simp
  also have "\<dots> \<longleftrightarrow> \<not> (\<exists>i \<in> set ids. Student_findById isObjectId (students db) i \<noteq> Inr None)"
    by (simp only: ms) (simp add: filter_empty_conv)
  finally have e: "members team = []
      \<longleftrightarrow> \<not> (\<exists>i \<in> set ids. Student_findById isObjectId (students db) i \<noteq> Inr None)" .
  from c have st: "team_status team = (if members team = [] then TeamActive else TeamPending)"
    and pe: "list_all (\<lambda>m. member_status m = MemberPending \<and> joinedAt m = None) (members team)"
    by blast+
  from st e have "team_status team = TeamPending
      \<longleftrightarrow> (\<exists>i \<in> set ids. Student_findById isObjectId (students db) i \<noteq> Inr None)"
    by (simp split: if_splits)
  with t ms pe st show "\<exists>team. createTeam isObjectId db leader name memberIds newId
                     = (Inr team, db\<lparr>teams := teams db @ [team]\<rparr>)
             \<and> map studentId (members team)
                 = filter (\<lambda>i. Student_findById isObjectId (students db) i \<noteq> Inr None) ids
             \<and> list_all (\<lambda>m. member_status m = MemberPending \<and> joinedAt m = None) (members team)
             \<and> team_status team = (if members team = [] then TeamActive else TeamPending)
             \<and> (team_status team = TeamPending
                  \<longleftrightarrow> (\<exists>i \<in> set ids. Student_findById isObjectId (students db) i \<noteq> Inr None))"
    by blast
next
  assume "\<not> (\<forall>i \<in> set ids. isObjectId i)"
  then have "\<not> (\<forall>i \<in> set (case memberIds of None \<Rightarrow> [] | Some ids \<Rightarrow> ids). isObjectId i)"
    by (simp add: assms(3))
  from createTeam_cast [OF assms(1,2) this, of newId]
  show "\<exists>i \<in> set ids. \<not> isObjectId i
             \<and> createTeam isObjectId db leader name memberIds newId
                 = (Inl (MongooseCastError ''_id'' i), db)"
    by (simp add: assms(3))
qed

lemma ex_leader_found:
  "Student_findById hex24 (students ex_team_db) ''64a000000000000000000001'' = Inr (Some (hd ex_students))"
  by (simp add: Student_findById_def hex24_def ex_team_defs)

lemma ex_name_free: "CompetitionTeam_findOne_name (teams ex_team_db) ''alpha'' = None"
  by (simp add: CompetitionTeam_findOne_name_def ex_team_defs)

theorem createTeam_resolved_members_status_witness:
  "(\<exists>team. createTeam hex24 ex_team_db ''64a000000000000000000001'' ''alpha''
            (Some [''64a000000000000000000002'', ''64a000000000000000000009''])
            ''64b000000000000000000001''
        = (Inr team, ex_team_db\<lparr>teams := teams ex_team_db @ [team]\<rparr>)
     \<and> map studentId (members team) = [''64a000000000000000000002'']
     \<and> team_status team = TeamPending)
   \<and> (\<exists>i \<in> set [''64a000000000000000000002'', ''not-an-object-id''].
        \<not> hex24 i
        \<and> createTeam hex24 ex_team_db ''64a000000000000000000001'' ''alpha''
            (Some [''64a000000000000000000002'', ''not-an-object-id''])
            ''64b000000000000000000001''
           = (Inl (MongooseCastError ''_id'' i), ex_team_db))"
proof -
  have h3: "[''64a000000000000000000002'', ''64a000000000000000000009'']
      = (case Some [''64a000000000000000000002'', ''64a000000000000000000009''] of None \<Rightarrow> [] | Some l \<Rightarrow> l)"
    by simp
  have h3': "[''64a000000000000000000002'', ''not-an-object-id'']
      = (case Some [''64a000000000000000000002'', ''not-an-object-id''] of None \<Rightarrow> [] | Some l \<Rightarrow> l)"
    by simp
  have hyp: "(\<forall>i \<in> set [''64a000000000000000000002'', ''64a000000000000000000009'']. hex24 i)
      \<and> trim ''alpha'' \<noteq> [] \<and> length (trim ''alpha'') \<le> 100
      \<and> list_all storedStudent (students ex_team_db)"
    by (simp add: hex24_def trim_alpha storedStudent_def ex_team_defs)
  have bad: "\<not> (\<forall>i \<in> set [''64a000000000000000000002'', ''not-an-object-id'']. hex24 i)"
    by (simp add: hex24_def)
  have f: "filter (\<lambda>i. Student_findById hex24 (students ex_team_db) i \<noteq> Inr None)
             [''64a000000000000000000002'', ''64a000000000000000000009'']
       = [''64a000000000000000000002'']"
    by (simp add: Student_findById_def hex24_def ex_team_defs)
  note t1 = createTeam_resolved_members_status [OF ex_leader_found ex_name_free h3,
      where newId = "''64b000000000000000000001''", THEN conjunct1, THEN mp, OF hyp]
  note t2 = createTeam_resolved_members_status [OF ex_leader_found ex_name_free h3',
      where newId = "''64b000000000000000000001''", THEN conjunct2, THEN mp, OF bad]
  from t1 have "\<exists>team. createTeam hex24 ex_team_db ''64a000000000000000000001'' ''alpha''
            (Some [''64a000000000000000000002'', ''64a000000000000000000009''])
            ''64b000000000000000000001''
        = (Inr team, ex_team_db\<lparr>teams := teams ex_team_db @ [team]\<rparr>)
     \<and> map studentId (members team) = [''64a000000000000000000002'']
     \<and> team_status team = TeamPending"
    unfolding f by auto
  with t2 show ?thesis by (rule_tac conjI)
qed

text \<open>
  Counterexample to claim C4 as stated: a team created with one invitee id, a well-formed id
  that is not in the directory, is \<open>active\<close>, not \<open>pending\<close>; and with an invitee id that
  is not an object id no team is created at all.
\<close>

theorem createTeam_unresolved_invitee_counterexample:
  "createTeam hex24 ex_team_db ''64a000000000000000000001'' ''alpha''
       (Some [''64a000000000000000000009'']) ''64b000000000000000000001'' =
     (Inr \<lparr> team_id = ''64b000000000000000000001'', team_name = ''alpha'',
             leaderId = ''64a000000000000000000001'',
             leaderName = ''Lea'', leaderEmail = ''lea@x.org'', members = [],
             team_status = TeamActive \<rparr>,
      ex_team_db\<lparr>teams :=
        [\<lparr> team_id = ''64b000000000000000000001'', team_name = ''alpha'',
            leaderId = ''64a000000000000000000001'',
            leaderName = ''Lea'', leaderEmail = ''lea@x.org'', members = [],
            team_status = TeamActive \<rparr>]\<rparr>)
   \<and> createTeam hex24 ex_team_db ''64a000000000000000000001'' ''alpha''
       (Some [''not-an-object-id'']) ''64b000000000000000000001'' =
     (Inl (MongooseCastError ''_id'' ''not-an-object-id''), ex_team_db)"
  by (simp add: team_op_defs ex_team_defs trim_alpha)

lemma findIndex_member:
  "student \<in> set (map studentId ms) \<Longrightarrow>
     \<exists>i. findIndex (\<lambda>m. studentId m = student) ms = Some i \<and> i < length ms \<and> studentId (ms ! i) = student"
proof -
  assume a: "student \<in> set (map studentId ms)"
  then have "findIndex (\<lambda>m. studentId m = student) ms \<noteq> None"
    by (auto simp: findIndex_None_iff)
  then obtain i where i: "findIndex (\<lambda>m. studentId m = student) ms = Some i" by auto
  from findIndex_Some [OF i] i show ?thesis by auto
qed

lemma respondToInvitation_found:
  assumes "parseDecision status = Some decision"
    and "CompetitionTeam_findById (teams db) teamId = Some team"
    and "findIndex (\<lambda>m. studentId m = student) (members team) = Some i"
  shows "respondToInvitation db student teamId status now =
     (let ms = (members team)[i := (members team ! i)
                  \<lparr>member_status := decision,
                   joinedAt := (if decision = MemberApproved then Some now else joinedAt (members team ! i))\<rparr>];
          team' = team\<lparr>members := ms,
                        team_status := (if (\<forall>m \<in> set ms. member_status m \<noteq> MemberPending)
                                          \<and> (\<forall>m \<in> set ms. member_status m = MemberApproved)
                                        then TeamActive else team_status team)\<rparr>
      in (Inr team', team_save db team'))"
  using assms by (simp add: respondToInvitation_def Let_def list_all_iff)

text \<open>
  Claim C5. With a decision that is \<open>approved\<close> or \<open>rejected\<close>,
  \<open>respondToInvitation\<close> fails with "Team not found" (404) when the team is missing and
  with "You are not invited to this team" (400) when the student has no member entry.
  Otherwise the first entry of that student gets the decision as its status, and
  \<open>joinedAt = now\<close> when the decision is \<open>approved\<close>; the team becomes \<open>active\<close>
  exactly when afterwards every member is non-pending and every member is approved, and keeps
  its status otherwise, so a rejection leaves the status as it was.
\<close>

theorem respondToInvitation_outcome:
  assumes "parseDecision status = Some decision"
  shows "(CompetitionTeam_findById (teams db) teamId = None \<longrightarrow>
            respondToInvitation db student teamId status now =
              (Inl (AppError ''Team not found'' 404 None), db))
       \<and> (CompetitionTeam_findById (teams db) teamId = Some team
            \<and> student \<notin> set (map studentId (members team)) \<longrightarrow>
            respondToInvitation db student teamId status now =
              (Inl (AppError ''You are not invited to this team'' 400 None), db))
       \<and> (CompetitionTeam_findById (teams db) teamId = Some team
            \<and> student \<in> set (map studentId (members team)) \<longrightarrow>
            (\<exists>i ms team'.
                findIndex (\<lambda>m. studentId m = student) (members team) = Some i
              \<and> i < length (members team) \<and> studentId (members team ! i) = student
              \<and> ms = (members team)[i := (members team ! i)
                        \<lparr>member_status := decision,
                         joinedAt := (if decision = MemberApproved then Some now
                                      else joinedAt (members team ! i))\<rparr>]
              \<and> team' = team\<lparr>members := ms,
                               team_status :=
                                 (if (\<forall>m \<in> set ms. member_status m \<noteq> MemberPending)
                                     \<and> (\<forall>m \<in> set ms. member_status m = MemberApproved)
                                  then TeamActive else team_status team)\<rparr>
              \<and> respondToInvitation db student teamId status now = (Inr team', team_save db team')
              \<and> CompetitionTeam_findById (teams (team_save db team')) teamId = Some team'
              \<and> member_status (members team' ! i) = decision
              \<and> (decision = MemberApproved \<longrightarrow> joinedAt (members team' ! i) = Some now)
              \<and> (decision = MemberRejected \<longrightarrow> team_status team' = team_status team)))"
proof (intro conjI impI)
  assume "CompetitionTeam_findById (teams db) teamId = None"
  with assms show "respondToInvitation db student teamId status now =
      (Inl (AppError ''Team not found'' 404 None), db)"
    by (simp add: respondToInvitation_def)
next
  assume a: "CompetitionTeam_findById (teams db) teamId = Some team
      \<and> student \<notin> set (map studentId (members team))"
  then have "findIndex (\<lambda>m. studentId m = student) (members team) = None"
    by (auto simp: findIndex_None_iff)
  with assms a show "respondToInvitation db student teamId status now =
      (Inl (AppError ''You are not invited to this team'' 400 None), db)"
    by (simp add: respondToInvitation_def)
next
  assume a: "CompetitionTeam_findById (teams db) teamId = Some team
      \<and> student \<in> set (map studentId (members team))"
  then have found: "CompetitionTeam_findById (teams db) teamId = Some team" by simp
  from a obtain i where i: "findIndex (\<lambda>m. studentId m = student) (members team) = Some i"
      "i < length (members team)" "studentId (members team ! i) = student"
    using findIndex_member by blast
  define ms where "ms = (members team)[i := (members team ! i)
                        \<lparr>member_status := decision,
                         joinedAt := (if decision = MemberApproved then Some now
                                      else joinedAt (members team ! i))\<rparr>]"
  define team' where "team' = team\<lparr>members := ms,
                               team_status :=
                                 (if (\<forall>m \<in> set ms. member_status m \<noteq> MemberPending)
                                     \<and> (\<forall>m \<in> set ms. member_status m = MemberApproved)
                                  then TeamActive else team_status team)\<rparr>"
  have r: "respondToInvitation db student teamId status now = (Inr team', team_save db team')"
    using respondToInvitation_found [OF assms found i(1), of now]
    by (simp add: Let_def ms_def team'_def)
  have id: "team_id team' = teamId"
    using CompetitionTeam_findById_id [OF found] by (simp add: team'_def)
  have f: "CompetitionTeam_findById (teams (team_save db team')) teamId = Some team'"
    using found id by (simp add: findById_team_save)
  have mi: "members team' ! i = (members team ! i)
                        \<lparr>member_status := decision,
                         joinedAt := (if decision = MemberApproved then Some now
                                      else joinedAt (members team ! i))\<rparr>"
    using i(2) by (simp add: team'_def ms_def)
  have rej: "decision = MemberRejected \<Longrightarrow> team_status team' = team_status team"
  proof -
    assume d: "decision = MemberRejected"
    have "members team' ! i \<in> set ms" using i(2) by (simp add: team'_def ms_def set_update_memI)
    moreover have "member_status (members team' ! i) = MemberRejected" using mi d by simp
    ultimately have "\<not> (\<forall>m \<in> set ms. member_status m = MemberApproved)" by force
    then show ?thesis by (auto simp: team'_def)
  qed
  show "\<exists>i ms team'.
                findIndex (\<lambda>m. studentId m = student) (members team) = Some i
              \<and> i < length (members team) \<and> studentId (members team ! i) = student
              \<and> ms = (members team)[i := (members team ! i)
                        \<lparr>member_status := decision,
                         joinedAt := (if decision = MemberApproved then Some now
                                      else joinedAt (members team ! i))\<rparr>]
              \<and> team' = team\<lparr>members := ms,
                               team_status :=
                                 (if (\<forall>m \<in> set ms. member_status m \<noteq> MemberPending)
                                     \<and> (\<forall>m \<in> set ms. member_status m = MemberApproved)
                                  then TeamActive else team_status team)\<rparr>
              \<and> respondToInvitation db student teamId status now = (Inr team', team_save db team')
              \<and> CompetitionTeam_findById (teams (team_save db team')) teamId = Some team'
              \<and> member_status (members team' ! i) = decision
              \<and> (decision = MemberApproved \<longrightarrow> joinedAt (members team' ! i) = Some now)
              \<and> (decision = MemberRejected \<longrightarrow> team_status team' = team_status team)"
    apply (rule exI [of _ i], rule exI [of _ ms], rule exI [of _ team'])
    using i r f mi rej ms_def team'_def by simp
qed

theorem respondToInvitation_outcome_witness:
  "\<exists>team'. respondToInvitation ex_team_db1 ''64a000000000000000000002'' ''64b000000000000000000001'' ''approved'' 5 = (Inr team', team_save ex_team_db1 team')
     \<and> map member_status (members team') = [MemberApproved, MemberPending]
     \<and> team_status team' = TeamPending"
proof -
  have h1: "parseDecision ''approved'' = Some MemberApproved" by (simp add: parseDecision_def)
  have h2: "CompetitionTeam_findById (teams ex_team_db1) ''64b000000000000000000001'' = Some ex_team1
      \<and> ''64a000000000000000000002'' \<in> set (map studentId (members ex_team1))"
    by (simp add: CompetitionTeam_findById_def ex_team_defs)
  have f: "findIndex (\<lambda>m. studentId m = ''64a000000000000000000002'') (members ex_team1) = Some 0"
    by (simp add: ex_team_defs)
  have m: "(members ex_team1)[0 := (members ex_team1 ! 0)
                        \<lparr>member_status := MemberApproved,
                         joinedAt := (if MemberApproved = MemberApproved then Some 5
                                      else joinedAt (members ex_team1 ! 0))\<rparr>]
      = [\<lparr> studentId = ''64a000000000000000000002'', member_name = ''Max'', member_email = ''max@x.org'',
             registrationNo = ''R2'', member_status = MemberApproved, joinedAt = Some 5 \<rparr>,
          \<lparr> studentId = ''64a000000000000000000003'', member_name = ''Noa'', member_email = ''noa@x.org'',
             registrationNo = ''R3'', member_status = MemberPending, joinedAt = None \<rparr>]"
    by (simp add: ex_team_defs)
  have p: "team_status ex_team1 = TeamPending" by (simp add: ex_team_defs)
  note inst = respondToInvitation_outcome [OF h1, of ex_team_db1 "''64b000000000000000000001''" "''64a000000000000000000002''" 5 ex_team1,
      THEN conjunct2, THEN conjunct2, THEN mp, OF h2]
  from inst
  have "\<exists>i ms team'.
                findIndex (\<lambda>m. studentId m = ''64a000000000000000000002'') (members ex_team1) = Some i
              \<and> ms = (members ex_team1)[i := (members ex_team1 ! i)
                        \<lparr>member_status := MemberApproved,
                         joinedAt := (if MemberApproved = MemberApproved then Some 5
                                      else joinedAt (members ex_team1 ! i))\<rparr>]
              \<and> team' = ex_team1\<lparr>members := ms,
                               team_status :=
                                 (if (\<forall>m \<in> set ms. member_status m \<noteq> MemberPending)
                                     \<and> (\<forall>m \<in> set ms. member_status m = MemberApproved)
                                  then TeamActive else team_status ex_team1)\<rparr>
              \<and> respondToInvitation ex_team_db1 ''64a000000000000000000002'' ''64b000000000000000000001'' ''approved'' 5 = (Inr team', team_save ex_team_db1 team')"
    by (elim exE conjE) (intro exI conjI)
  then obtain i ms team' where r:
      "findIndex (\<lambda>m. studentId m = ''64a000000000000000000002'') (members ex_team1) = Some i"
      "ms = (members ex_team1)[i := (members ex_team1 ! i)
                        \<lparr>member_status := MemberApproved,
                         joinedAt := (if MemberApproved = MemberApproved then Some 5
                                      else joinedAt (members ex_team1 ! i))\<rparr>]"
      "team' = ex_team1\<lparr>members := ms,
                               team_status :=
                                 (if (\<forall>m \<in> set ms. member_status m \<noteq> MemberPending)
                                     \<and> (\<forall>m \<in> set ms. member_status m = MemberApproved)
                                  then TeamActive else team_status ex_team1)\<rparr>"
      "respondToInvitation ex_team_db1 ''64a000000000000000000002'' ''64b000000000000000000001'' ''approved'' 5 = (Inr team', team_save ex_team_db1 team')"
    by (elim exE conjE)
  from r(1) f have i: "i = 0" by simp
  from r(2) have ms: "ms = [\<lparr> studentId = ''64a000000000000000000002'', member_name = ''Max'', member_email = ''max@x.org'',
             registrationNo = ''R2'', member_status = MemberApproved, joinedAt = Some 5 \<rparr>,
          \<lparr> studentId = ''64a000000000000000000003'', member_name = ''Noa'', member_email = ''noa@x.org'',
             registrationNo = ''R3'', member_status = MemberPending, joinedAt = None \<rparr>]"
    unfolding i by (simp only: m)
  have st: "team_status team' = TeamPending"
    unfolding r(3) ms by (simp add: p)
  have mm: "map member_status (members team') = [MemberApproved, MemberPending]"
    unfolding r(3) ms by simp
  from st mm r(4) show ?thesis by (intro exI [of _ team'] conjI)
qed

text \<open>
  Claim C9. \<open>leaveTeam\<close> (by a student who is not the leader) and \<open>removeMember\<close> (by
  the leader) store the team with the entries of the given student filtered out and every
  other field as before: the status is not re-evaluated, no entry of that student remains,
  the list does not grow, and it is strictly shorter when the student had an entry.
\<close>

theorem leaveTeam_removeMember_frame:
  assumes "CompetitionTeam_findById (teams db) teamId = Some team"
  shows "(student \<noteq> leaderId team \<longrightarrow>
           (\<exists>team'. team' = team\<lparr>members := filter (\<lambda>m. studentId m \<noteq> student) (members team)\<rparr>
              \<and> leaveTeam db student teamId = (Inr (), team_save db team')
              \<and> CompetitionTeam_findById (teams (team_save db team')) teamId = Some team'
              \<and> team_status team' = team_status team
              \<and> student \<notin> set (map studentId (members team'))
              \<and> length (members team') \<le> length (members team)
              \<and> (student \<in> set (map studentId (members team)) \<longrightarrow>
                   length (members team') < length (members team))))
       \<and> (requester = leaderId team \<longrightarrow>
           (\<exists>team'. team' = team\<lparr>members := filter (\<lambda>m. studentId m \<noteq> memberId) (members team)\<rparr>
              \<and> removeMember db requester teamId memberId = (Inr team', team_save db team')
              \<and> CompetitionTeam_findById (teams (team_save db team')) teamId = Some team'
              \<and> team_status team' = team_status team
              \<and> memberId \<notin> set (map studentId (members team'))
              \<and> length (members team') \<le> length (members team)
              \<and> (memberId \<in> set (map studentId (members team)) \<longrightarrow>
                   length (members team') < length (members team))))"
proof -
  have id: "team_id team = teamId" using CompetitionTeam_findById_id [OF assms] by simp
  have shrink: "\<And>s. s \<in> set (map studentId (members team)) \<Longrightarrow>
      length (filter (\<lambda>m. studentId m \<noteq> s) (members team)) < length (members team)"
  proof -
    fix s assume "s \<in> set (map studentId (members team))"
    then obtain m where "m \<in> set (members team)" "\<not> studentId m \<noteq> s" by auto
    then show "length (filter (\<lambda>m. studentId m \<noteq> s) (members team)) < length (members team)"
      by (rule length_filter_less)
  qed
  have leave: "student \<noteq> leaderId team \<Longrightarrow>
      leaveTeam db student teamId =
        (Inr (), team_save db (team\<lparr>members := filter (\<lambda>m. studentId m \<noteq> student) (members team)\<rparr>))"
    using assms by (auto simp: leaveTeam_def)
  have remove: "requester = leaderId team \<Longrightarrow>
      removeMember db requester teamId memberId =
        (Inr (team\<lparr>members := filter (\<lambda>m. studentId m \<noteq> memberId) (members team)\<rparr>),
         team_save db (team\<lparr>members := filter (\<lambda>m. studentId m \<noteq> memberId) (members team)\<rparr>))"
    using assms by (simp add: removeMember_def Let_def)
  have saved: "\<And>ms. CompetitionTeam_findById (teams (team_save db (team\<lparr>members := ms\<rparr>))) teamId
      = Some (team\<lparr>members := ms\<rparr>)"
    using assms id by (simp add: findById_team_save)
  show ?thesis
  proof (intro conjI impI)
    assume a: "student \<noteq> leaderId team"
    show "\<exists>team'. team' = team\<lparr>members := filter (\<lambda>m. studentId m \<noteq> student) (members team)\<rparr>
              \<and> leaveTeam db student teamId = (Inr (), team_save db team')
              \<and> CompetitionTeam_findById (teams (team_save db team')) teamId = Some team'
              \<and> team_status team' = team_status team
              \<and> student \<notin> set (map studentId (members team'))
              \<and> length (members team') \<le> length (members team)
              \<and> (student \<in> set (map studentId (members team)) \<longrightarrow>
                   length (members team') < length (members team))"
      using leave [OF a] saved shrink [of student] by auto
  next
    assume a: "requester = leaderId team"
    show "\<exists>team'. team' = team\<lparr>members := filter (\<lambda>m. studentId m \<noteq> memberId) (members team)\<rparr>
              \<and> removeMember db requester teamId memberId = (Inr team', team_save db team')
              \<and> CompetitionTeam_findById (teams (team_save db team')) teamId = Some team'
              \<and> team_status team' = team_status team
              \<and> memberId \<notin> set (map studentId (members team'))
              \<and> length (members team') \<le> length (members team)
              \<and> (memberId \<in> set (map studentId (members team)) \<longrightarrow>
                   length (members team') < length (members team))"
      using remove [OF a] saved shrink [of memberId] by auto
  qed
qed

theorem leaveTeam_removeMember_frame_witness:
  "leaveTeam ex_team_db1 ''64a000000000000000000003'' ''64b000000000000000000001'' =
     (Inr (), team_save ex_team_db1 (ex_team1\<lparr>members := filter (\<lambda>m. studentId m \<noteq> ''64a000000000000000000003'') (members ex_team1)\<rparr>))
   \<and> removeMember ex_team_db1 ''64a000000000000000000001'' ''64b000000000000000000001'' ''64a000000000000000000002'' =
     (Inr (ex_team1\<lparr>members := filter (\<lambda>m. studentId m \<noteq> ''64a000000000000000000002'') (members ex_team1)\<rparr>),
      team_save ex_team_db1 (ex_team1\<lparr>members := filter (\<lambda>m. studentId m \<noteq> ''64a000000000000000000002'') (members ex_team1)\<rparr>))
   \<and> length (filter (\<lambda>m. studentId m \<noteq> ''64a000000000000000000003'') (members ex_team1)) = 1"
proof -
  have h1: "CompetitionTeam_findById (teams ex_team_db1) ''64b000000000000000000001'' = Some ex_team1"
    by (simp add: CompetitionTeam_findById_def ex_team_defs)
  have h2: "''64a000000000000000000003'' \<noteq> leaderId ex_team1" "''64a000000000000000000001'' = leaderId ex_team1"
    by (simp_all add: ex_team_defs)
  have l: "length (filter (\<lambda>m. studentId m \<noteq> ''64a000000000000000000003'') (members ex_team1)) = 1"
    by (simp add: ex_team_defs)
  from leaveTeam_removeMember_frame [OF h1, of "''64a000000000000000000003''" "''64a000000000000000000001''" "''64a000000000000000000002''"] h2 l show ?thesis by simp
qed

lemma findById_after_save:
  assumes "CompetitionTeam_findById (teams db) tid = Some t"
    and "CompetitionTeam_findById (teams db) teamId = Some u"
    and "team_id u' = team_id u"
  shows "CompetitionTeam_findById (teams (team_save db u')) tid = Some (if tid = teamId then u' else t)"
  using assms CompetitionTeam_findById_id [OF assms(2)]
  by (simp add: findById_team_save)

lemma leaveTeam_snd:
  "snd (leaveTeam db student teamId) = db \<or>
   (\<exists>u. CompetitionTeam_findById (teams db) teamId = Some u
      \<and> snd (leaveTeam db student teamId) =
          team_save db (u\<lparr>members := filter (\<lambda>m. studentId m \<noteq> student) (members u)\<rparr>))"
  by (simp add: leaveTeam_def split: option.splits)

lemma removeMember_snd:
  "snd (removeMember db student teamId memberId) = db \<or>
   (\<exists>u. CompetitionTeam_findById (teams db) teamId = Some u
      \<and> snd (removeMember db student teamId memberId) =
          team_save db (u\<lparr>members := filter (\<lambda>m. studentId m \<noteq> memberId) (members u)\<rparr>))"
  by (simp add: removeMember_def Let_def split: option.splits)

lemma disbandTeam_snd:
  "snd (disbandTeam db student teamId) = db \<or>
   (\<exists>u. CompetitionTeam_findById (teams db) teamId = Some u
      \<and> snd (disbandTeam db student teamId) = team_save db (u\<lparr>team_status := TeamDisbanded\<rparr>))"
  by (simp add: disbandTeam_def split: option.splits)

lemma respondToInvitation_cases:
  "(respondToInvitation db student teamId status now = (Inl (AppError ''Invalid status. Must be approved or rejected'' 400 None), db)
      \<and> parseDecision status = None)
   \<or> (respondToInvitation db student teamId status now = (Inl (AppError ''Team not found'' 404 None), db)
      \<and> CompetitionTeam_findById (teams db) teamId = None)
   \<or> (\<exists>u. respondToInvitation db student teamId status now = (Inl (AppError ''You are not invited to this team'' 400 None), db)
      \<and> CompetitionTeam_findById (teams db) teamId = Some u \<and> student \<notin> set (map studentId (members u)))
   \<or> (\<exists>u decision i ms.
        parseDecision status = Some decision
      \<and> CompetitionTeam_findById (teams db) teamId = Some u
      \<and> student \<in> set (map studentId (members u))
      \<and> findIndex (\<lambda>m. studentId m = student) (members u) = Some i
      \<and> i < length (members u)
      \<and> ms = (members u)[i := (members u ! i)
                  \<lparr>member_status := decision,
                   joinedAt := (if decision = MemberApproved then Some now else joinedAt (members u ! i))\<rparr>]
      \<and> respondToInvitation db student teamId status now =
           (Inr (u\<lparr>members := ms,
                   team_status := (if (\<forall>m \<in> set ms. member_status m \<noteq> MemberPending)
                                      \<and> (\<forall>m \<in> set ms. member_status m = MemberApproved)
                                   then TeamActive else team_status u)\<rparr>),
            team_save db (u\<lparr>members := ms,
                   team_status := (if (\<forall>m \<in> set ms. member_status m \<noteq> MemberPending)
                                      \<and> (\<forall>m \<in> set ms. member_status m = MemberApproved)
                                   then TeamActive else team_status u)\<rparr>)))"
proof (cases "parseDecision status")
  case None
  then show ?thesis by (simp add: respondToInvitation_def)
next
  case d: (Some decision)
  show ?thesis
  proof (cases "CompetitionTeam_findById (teams db) teamId")
    case None
    with d show ?thesis by (simp add: respondToInvitation_def)
  next
    case u: (Some u)
    show ?thesis
    proof (cases "student \<in> set (map studentId (members u))")
      case False
      then have "findIndex (\<lambda>m. studentId m = student) (members u) = None"
        by (auto simp: findIndex_None_iff)
      with d u False show ?thesis by (simp add: respondToInvitation_def)
    next
      case True
      then obtain i where i: "findIndex (\<lambda>m. studentId m = student) (members u) = Some i"
          "i < length (members u)"
        using findIndex_member by blast
      from respondToInvitation_found [OF d u i(1), of now] d u True i
      show ?thesis by (simp add: Let_def)
    qed
  qed
qed

text \<open>
  Claim C6 (as amended). For a stored team whose status is \<open>disbanded\<close>: \<open>leaveTeam\<close>,
  \<open>removeMember\<close> and \<open>disbandTeam\<close> leave it \<open>disbanded\<close>, whatever their
  arguments; \<open>respondToInvitation\<close> never makes it \<open>pending\<close>, and makes it
  \<open>active\<close> exactly when the response is addressed to this team with a valid decision
  by one of its members and every member is approved afterwards.
\<close>

theorem disbanded_status_after_operations:
  assumes "CompetitionTeam_findById (teams db) tid = Some t" and "team_status t = TeamDisbanded"
  shows "(\<exists>t'. CompetitionTeam_findById (teams (snd (leaveTeam db student teamId))) tid = Some t'
              \<and> team_status t' = TeamDisbanded)
       \<and> (\<exists>t'. CompetitionTeam_findById (teams (snd (removeMember db student teamId memberId))) tid = Some t'
              \<and> team_status t' = TeamDisbanded)
       \<and> (\<exists>t'. CompetitionTeam_findById (teams (snd (disbandTeam db student teamId))) tid = Some t'
              \<and> team_status t' = TeamDisbanded)
       \<and> (\<exists>t'. CompetitionTeam_findById (teams (snd (respondToInvitation db student teamId status now))) tid = Some t'
              \<and> team_status t' \<noteq> TeamPending
              \<and> (team_status t' = TeamActive \<longleftrightarrow>
                    teamId = tid \<and> parseDecision status \<noteq> None
                  \<and> student \<in> set (map studentId (members t))
                  \<and> (\<forall>m \<in> set (members t'). member_status m = MemberApproved)))"
proof (intro conjI)
  show "\<exists>t'. CompetitionTeam_findById (teams (snd (leaveTeam db student teamId))) tid = Some t'
              \<and> team_status t' = TeamDisbanded"
    using leaveTeam_snd [of db student teamId]
  proof
    assume "snd (leaveTeam db student teamId) = db"
    with assms show ?thesis by simp
  next
    assume "\<exists>u. CompetitionTeam_findById (teams db) teamId = Some u
      \<and> snd (leaveTeam db student teamId) =
          team_save db (u\<lparr>members := filter (\<lambda>m. studentId m \<noteq> student) (members u)\<rparr>)"
    then obtain u where u: "CompetitionTeam_findById (teams db) teamId = Some u"
      "snd (leaveTeam db student teamId) =
          team_save db (u\<lparr>members := filter (\<lambda>m. studentId m \<noteq> student) (members u)\<rparr>)"
      by blast
    from findById_after_save [OF assms(1) u(1), of "u\<lparr>members := filter (\<lambda>m. studentId m \<noteq> student) (members u)\<rparr>"]
      u assms show ?thesis by auto
  qed
next
  show "\<exists>t'. CompetitionTeam_findById (teams (snd (removeMember db student teamId memberId))) tid = Some t'
              \<and> team_status t' = TeamDisbanded"
    using removeMember_snd [of db student teamId memberId]
  proof
    assume "snd (removeMember db student teamId memberId) = db"
    with assms show ?thesis by simp
  next
    assume "\<exists>u. CompetitionTeam_findById (teams db) teamId = Some u
      \<and> snd (removeMember db student teamId memberId) =
          team_save db (u\<lparr>members := filter (\<lambda>m. studentId m \<noteq> memberId) (members u)\<rparr>)"
    then obtain u where u: "CompetitionTeam_findById (teams db) teamId = Some u"
      "snd (removeMember db student teamId memberId) =
          team_save db (u\<lparr>members := filter (\<lambda>m. studentId m \<noteq> memberId) (members u)\<rparr>)"
      by blast
    from findById_after_save [OF assms(1) u(1), of "u\<lparr>members := filter (\<lambda>m. studentId m \<noteq> memberId) (members u)\<rparr>"]
      u assms show ?thesis by auto
  qed
next
  show "\<exists>t'. CompetitionTeam_findById (teams (snd (disbandTeam db student teamId))) tid = Some t'
              \<and> team_status t' = TeamDisbanded"
    using disbandTeam_snd [of db student teamId]
  proof
    assume "snd (disbandTeam db student teamId) = db"
    with assms show ?thesis by simp
  next
    assume "\<exists>u. CompetitionTeam_findById (teams db) teamId = Some u
      \<and> snd (disbandTeam db student teamId) = team_save db (u\<lparr>team_status := TeamDisbanded\<rparr>)"
    then obtain u where u: "CompetitionTeam_findById (teams db) teamId = Some u"
      "snd (disbandTeam db student teamId) = team_save db (u\<lparr>team_status := TeamDisbanded\<rparr>)"
      by blast
    from findById_after_save [OF assms(1) u(1), of "u\<lparr>team_status := TeamDisbanded\<rparr>"]
      u assms show ?thesis by auto
  qed
next
  let ?R = "respondToInvitation db student teamId status now"
  let ?goal = "\<exists>t'. CompetitionTeam_findById (teams (snd ?R)) tid = Some t'
              \<and> team_status t' \<noteq> TeamPending
              \<and> (team_status t' = TeamActive \<longleftrightarrow>
                    teamId = tid \<and> parseDecision status \<noteq> None
                  \<and> student \<in> set (map studentId (members t))
                  \<and> (\<forall>m \<in> set (members t'). member_status m = MemberApproved))"
  consider
      (unchanged) "snd ?R = db" "parseDecision status = None
          \<or> CompetitionTeam_findById (teams db) teamId = None
          \<or> (\<exists>u. CompetitionTeam_findById (teams db) teamId = Some u \<and> student \<notin> set (map studentId (members u)))"
    | (saved) u decision ms where
        "parseDecision status = Some decision"
        "CompetitionTeam_findById (teams db) teamId = Some u"
        "student \<in> set (map studentId (members u))"
        "snd ?R = team_save db (u\<lparr>members := ms,
                   team_status := (if (\<forall>m \<in> set ms. member_status m \<noteq> MemberPending)
                                      \<and> (\<forall>m \<in> set ms. member_status m = MemberApproved)
                                   then TeamActive else team_status u)\<rparr>)"
    using respondToInvitation_cases [of db student teamId status now] by fastforce
  then show ?goal
  proof cases
    case unchanged
    have "\<not> (teamId = tid \<and> parseDecision status \<noteq> None \<and> student \<in> set (map studentId (members t)))"
      using unchanged(2) assms(1) by auto
    with unchanged(1) assms show ?thesis by auto
  next
    case saved
    let ?u' = "u\<lparr>members := ms,
                   team_status := (if (\<forall>m \<in> set ms. member_status m \<noteq> MemberPending)
                                      \<and> (\<forall>m \<in> set ms. member_status m = MemberApproved)
                                   then TeamActive else team_status u)\<rparr>"
    have f: "CompetitionTeam_findById (teams (snd ?R)) tid = Some (if tid = teamId then ?u' else t)"
      using findById_after_save [OF assms(1) saved(2), of ?u'] saved(4) by simp
    show ?thesis
    proof (cases "tid = teamId")
      case True
      with assms(1) saved(2) have ut: "u = t" by simp
      from f True have "CompetitionTeam_findById (teams (snd ?R)) tid = Some ?u'" by simp
      moreover have "team_status ?u' \<noteq> TeamPending" using ut assms(2) by simp
      moreover have "team_status ?u' = TeamActive \<longleftrightarrow>
          teamId = tid \<and> parseDecision status \<noteq> None
          \<and> student \<in> set (map studentId (members t))
          \<and> (\<forall>m \<in> set (members ?u'). member_status m = MemberApproved)"
      proof -
        have eq: "((\<forall>m \<in> set ms. member_status m \<noteq> MemberPending)
              \<and> (\<forall>m \<in> set ms. member_status m = MemberApproved))
            = (\<forall>m \<in> set ms. member_status m = MemberApproved)"
          by auto
        have m: "student \<in> set (map studentId (members t))" using saved(3) ut by simp
        show ?thesis
          unfolding eq using True saved(1) m assms(2) ut by simp
      qed
      ultimately show ?thesis by blast
    next
      case False
      with f assms show ?thesis by auto
    qed
  qed
qed

theorem disbanded_status_after_operations_witness:
  "\<exists>t'. CompetitionTeam_findById
            (teams (snd (respondToInvitation ex_team_db2 ''64a000000000000000000002'' ''64b000000000000000000001'' ''approved'' 5))) ''64b000000000000000000001'' = Some t'
      \<and> team_status t' \<noteq> TeamPending"
proof -
  have h1: "CompetitionTeam_findById (teams ex_team_db2) ''64b000000000000000000001'' = Some (ex_team1\<lparr>team_status := TeamDisbanded\<rparr>)"
    by (simp add: CompetitionTeam_findById_def ex_team_defs)
  have h2: "team_status (ex_team1\<lparr>team_status := TeamDisbanded\<rparr>) = TeamDisbanded" by simp
  from disbanded_status_after_operations [OF h1 h2, of "''64a000000000000000000002''" "''64b000000000000000000001''" "''64a000000000000000000002''" "''approved''" 5] show ?thesis by blast
qed

text \<open>
  Counterexample to claim C6 as stated: a team is created with one invitee and disbanded by
  its leader; the invitee then approves, and the team is \<open>active\<close>.
\<close>

theorem disbanded_team_reactivated_counterexample:
  "map team_status (teams (run hex24 ex_team_db
       [CreateTeam ''64a000000000000000000001'' ''alpha'' (Some [''64a000000000000000000002''])
          ''64b000000000000000000001'',
        DisbandTeam ''64a000000000000000000001'' ''64b000000000000000000001'']))
     = [TeamDisbanded]
   \<and> map team_status (teams (run hex24 ex_team_db
       [CreateTeam ''64a000000000000000000001'' ''alpha'' (Some [''64a000000000000000000002''])
          ''64b000000000000000000001'',
        DisbandTeam ''64a000000000000000000001'' ''64b000000000000000000001'',
        RespondToInvitation ''64a000000000000000000002'' ''64b000000000000000000001'' ''approved'' 5]))
     = [TeamActive]"
  by (simp add: team_op_defs ex_team_defs trim_alpha)


lemma leaderNotMember_found:
  "leaderNotMember db \<Longrightarrow> CompetitionTeam_findById (teams db) i = Some t \<Longrightarrow>
     leaderId t \<notin> set (map studentId (members t))"
  using CompetitionTeam_findById_id [of "teams db" i t]
  by (auto simp: leaderNotMember_def list_all_iff)

lemma leaderNotMember_save:
  "leaderNotMember db \<Longrightarrow> leaderId t \<notin> set (map studentId (members t)) \<Longrightarrow>
     leaderNotMember (team_save db t)"
  by (auto simp: leaderNotMember_def team_save_def list_all_iff)


lemma createTeam_member_set:
  assumes "createTeam P db leader name memberIds newId = (Inr team, db')"
  shows "set (map studentId (members team)) =
     {i \<in> set (case memberIds of None \<Rightarrow> [] | Some ids \<Rightarrow> ids).
        find (\<lambda>s. student_id s = i) (students db) \<noteq> None}"
proof -
  from createTeam_Inr [OF assms]
  have eq: "map studentId (members team) =
           filter (\<lambda>i. find (\<lambda>s. student_id s = i) (students db) \<noteq> None)
             (case memberIds of None \<Rightarrow> [] | Some ids \<Rightarrow> ids)"
    by blast
  show ?thesis by (simp only: eq set_filter)
qed

text \<open>A created team lists its leader as a member exactly when the leader invited themselves.\<close>

lemma createTeam_leader_member:
  assumes "createTeam P db leader name memberIds newId = (Inr team, db')"
  shows "leaderId team = leader
       \<and> (leaderId team \<in> set (map studentId (members team))
            \<longleftrightarrow> invitesSelf (CreateTeam leader name memberIds newId))"
proof -
  note m = createTeam_Inr [OF assms] and ms = createTeam_member_set [OF assms]
  have lt: "leaderId team = leader" using m by blast
  have lf: "find (\<lambda>s. student_id s = leader) (students db) \<noteq> None" using m by blast
  have "leader \<in> set (map studentId (members team))
      \<longleftrightarrow> leader \<in> set (case memberIds of None \<Rightarrow> [] | Some ids \<Rightarrow> ids)"
    using lf by (simp only: ms) simp
  also have "\<dots> \<longleftrightarrow> invitesSelf (CreateTeam leader name memberIds newId)"
    by (simp split: option.splits)
  finally show ?thesis using lt by simp
qed

lemma leaderNotMember_createTeam:
  assumes "leaderNotMember db" and "\<not> invitesSelf (CreateTeam leader name memberIds newId)"
  shows "leaderNotMember (snd (createTeam P db leader name memberIds newId))"
proof (cases "fst (createTeam P db leader name memberIds newId)")
  case (Inl e)
  with assms(1) show ?thesis by (simp add: createTeam_Inl)
next
  case (Inr team)
  then have c: "createTeam P db leader name memberIds newId =
      (Inr team, snd (createTeam P db leader name memberIds newId))"
    by (simp add: prod_eq_iff)
  from createTeam_leader_member [OF c] assms(2)
  have "leaderId team \<notin> set (map studentId (members team))" by blast
  moreover have "snd (createTeam P db leader name memberIds newId) = db\<lparr>teams := teams db @ [team]\<rparr>"
    using createTeam_Inr [OF c] by blast
  ultimately show ?thesis using assms(1)
    by (simp add: leaderNotMember_def)
qed

lemma studentId_update:
  "i < length ms \<Longrightarrow>
     map studentId (ms[i := (ms ! i)\<lparr>member_status := d, joinedAt := j\<rparr>]) = map studentId ms"
  by (simp add: map_update list_update_same_conv)

lemma leaderNotMember_respond:
  assumes "leaderNotMember db"
  shows "leaderNotMember (snd (respondToInvitation db student teamId status now))"
  using respondToInvitation_cases [of db student teamId status now]
proof (elim disjE exE conjE)
  fix u decision i ms
  assume u: "CompetitionTeam_findById (teams db) teamId = Some u"
    and i: "i < length (members u)"
    and ms: "ms = (members u)[i := (members u ! i)
                  \<lparr>member_status := decision,
                   joinedAt := (if decision = MemberApproved then Some now else joinedAt (members u ! i))\<rparr>]"
    and r: "respondToInvitation db student teamId status now =
           (Inr (u\<lparr>members := ms,
                   team_status := (if (\<forall>m \<in> set ms. member_status m \<noteq> MemberPending)
                                      \<and> (\<forall>m \<in> set ms. member_status m = MemberApproved)
                                   then TeamActive else team_status u)\<rparr>),
            team_save db (u\<lparr>members := ms,
                   team_status := (if (\<forall>m \<in> set ms. member_status m \<noteq> MemberPending)
                                      \<and> (\<forall>m \<in> set ms. member_status m = MemberApproved)
                                   then TeamActive else team_status u)\<rparr>))"
  have "map studentId ms = map studentId (members u)"
    unfolding ms using i by (rule studentId_update)
  with leaderNotMember_found [OF assms u]
  have "leaderId u \<notin> set (map studentId ms)" by simp
  then show ?thesis
    using r assms by (simp add: leaderNotMember_save)
qed (use assms in simp_all)

lemma leaderNotMember_leave:
  assumes "leaderNotMember db"
  shows "leaderNotMember (snd (leaveTeam db student teamId))"
  using leaveTeam_snd [of db student teamId]
proof (elim disjE exE conjE)
  fix u
  assume u: "CompetitionTeam_findById (teams db) teamId = Some u"
    and r: "snd (leaveTeam db student teamId) =
          team_save db (u\<lparr>members := filter (\<lambda>m. studentId m \<noteq> student) (members u)\<rparr>)"
  from leaderNotMember_found [OF assms u]
  have "leaderId u \<notin> set (map studentId (filter (\<lambda>m. studentId m \<noteq> student) (members u)))"
    by auto
  then show ?thesis using r assms by (simp add: leaderNotMember_save)
qed (use assms in simp)

lemma leaderNotMember_remove:
  assumes "leaderNotMember db"
  shows "leaderNotMember (snd (removeMember db student teamId memberId))"
  using removeMember_snd [of db student teamId memberId]
proof (elim disjE exE conjE)
  fix u
  assume u: "CompetitionTeam_findById (teams db) teamId = Some u"
    and r: "snd (removeMember db student teamId memberId) =
          team_save db (u\<lparr>members := filter (\<lambda>m. studentId m \<noteq> memberId) (members u)\<rparr>)"
  from leaderNotMember_found [OF assms u]
  have "leaderId u \<notin> set (map studentId (filter (\<lambda>m. studentId m \<noteq> memberId) (members u)))"
    by auto
  then show ?thesis using r assms by (simp add: leaderNotMember_save)
qed (use assms in simp)

lemma leaderNotMember_disband:
  assumes "leaderNotMember db"
  shows "leaderNotMember (snd (disbandTeam db student teamId))"
  using disbandTeam_snd [of db student teamId]
proof (elim disjE exE conjE)
  fix u
  assume u: "CompetitionTeam_findById (teams db) teamId = Some u"
    and r: "snd (disbandTeam db student teamId) = team_save db (u\<lparr>team_status := TeamDisbanded\<rparr>)"
  from leaderNotMember_found [OF assms u] r assms
  show ?thesis by (simp add: leaderNotMember_save)
qed (use assms in simp)


lemma leaderNotMember_handle:
  "leaderNotMember db \<Longrightarrow> \<not> invitesSelf req \<Longrightarrow> leaderNotMember (handle P db req)"
  by (cases req)
     (simp_all add: leaderNotMember_createTeam leaderNotMember_respond leaderNotMember_leave
        leaderNotMember_disband leaderNotMember_remove del: invitesSelf.simps)

lemma leaderNotMember_run:
  "leaderNotMember db \<Longrightarrow> \<not> list_ex invitesSelf reqs \<Longrightarrow> leaderNotMember (run P db reqs)"
  unfolding run_def
proof (induction reqs arbitrary: db)
  case Nil
  then show ?case by simp
next
  case (Cons r reqs)
  from Cons.prems have "leaderNotMember (handle P db r)" "\<not> list_ex invitesSelf reqs"
    by (simp_all add: leaderNotMember_handle)
  then show ?case using Cons.IH by simp
qed

text \<open>
  Claim C7 (as amended). If no stored team has its leader among its members and no
  \<open>createTeam\<close> request lists the requester's own id among the invitees, then after any
  sequence of requests no stored team has its leader among its members. \<open>createTeam\<close>
  itself, whenever it creates a team, puts the leader in the members list exactly when the
  leader's id is among the invitee ids; and it does create the team when the leader is a
  student, the name is free, not empty once trimmed and at most 100 code units long, every
  invitee id is an object id and the directory holds stored students. \<open>leaveTeam\<close> invoked
  by the leader fails with "Team leader cannot leave. Disband the team instead." and changes
  nothing; \<open>removeMember\<close> invoked by the leader with the leader's own id is not rejected:
  it succeeds and removes the entries with that id, which leaves the members list as it was
  when the leader has no entry.
\<close>

theorem leader_membership:
  "(leaderNotMember db \<and> \<not> list_ex invitesSelf reqs \<longrightarrow> leaderNotMember (run isObjectId db reqs))
   \<and> (createTeam isObjectId db leader name memberIds newId = (Inr created, db') \<longrightarrow>
        db' = db\<lparr>teams := teams db @ [created]\<rparr>
        \<and> leaderId created = leader
        \<and> (leaderId created \<in> set (map studentId (members created))
             \<longleftrightarrow> invitesSelf (CreateTeam leader name memberIds newId)))
   \<and> ((\<exists>leaderDoc. Student_findById isObjectId (students db) leader = Inr (Some leaderDoc))
        \<and> CompetitionTeam_findOne_name (teams db) name = None
        \<and> (\<forall>i \<in> set (case memberIds of None \<Rightarrow> [] | Some ids \<Rightarrow> ids). isObjectId i)
        \<and> trim name \<noteq> [] \<and> length (trim name) \<le> 100
        \<and> list_all storedStudent (students db) \<longrightarrow>
        (\<exists>team. createTeam isObjectId db leader name memberIds newId
                   = (Inr team, db\<lparr>teams := teams db @ [team]\<rparr>)))
   \<and> (CompetitionTeam_findById (teams db) teamId = Some team \<and> leaderId team = student \<longrightarrow>
        leaveTeam db student teamId =
          (Inl (AppError ''Team leader cannot leave. Disband the team instead.'' 400 None), db)
        \<and> removeMember db student teamId student =
            (Inr (team\<lparr>members := filter (\<lambda>m. studentId m \<noteq> student) (members team)\<rparr>),
             team_save db (team\<lparr>members := filter (\<lambda>m. studentId m \<noteq> student) (members team)\<rparr>))
        \<and> (student \<notin> set (map studentId (members team)) \<longrightarrow>
             filter (\<lambda>m. studentId m \<noteq> student) (members team) = members team))"
proof (intro conjI impI)
  assume "leaderNotMember db \<and> \<not> list_ex invitesSelf reqs"
  then show "leaderNotMember (run isObjectId db reqs)" by (simp add: leaderNotMember_run)
next
  assume c: "createTeam isObjectId db leader name memberIds newId = (Inr created, db')"
  from createTeam_Inr [OF c] show "db' = db\<lparr>teams := teams db @ [created]\<rparr>" by blast
  from createTeam_leader_member [OF c] show "leaderId created = leader"
    and "leaderId created \<in> set (map studentId (members created))
             \<longleftrightarrow> invitesSelf (CreateTeam leader name memberIds newId)"
    by blast+
next
  assume a: "(\<exists>leaderDoc. Student_findById isObjectId (students db) leader = Inr (Some leaderDoc))
        \<and> CompetitionTeam_findOne_name (teams db) name = None
        \<and> (\<forall>i \<in> set (case memberIds of None \<Rightarrow> [] | Some ids \<Rightarrow> ids). isObjectId i)
        \<and> trim name \<noteq> [] \<and> length (trim name) \<le> 100
        \<and> list_all storedStudent (students db)"
  then obtain leaderDoc where l: "Student_findById isObjectId (students db) leader = Inr (Some leaderDoc)"
    by blast
  from a have n: "CompetitionTeam_findOne_name (teams db) name = None"
    and wf: "\<forall>i \<in> set (case memberIds of None \<Rightarrow> [] | Some ids \<Rightarrow> ids). isObjectId i"
    and nm: "trim name \<noteq> []" "length (trim name) \<le> 100"
    and ss: "list_all storedStudent (students db)" by simp_all
  from createTeam_created [OF l n wf nm ss]
  show "\<exists>team. createTeam isObjectId db leader name memberIds newId
                   = (Inr team, db\<lparr>teams := teams db @ [team]\<rparr>)" .
next
  assume a: "CompetitionTeam_findById (teams db) teamId = Some team \<and> leaderId team = student"
  then show "leaveTeam db student teamId =
          (Inl (AppError ''Team leader cannot leave. Disband the team instead.'' 400 None), db)"
    by (simp add: leaveTeam_def)
  from a show "removeMember db student teamId student =
            (Inr (team\<lparr>members := filter (\<lambda>m. studentId m \<noteq> student) (members team)\<rparr>),
             team_save db (team\<lparr>members := filter (\<lambda>m. studentId m \<noteq> student) (members team)\<rparr>))"
    by (simp add: removeMember_def Let_def)
next
  assume "student \<notin> set (map studentId (members team))"
  then show "filter (\<lambda>m. studentId m \<noteq> student) (members team) = members team"
    by (auto simp: filter_id_conv)
qed

theorem leader_membership_witness:
  "leaderNotMember (run hex24 ex_team_db
      [CreateTeam ''64a000000000000000000001'' ''alpha''
         (Some [''64a000000000000000000002'', ''64a000000000000000000003'']) ''64b000000000000000000001'',
       RespondToInvitation ''64a000000000000000000002'' ''64b000000000000000000001'' ''approved'' 5,
       RemoveMember ''64a000000000000000000001'' ''64b000000000000000000001'' ''64a000000000000000000001''])
   \<and> (\<exists>team. createTeam hex24 ex_team_db ''64a000000000000000000001'' ''alpha''
         (Some [''64a000000000000000000002'', ''64a000000000000000000003'']) ''64b000000000000000000001''
        = (Inr team, ex_team_db\<lparr>teams := teams ex_team_db @ [team]\<rparr>))
   \<and> leaveTeam ex_team_db1 ''64a000000000000000000001'' ''64b000000000000000000001'' =
          (Inl (AppError ''Team leader cannot leave. Disband the team instead.'' 400 None), ex_team_db1)"
proof -
  let ?reqs = "[CreateTeam ''64a000000000000000000001'' ''alpha''
         (Some [''64a000000000000000000002'', ''64a000000000000000000003'']) ''64b000000000000000000001'',
       RespondToInvitation ''64a000000000000000000002'' ''64b000000000000000000001'' ''approved'' 5,
       RemoveMember ''64a000000000000000000001'' ''64b000000000000000000001'' ''64a000000000000000000001'']"
  have h: "leaderNotMember ex_team_db \<and> \<not> list_ex invitesSelf ?reqs"
    by (simp add: leaderNotMember_def ex_team_defs)
  have h2: "(\<exists>leaderDoc. Student_findById hex24 (students ex_team_db) ''64a000000000000000000001''
               = Inr (Some leaderDoc))
        \<and> CompetitionTeam_findOne_name (teams ex_team_db) ''alpha'' = None
        \<and> (\<forall>i \<in> set (case Some [''64a000000000000000000002'', ''64a000000000000000000003'']
                       of None \<Rightarrow> [] | Some ids \<Rightarrow> ids). hex24 i)
        \<and> trim ''alpha'' \<noteq> [] \<and> length (trim ''alpha'') \<le> 100
        \<and> list_all storedStudent (students ex_team_db)"
    using ex_leader_found ex_name_free
    by (simp add: hex24_def trim_alpha storedStudent_def ex_team_defs)
  have h3: "CompetitionTeam_findById (teams ex_team_db1) ''64b000000000000000000001'' = Some ex_team1
        \<and> leaderId ex_team1 = ''64a000000000000000000001''"
    by (simp add: CompetitionTeam_findById_def ex_team_defs)
  note t = leader_membership [where isObjectId = hex24]
  from t [where db = ex_team_db and reqs = ?reqs, THEN conjunct1, THEN mp, OF h]
    t [where db = ex_team_db and leader = "''64a000000000000000000001''" and name = "''alpha''"
        and memberIds = "Some [''64a000000000000000000002'', ''64a000000000000000000003'']"
        and newId = "''64b000000000000000000001''",
        THEN conjunct2, THEN conjunct2, THEN conjunct1, THEN mp, OF h2]
    t [where db = ex_team_db1 and teamId = "''64b000000000000000000001''" and team = ex_team1
        and student = "''64a000000000000000000001''",
        THEN conjunct2, THEN conjunct2, THEN conjunct2, THEN mp, OF h3, THEN conjunct1]
  show ?thesis by (intro conjI)
qed

text \<open>
  Counterexample to claim C7 as stated: a leader who lists their own id among the invitees
  becomes a member entry of the new team; and removing the leader's id is not rejected.
\<close>

theorem leader_listed_as_member_counterexample:
  "map leaderId (teams (run hex24 ex_team_db
       [CreateTeam ''64a000000000000000000001'' ''alpha''
          (Some [''64a000000000000000000001'', ''64a000000000000000000002''])
          ''64b000000000000000000001'']))
     = [''64a000000000000000000001'']
   \<and> map studentId (concat (map members
        (teams (run hex24 ex_team_db
          [CreateTeam ''64a000000000000000000001'' ''alpha''
             (Some [''64a000000000000000000001'', ''64a000000000000000000002''])
             ''64b000000000000000000001'']))))
     = [''64a000000000000000000001'', ''64a000000000000000000002'']
   \<and> fst (removeMember (run hex24 ex_team_db
            [CreateTeam ''64a000000000000000000001'' ''alpha''
               (Some [''64a000000000000000000002'', ''64a000000000000000000003''])
               ''64b000000000000000000001''])
          ''64a000000000000000000001'' ''64b000000000000000000001'' ''64a000000000000000000001'')
       = Inr ex_team1"
  by (simp add: team_op_defs ex_team_defs trim_alpha)

end
